theory Spec2Isabelle
  imports Complex_Main
begin

section \<open>Data frames\<close>

text \<open>
  Both programs (\<^verbatim>\<open>load_data\<close> of \<^verbatim>\<open>dashboard.py\<close> and the top-level script
  \<^verbatim>\<open>sales_analysis.py\<close>) work on pandas data frames read from three sheets:
  \<^verbatim>\<open>SalesData\<close>, \<^verbatim>\<open>nameRef\<close> and \<^verbatim>\<open>comboRef\<close>. A cell holds a string, a number
  or the missing value (NaN, NaT and None alike). A row is the cell of every column
  name; only the names listed in \<open>columns\<close> are columns of the frame, and reading a
  column that is not listed raises \<^verbatim>\<open>KeyError\<close>. Numbers are the reals: no property
  below depends on how a sum is rounded.
\<close>

datatype cell = Text string | Number real | NaN

type_synonym row = "string \<Rightarrow> cell"

record frame =
  columns :: "string list"
  rows :: "row list"

datatype error = KeyError string

text \<open>
  The library functions the programs call and whose insides are not part of the
  repository: the number parser behind \<^verbatim>\<open>pd.to_numeric\<close>, \<^verbatim>\<open>pd.to_datetime\<close>, the
  \<^verbatim>\<open>.dt\<close> accessors and the printing of a number by \<^verbatim>\<open>astype(str)\<close>.
\<close>

record pandas =
  parse_number :: "string \<Rightarrow> real option"
  to_datetime :: "cell \<Rightarrow> cell"
  dt_year :: "cell \<Rightarrow> cell"
  dt_month :: "cell \<Rightarrow> cell"
  dt_month_year :: "cell \<Rightarrow> cell"
  dt_week :: "cell \<Rightarrow> cell"
  dt_day_name :: "cell \<Rightarrow> cell"
  dt_hour :: "cell \<Rightarrow> cell"
  str_of_number :: "real \<Rightarrow> string"

definition empty_row :: row where
  "empty_row = (\<lambda>c. NaN)"

definition column :: "string \<Rightarrow> row list \<Rightarrow> cell list" where
  "column name rs = map (\<lambda>r. r name) rs"

text \<open>\<^verbatim>\<open>pd.to_numeric(x, errors='coerce')\<close>: what does not parse becomes missing.\<close>

definition to_numeric :: "pandas \<Rightarrow> cell \<Rightarrow> cell" where
  "to_numeric lib c =
     (case c of
        Number x \<Rightarrow> Number x
      | NaN \<Rightarrow> NaN
      | Text s \<Rightarrow> (case parse_number lib s of Some x \<Rightarrow> Number x | None \<Rightarrow> NaN))"

definition fillna :: "cell \<Rightarrow> cell \<Rightarrow> cell" where
  "fillna v c = (if c = NaN then v else c)"

definition notna :: "cell \<Rightarrow> bool" where
  "notna c \<longleftrightarrow> c \<noteq> NaN"

definition astype_str :: "pandas \<Rightarrow> cell \<Rightarrow> cell" where
  "astype_str lib c =
     (case c of
        Text s \<Rightarrow> Text s
      | Number x \<Rightarrow> Text (str_of_number lib x)
      | NaN \<Rightarrow> Text ''nan'')"

text \<open>
  The elementwise \<^verbatim>\<open>==\<close> of a column with a value: a missing value equals nothing,
  not even itself.
\<close>

definition pd_eq :: "cell \<Rightarrow> cell \<Rightarrow> bool" where
  "pd_eq a b \<longleftrightarrow> a \<noteq> NaN \<and> b \<noteq> NaN \<and> a = b"

text \<open>
  \<^verbatim>\<open>Series.unique\<close> keeps the first occurrence of every value, the missing value
  included, and \<^verbatim>\<open>Series.isin\<close> finds a missing value among the values when there
  is one.
\<close>

fun unique :: "cell list \<Rightarrow> cell list" where
  "unique [] = []"
| "unique (c # cs) = c # unique (filter (\<lambda>d. d \<noteq> c) cs)"

definition isin :: "cell \<Rightarrow> cell list \<Rightarrow> bool" where
  "isin c cs \<longleftrightarrow> c \<in> set cs"

text \<open>\<^verbatim>\<open>x * 1\<close> on a cell: a number stays that number, a string repeated once is itself.\<close>

definition times_one :: "cell \<Rightarrow> cell" where
  "times_one c = (case c of Number x \<Rightarrow> Number (x * 1) | Text s \<Rightarrow> Text s | NaN \<Rightarrow> NaN)"

text \<open>\<^verbatim>\<open>df[name] = f(row)\<close>: the column is overwritten, or added as the last one.\<close>

definition add_column :: "string \<Rightarrow> string list \<Rightarrow> string list" where
  "add_column name cols = (if name \<in> set cols then cols else cols @ [name])"

definition upd :: "string \<Rightarrow> (row \<Rightarrow> cell) \<Rightarrow> row \<Rightarrow> row" where
  "upd name f r = r(name := f r)"

definition assign :: "string \<Rightarrow> (row \<Rightarrow> cell) \<Rightarrow> frame \<Rightarrow> frame" where
  "assign name f df =
     \<lparr>columns = add_column name (columns df),
      rows = map (upd name f) (rows df)\<rparr>"

text \<open>\<^verbatim>\<open>df[mask]\<close>: the rows the mask keeps, in order.\<close>

definition where_rows :: "(row \<Rightarrow> bool) \<Rightarrow> frame \<Rightarrow> frame" where
  "where_rows p df = \<lparr>columns = columns df, rows = filter p (rows df)\<rparr>"

text \<open>\<^verbatim>\<open>df[[c1, ..., cn]]\<close> and \<^verbatim>\<open>df.columns = [n1, ..., nn]\<close> (renaming by position).\<close>

definition select :: "string list \<Rightarrow> frame \<Rightarrow> frame" where
  "select cols df =
     \<lparr>columns = cols,
      rows = map (\<lambda>r c. if c \<in> set cols then r c else NaN) (rows df)\<rparr>"

definition set_columns :: "string list \<Rightarrow> frame \<Rightarrow> frame" where
  "set_columns names df =
     \<lparr>columns = names,
      rows = map (\<lambda>r c. case map_of (zip names (columns df)) c of
                          Some old \<Rightarrow> r old | None \<Rightarrow> NaN) (rows df)\<rparr>"

text \<open>
  \<^verbatim>\<open>drop_duplicates(subset=[key])\<close> keeps the first row of every key; two missing
  keys count as the same key.
\<close>

fun dedup_rows :: "string \<Rightarrow> row list \<Rightarrow> row list" where
  "dedup_rows key [] = []"
| "dedup_rows key (r # rs) = r # dedup_rows key (filter (\<lambda>e. e key \<noteq> r key) rs)"

definition drop_duplicates :: "string \<Rightarrow> frame \<Rightarrow> frame" where
  "drop_duplicates key df = \<lparr>columns = columns df, rows = dedup_rows key (rows df)\<rparr>"

text \<open>
  \<^verbatim>\<open>left.merge(right, on=key, how='left')\<close> for frames that share no column but the
  key: every left row, in order, once for each right row with the same key (a missing
  key matches a missing key), and once with missing values when there is none. pandas
  refuses to join a key column of strings with one of numbers (\<^verbatim>\<open>ValueError\<close>); that
  refusal is not part of the model, whose results are those of the runs that pass it.
\<close>

definition merge_left :: "string \<Rightarrow> frame \<Rightarrow> frame \<Rightarrow> frame" where
  "merge_left key left right =
     (let extra = filter (\<lambda>c. c \<noteq> key) (columns right) in
      \<lparr>columns = columns left @ extra,
       rows = concat (map (\<lambda>l.
                case filter (\<lambda>e. e key = l key) (rows right) of
                  [] \<Rightarrow> [\<lambda>c. if c \<in> set extra then NaN else l c]
                | ms \<Rightarrow> map (\<lambda>e c. if c \<in> set extra then e c else l c) ms)
              (rows left))\<rparr>)"

text \<open>\<^verbatim>\<open>pd.concat([a, b], ignore_index=True)\<close>.\<close>

definition concat_frames :: "frame \<Rightarrow> frame \<Rightarrow> frame" where
  "concat_frames a b =
     \<lparr>columns = columns a @ filter (\<lambda>c. c \<notin> set (columns a)) (columns b),
      rows = rows a @ rows b\<rparr>"

text \<open>\<^verbatim>\<open>df.drop(columns=[...], errors='ignore')\<close>.\<close>

definition drop_columns :: "string list \<Rightarrow> frame \<Rightarrow> frame" where
  "drop_columns cols df =
     \<lparr>columns = filter (\<lambda>c. c \<notin> set cols) (columns df),
      rows = map (\<lambda>r c. if c \<in> set cols then NaN else r c) (rows df)\<rparr>"

section \<open>The transaction cleaner\<close>

definition numeric_cols :: "string list" where
  "numeric_cols = [''Price'', ''Qty.'', ''Sub Total'', ''Discount'', ''Tax'', ''Final Total'']"

text \<open>
  \<^verbatim>\<open>dashboard.py\<close> lines 119 to 134 and \<^verbatim>\<open>sales_analysis.py\<close> lines 58 to 78, the
  same statements in both: keep the rows whose status is \<^verbatim>\<open>Success\<close>, coerce the dates
  and the numeric columns, derive the calendar columns.
\<close>

definition clean_sales :: "pandas \<Rightarrow> frame \<Rightarrow> frame" where
  "clean_sales lib df_sales =
     (let df1 = where_rows (\<lambda>r. r ''Status'' = Text ''Success'') df_sales;
          df2 = assign ''Date'' (\<lambda>r. to_datetime lib (r ''Date'')) df1;
          df3 = assign ''Timestamp'' (\<lambda>r. to_datetime lib (r ''Timestamp'')) df2;
          df4 = foldl (\<lambda>df col. assign col (\<lambda>r. to_numeric lib (r col)) df) df3 numeric_cols;
          df5 = assign ''Year'' (\<lambda>r. dt_year lib (r ''Date'')) df4;
          df6 = assign ''Month'' (\<lambda>r. dt_month lib (r ''Date'')) df5;
          df7 = assign ''Month-Year'' (\<lambda>r. dt_month_year lib (r ''Date'')) df6;
          df8 = assign ''Week'' (\<lambda>r. dt_week lib (r ''Date'')) df7;
          df9 = assign ''DayOfWeek'' (\<lambda>r. dt_day_name lib (r ''Date'')) df8
      in assign ''Hour'' (\<lambda>r. dt_hour lib (r ''Timestamp'')) df9)"

text \<open>The sales channel derived from the area (both programs).\<close>

definition channel_of_area :: "row \<Rightarrow> cell" where
  "channel_of_area r = (if r ''Area'' = Text ''Swiggy'' then Text ''Delivery'' else Text ''In-Shop'')"

text \<open>\<^verbatim>\<open>dashboard.py\<close> lines 137 to 142: an explicit channel column wins.\<close>

definition sales_channel :: "frame \<Rightarrow> frame" where
  "sales_channel df =
     (if ''Online / Offline'' \<in> set (columns df)
      then assign ''Sales Channel'' (\<lambda>r. r ''Online / Offline'') df
      else assign ''Sales Channel'' channel_of_area df)"

text \<open>\<^verbatim>\<open>dashboard.py\<close> lines 153 to 155.\<close>

definition ensure_outlet :: "frame \<Rightarrow> frame" where
  "ensure_outlet df =
     (let df1 = (if ''Outlet'' \<notin> set (columns df)
                 then assign ''Outlet'' (\<lambda>r. Text ''Unknown'') df else df)
      in assign ''Outlet'' (\<lambda>r. fillna (Text ''Unknown'') (r ''Outlet'')) df1)"

text \<open>
  The cleaned transaction set of each program: what the view builders receive.
\<close>

definition cleaned_dashboard :: "pandas \<Rightarrow> frame \<Rightarrow> frame" where
  "cleaned_dashboard lib df_sales = ensure_outlet (sales_channel (clean_sales lib df_sales))"

definition cleaned_script :: "pandas \<Rightarrow> frame \<Rightarrow> frame" where
  "cleaned_script lib df_sales = assign ''Sales Channel'' channel_of_area (clean_sales lib df_sales)"

section \<open>The reference tables\<close>

text \<open>
  The item mapping (\<^verbatim>\<open>df_name_ref_clean\<close>): four columns of \<^verbatim>\<open>nameRef\<close>, renamed, the
  first row of every item name.
\<close>

definition name_ref_columns :: "string list" where
  "name_ref_columns = [''Item Name'', ''Real Item Name'', ''Parent Category'', ''Sub Category'']"

definition name_ref_clean :: "frame \<Rightarrow> frame" where
  "name_ref_clean df_name_ref =
     drop_duplicates ''Item Name''
       (set_columns name_ref_columns
          (select [''Item'', ''Real Name'', ''Parent'', ''Sub Category''] df_name_ref))"

text \<open>
  The join with the item mapping and the three \<^verbatim>\<open>fillna\<close> that follow it, as both
  programs write them for the revenue view and for the rows that are no combo.
  \<open>post\<close> is what the program does to the sub category after the fill:
  \<^verbatim>\<open>astype(str)\<close> in \<^verbatim>\<open>dashboard.py\<close>, nothing in \<^verbatim>\<open>sales_analysis.py\<close>.
\<close>

definition merge_name_ref :: "(cell \<Rightarrow> cell) \<Rightarrow> frame \<Rightarrow> frame \<Rightarrow> frame" where
  "merge_name_ref post df df_name_ref_clean =
     (let m = merge_left ''Item Name'' df df_name_ref_clean;
          m1 = assign ''Real Item Name'' (\<lambda>r. fillna (r ''Item Name'') (r ''Real Item Name'')) m;
          m2 = assign ''Parent Category'' (\<lambda>r. fillna (Text ''Unknown'') (r ''Parent Category'')) m1
      in assign ''Sub Category'' (\<lambda>r. post (fillna (Text ''Unknown'') (r ''Sub Category''))) m2)"

section \<open>The dashboard: \<^verbatim>\<open>load_data\<close>\<close>

text \<open>
  The components of a combo row: the rows of the combo mapping whose item name
  \<^verbatim>\<open>==\<close> the row's.
\<close>

definition components_of :: "frame \<Rightarrow> row \<Rightarrow> row list" where
  "components_of df_combo_ref_clean row =
     filter (\<lambda>c. pd_eq (c ''Item Name'') (row ''Item Name'')) (rows df_combo_ref_clean)"

text \<open>\<^verbatim>\<open>dashboard.py\<close> lines 186 to 201: the row emitted for one component.\<close>

definition component_row :: "frame \<Rightarrow> row \<Rightarrow> row \<Rightarrow> row" where
  "component_row df_name_ref_clean row component =
     (let new_row = row(''Real Item Name'' := component ''Real Item Name'',
                        ''Qty.'' := times_one (row ''Qty.''));
          matching_name = filter (\<lambda>e. pd_eq (e ''Real Item Name'') (component ''Real Item Name''))
                            (rows df_name_ref_clean)
      in case matching_name of
           m # _ \<Rightarrow> new_row(''Parent Category'' := m ''Parent Category'',
                            ''Sub Category'' := m ''Sub Category'')
         | [] \<Rightarrow> new_row(''Parent Category'' := component ''Category'',
                          ''Sub Category'' := (if notna (component ''Sub Category'')
                                               then component ''Sub Category''
                                               else component ''Real Item Name'')))"

definition explode :: "frame \<Rightarrow> frame \<Rightarrow> row \<Rightarrow> row list" where
  "explode df_name_ref_clean df_combo_ref_clean row =
     map (component_row df_name_ref_clean row) (components_of df_combo_ref_clean row)"

text \<open>
  The first column a statement of \<^verbatim>\<open>load_data\<close> reads and does not find, in the order
  of the statements. After the join, a column of the transactions named like one of the
  item mapping's is renamed with a suffix, and the \<^verbatim>\<open>fillna\<close> that reads it fails.
\<close>

definition first_missing :: "string list \<Rightarrow> string list \<Rightarrow> string option" where
  "first_missing needed cols = find (\<lambda>c. c \<notin> set cols) needed"

definition first_clash :: "frame \<Rightarrow> string option" where
  "first_clash df_sales =
     find (\<lambda>c. c \<in> set (columns df_sales)) [''Real Item Name'', ''Parent Category'', ''Sub Category'']"

definition or_else :: "'a option \<Rightarrow> 'a option \<Rightarrow> 'a option" where
  "or_else a b = (case a of Some x \<Rightarrow> Some x | None \<Rightarrow> b)"

definition missing_column_dashboard :: "frame \<Rightarrow> frame \<Rightarrow> frame \<Rightarrow> string option" where
  "missing_column_dashboard df_sales df_name_ref df_combo_ref =
     or_else (first_missing ([''Status'', ''Date'', ''Timestamp''] @ numeric_cols) (columns df_sales))
    (or_else (if ''Online / Offline'' \<in> set (columns df_sales) then None
              else first_missing [''Area''] (columns df_sales))
    (or_else (first_missing [''Item'', ''Real Name'', ''Parent'', ''Sub Category''] (columns df_name_ref))
    (or_else (first_missing [''Item Name'', ''Real Item Name'', ''Category'', ''Sub Category'']
                (columns df_combo_ref))
    (or_else (first_missing [''Item Name''] (columns df_sales))
             (first_clash df_sales)))))"

text \<open>Lines 144 to 150: the two reference tables as the view builders use them.\<close>

definition combo_ref_clean :: "frame \<Rightarrow> frame" where
  "combo_ref_clean df_combo_ref =
     select [''Item Name'', ''Real Item Name'', ''Category'', ''Sub Category''] df_combo_ref"

text \<open>Lines 158 to 165: the revenue view.\<close>

definition revenue_analysis :: "pandas \<Rightarrow> frame \<Rightarrow> frame \<Rightarrow> frame" where
  "revenue_analysis lib df_sales df_name_ref_clean =
     merge_name_ref (astype_str lib) df_sales df_name_ref_clean"

text \<open>Lines 168 to 210: the quantity view.\<close>

definition quantity_analysis :: "pandas \<Rightarrow> frame \<Rightarrow> frame \<Rightarrow> frame \<Rightarrow> frame" where
  "quantity_analysis lib df_sales df_name_ref_clean df_combo_ref_clean =
     (let combo_items = unique (column ''Item Name'' (rows df_combo_ref_clean));
          df_non_combo = where_rows (\<lambda>r. \<not> isin (r ''Item Name'') combo_items) df_sales;
          df_non_combo_merged = merge_name_ref (astype_str lib) df_non_combo df_name_ref_clean;
          df_combo = where_rows (\<lambda>r. isin (r ''Item Name'') combo_items) df_sales;
          combo_exploded_list =
            concat (map (explode df_name_ref_clean df_combo_ref_clean) (rows df_combo));
          df_quantity_analysis =
            (if combo_exploded_list \<noteq> []
             then concat_frames df_non_combo_merged
                    \<lparr>columns = columns df_combo @
                                 [''Real Item Name'', ''Parent Category'', ''Sub Category''],
                     rows = combo_exploded_list\<rparr>
             else df_non_combo_merged)
      in assign ''Sub Category''
           (\<lambda>r. astype_str lib (fillna (Text ''Unknown'') (r ''Sub Category'')))
           df_quantity_analysis)"

text \<open>
  \<^verbatim>\<open>load_data\<close>, from the three frames the loader returned. Every exception is caught
  by the function's \<^verbatim>\<open>except\<close>, which reports it and returns \<^verbatim>\<open>None, None\<close>: the
  \<open>Inl\<close> result. Otherwise the result is the pair of the revenue view and the
  quantity view.
\<close>

definition load_data :: "pandas \<Rightarrow> frame \<Rightarrow> frame \<Rightarrow> frame \<Rightarrow> error + frame \<times> frame" where
  "load_data lib df_sales0 df_name_ref df_combo_ref =
     (case missing_column_dashboard df_sales0 df_name_ref df_combo_ref of
        Some c \<Rightarrow> Inl (KeyError c)
      | None \<Rightarrow>
         (let df_sales = cleaned_dashboard lib df_sales0;
              df_name_ref_clean = name_ref_clean df_name_ref;
              df_combo_ref_clean = combo_ref_clean df_combo_ref
          in Inr (revenue_analysis lib df_sales df_name_ref_clean,
                  quantity_analysis lib df_sales df_name_ref_clean df_combo_ref_clean)))"

section \<open>The script: \<^verbatim>\<open>sales_analysis.py\<close>\<close>

text \<open>Lines 161 to 166: the row appended for one component.\<close>

definition component_row_script :: "row \<Rightarrow> row \<Rightarrow> row" where
  "component_row_script row component =
     row(''Real Item Name'' := component ''Real Item Name'',
         ''Component Qty'' := times_one (row ''Qty.''))"

definition explode_script :: "frame \<Rightarrow> row \<Rightarrow> row list" where
  "explode_script df_combo_ref_clean row =
     map (component_row_script row) (components_of df_combo_ref_clean row)"

text \<open>Lines 168 to 195: the exploded rows get their quantity and their categories.\<close>

definition combo_exploded :: "frame \<Rightarrow> frame \<Rightarrow> row list \<Rightarrow> frame" where
  "combo_exploded df_name_ref_clean df_combo combo_exploded_list =
     (if combo_exploded_list \<noteq> [] then
        (let e0 = \<lparr>columns = add_column ''Component Qty''
                                (add_column ''Real Item Name'' (columns df_combo)),
                    rows = combo_exploded_list\<rparr>;
             e1 = assign ''Qty.'' (\<lambda>r. r ''Component Qty'') e0;
             e2 = (if ''Parent Category'' \<in> set (columns e1)
                   then drop_columns [''Parent Category'', ''Sub Category''] e1 else e1);
             e3 = merge_left ''Real Item Name'' e2
                    (drop_duplicates ''Real Item Name''
                       (select [''Real Item Name'', ''Parent Category'', ''Sub Category'']
                          df_name_ref_clean));
             e4 = assign ''Parent Category'' (\<lambda>r. fillna (Text ''Unknown'') (r ''Parent Category'')) e3;
             e5 = assign ''Sub Category'' (\<lambda>r. fillna (Text ''Unknown'') (r ''Sub Category'')) e4
         in drop_columns [''Component Qty''] e5)
      else \<lparr>columns = [], rows = []\<rparr>)"

definition missing_column_script :: "frame \<Rightarrow> frame \<Rightarrow> frame \<Rightarrow> string option" where
  "missing_column_script df_sales df_name_ref df_combo_ref =
     or_else (first_missing ([''Status'', ''Date'', ''Timestamp''] @ numeric_cols @ [''Area''])
                (columns df_sales))
    (or_else (first_missing [''Item'', ''Real Name'', ''Parent'', ''Sub Category''] (columns df_name_ref))
    (or_else (first_missing [''Item Name''] (columns df_sales))
    (or_else (first_clash df_sales)
             (first_missing [''Item Name'', ''Real Item Name''] (columns df_combo_ref)))))"

definition combo_ref_clean_script :: "frame \<Rightarrow> frame" where
  "combo_ref_clean_script df_combo_ref = select [''Item Name'', ''Real Item Name''] df_combo_ref"

text \<open>Lines 105 to 114: the revenue view.\<close>

definition revenue_analysis_script :: "frame \<Rightarrow> frame \<Rightarrow> frame" where
  "revenue_analysis_script df_sales df_name_ref_clean =
     merge_name_ref (\<lambda>c. c) df_sales df_name_ref_clean"

text \<open>Lines 125 to 201: the quantity view.\<close>

definition quantity_analysis_script :: "frame \<Rightarrow> frame \<Rightarrow> frame \<Rightarrow> frame" where
  "quantity_analysis_script df_sales df_name_ref_clean df_combo_ref_clean =
     (let combo_items = unique (column ''Item Name'' (rows df_combo_ref_clean));
          df_non_combo = where_rows (\<lambda>r. \<not> isin (r ''Item Name'') combo_items) df_sales;
          df_non_combo_merged = merge_name_ref (\<lambda>c. c) df_non_combo df_name_ref_clean;
          df_combo = where_rows (\<lambda>r. isin (r ''Item Name'') combo_items) df_sales;
          combo_exploded_list =
            concat (map (explode_script df_combo_ref_clean) (rows df_combo));
          df_combo_exploded = combo_exploded df_name_ref_clean df_combo combo_exploded_list
      in if rows df_combo_exploded \<noteq> [] \<and> columns df_combo_exploded \<noteq> []
         then concat_frames df_non_combo_merged df_combo_exploded
         else df_non_combo_merged)"

text \<open>
  The script from line 46 to line 201, from the three sheets it read. An exception
  ends the script: the \<open>Inl\<close> result. Otherwise it goes on with
  \<^verbatim>\<open>df_revenue_analysis\<close> and \<^verbatim>\<open>df_quantity_analysis\<close>.
\<close>

definition sales_analysis :: "pandas \<Rightarrow> frame \<Rightarrow> frame \<Rightarrow> frame \<Rightarrow> error + frame \<times> frame" where
  "sales_analysis lib df_sales0 df_name_ref df_combo_ref =
     (case missing_column_script df_sales0 df_name_ref df_combo_ref of
        Some c \<Rightarrow> Inl (KeyError c)
      | None \<Rightarrow>
         (let df_sales = cleaned_script lib df_sales0;
              df_name_ref_clean = name_ref_clean df_name_ref;
              df_combo_ref_clean = combo_ref_clean_script df_combo_ref
          in Inr (revenue_analysis_script df_sales df_name_ref_clean,
                  quantity_analysis_script df_sales df_name_ref_clean df_combo_ref_clean)))"

section \<open>Aggregates and example data\<close>

text \<open>\<^verbatim>\<open>Series.sum()\<close>: missing values are skipped.\<close>

definition col_sum :: "string \<Rightarrow> frame \<Rightarrow> real" where
  "col_sum name df =
     sum_list (map (\<lambda>c. case c of Number x \<Rightarrow> x | _ \<Rightarrow> 0) (column name (rows df)))"

text \<open>
  Example sheets. The transactions: a combo sold twice over, a failed sale, a mapped
  item, an item the item mapping does not know. The item mapping lists one item twice.
  The combo mapping gives the combo two components, the second one unknown to the item
  mapping.
\<close>

definition example_lib :: pandas where
  "example_lib =
     \<lparr>parse_number = (\<lambda>s. None), to_datetime = (\<lambda>c. c), dt_year = (\<lambda>c. NaN),
      dt_month = (\<lambda>c. NaN), dt_month_year = (\<lambda>c. NaN), dt_week = (\<lambda>c. NaN),
      dt_day_name = (\<lambda>c. NaN), dt_hour = (\<lambda>c. NaN), str_of_number = (\<lambda>x. ''0'')\<rparr>"

definition sales_columns :: "string list" where
  "sales_columns =
     [''Invoice No.'', ''Status'', ''Date'', ''Timestamp'', ''Item Name'', ''Area'',
      ''Price'', ''Qty.'', ''Sub Total'', ''Discount'', ''Tax'', ''Final Total'']"

definition sale :: "real \<Rightarrow> string \<Rightarrow> cell \<Rightarrow> real \<Rightarrow> real \<Rightarrow> row" where
  "sale invoice status item qty amount =
     empty_row(''Invoice No.'' := Number invoice, ''Status'' := Text status,
               ''Item Name'' := item, ''Area'' := Text ''Swiggy'',
               ''Qty.'' := Number qty, ''Final Total'' := Number amount)"

definition example_sales :: frame where
  "example_sales =
     \<lparr>columns = sales_columns,
      rows = [sale 1 ''Success'' (Text ''Combo-A'') 2 300,
              sale 2 ''Failed'' (Text ''Tea'') 1 20,
              sale 3 ''Success'' (Text ''Tea'') 1 20,
              sale 4 ''Success'' (Text ''Mystery'') 3 45]\<rparr>"

definition name_entry :: "string \<Rightarrow> string \<Rightarrow> string \<Rightarrow> string \<Rightarrow> row" where
  "name_entry item real_name parent sub =
     empty_row(''Item'' := Text item, ''Real Name'' := Text real_name,
               ''Parent'' := Text parent, ''Sub Category'' := Text sub)"

definition example_name_ref :: frame where
  "example_name_ref =
     \<lparr>columns = [''Item'', ''Real Name'', ''Parent'', ''Sub Category''],
      rows = [name_entry ''Tea'' ''Masala Tea'' ''Beverages'' ''Hot'',
              name_entry ''Tea'' ''Green Tea'' ''Beverages'' ''Cold'',
              name_entry ''Item-X'' ''Item-X'' ''Food'' ''Snacks'']\<rparr>"

definition combo_entry :: "cell \<Rightarrow> string \<Rightarrow> cell \<Rightarrow> cell \<Rightarrow> row" where
  "combo_entry item real_name category sub =
     empty_row(''Item Name'' := item, ''Real Item Name'' := Text real_name,
               ''Category'' := category, ''Sub Category'' := sub)"

definition example_combo_ref :: frame where
  "example_combo_ref =
     \<lparr>columns = [''Item Name'', ''Real Item Name'', ''Category'', ''Sub Category''],
      rows = [combo_entry (Text ''Combo-A'') ''Item-X'' (Text ''Food'') (Text ''Snacks''),
              combo_entry (Text ''Combo-A'') ''Item-Y'' (Text ''Drinks'') (Text ''Juice'')]\<rparr>"

text \<open>The frames the two programs build from the example sheets.\<close>

abbreviation example_cleaned :: frame where
  "example_cleaned \<equiv> cleaned_dashboard example_lib example_sales"

abbreviation example_revenue :: frame where
  "example_revenue \<equiv>
     revenue_analysis example_lib example_cleaned (name_ref_clean example_name_ref)"

abbreviation example_quantity :: frame where
  "example_quantity \<equiv>
     quantity_analysis example_lib example_cleaned (name_ref_clean example_name_ref)
       (combo_ref_clean example_combo_ref)"

abbreviation example_cleaned_script :: frame where
  "example_cleaned_script \<equiv> cleaned_script example_lib example_sales"

abbreviation example_revenue_script :: frame where
  "example_revenue_script \<equiv>
     revenue_analysis_script example_cleaned_script (name_ref_clean example_name_ref)"

abbreviation example_quantity_script :: frame where
  "example_quantity_script \<equiv>
     quantity_analysis_script example_cleaned_script (name_ref_clean example_name_ref)
       (combo_ref_clean_script example_combo_ref)"

section \<open>The programs row by row\<close>

text \<open>
  What the column-wise statements above do to one row. The lemmas of the next section
  prove that the frames the programs build are these functions mapped over the rows.
\<close>

definition clean_row :: "pandas \<Rightarrow> row \<Rightarrow> row" where
  "clean_row lib r0 =
     (let r1 = upd ''Date'' (\<lambda>r. to_datetime lib (r ''Date'')) r0;
          r2 = upd ''Timestamp'' (\<lambda>r. to_datetime lib (r ''Timestamp'')) r1;
          r3 = foldl (\<lambda>r col. upd col (\<lambda>r. to_numeric lib (r col)) r) r2 numeric_cols;
          r4 = upd ''Year'' (\<lambda>r. dt_year lib (r ''Date'')) r3;
          r5 = upd ''Month'' (\<lambda>r. dt_month lib (r ''Date'')) r4;
          r6 = upd ''Month-Year'' (\<lambda>r. dt_month_year lib (r ''Date'')) r5;
          r7 = upd ''Week'' (\<lambda>r. dt_week lib (r ''Date'')) r6;
          r8 = upd ''DayOfWeek'' (\<lambda>r. dt_day_name lib (r ''Date'')) r7
      in upd ''Hour'' (\<lambda>r. dt_hour lib (r ''Timestamp'')) r8)"

definition cleaned_row_dashboard :: "pandas \<Rightarrow> string list \<Rightarrow> row \<Rightarrow> row" where
  "cleaned_row_dashboard lib cols r0 =
     (let r1 = clean_row lib r0;
          r2 = (if ''Online / Offline'' \<in> set cols
                then upd ''Sales Channel'' (\<lambda>r. r ''Online / Offline'') r1
                else upd ''Sales Channel'' channel_of_area r1);
          r3 = (if ''Outlet'' \<notin> set cols then upd ''Outlet'' (\<lambda>r. Text ''Unknown'') r2 else r2)
      in upd ''Outlet'' (\<lambda>r. fillna (Text ''Unknown'') (r ''Outlet'')) r3)"

definition cleaned_row_script :: "pandas \<Rightarrow> row \<Rightarrow> row" where
  "cleaned_row_script lib r0 = upd ''Sales Channel'' channel_of_area (clean_row lib r0)"

definition success :: "row \<Rightarrow> bool" where
  "success r \<longleftrightarrow> r ''Status'' = Text ''Success''"

text \<open>The left join when no key of the right frame occurs twice: the first match.\<close>

definition join_row :: "string \<Rightarrow> frame \<Rightarrow> row \<Rightarrow> row" where
  "join_row key right l =
     (let extra = filter (\<lambda>c. c \<noteq> key) (columns right) in
      case find (\<lambda>e. e key = l key) (rows right) of
        None \<Rightarrow> (\<lambda>c. if c \<in> set extra then NaN else l c)
      | Some e \<Rightarrow> (\<lambda>c. if c \<in> set extra then e c else l c))"

definition enrich :: "(cell \<Rightarrow> cell) \<Rightarrow> frame \<Rightarrow> row \<Rightarrow> row" where
  "enrich post df_name_ref_clean l =
     (let r1 = join_row ''Item Name'' df_name_ref_clean l;
          r2 = upd ''Real Item Name'' (\<lambda>r. fillna (r ''Item Name'') (r ''Real Item Name'')) r1;
          r3 = upd ''Parent Category'' (\<lambda>r. fillna (Text ''Unknown'') (r ''Parent Category'')) r2
      in upd ''Sub Category'' (\<lambda>r. post (fillna (Text ''Unknown'') (r ''Sub Category''))) r3)"

text \<open>The last statement of the dashboard's quantity view (line 210), on one row.\<close>

definition clean_sub_category :: "pandas \<Rightarrow> row \<Rightarrow> row" where
  "clean_sub_category lib =
     upd ''Sub Category'' (\<lambda>r. astype_str lib (fillna (Text ''Unknown'') (r ''Sub Category'')))"

text \<open>Lines 171 to 190 of the script, on one exploded row.\<close>

definition categorise_script :: "frame \<Rightarrow> row \<Rightarrow> row" where
  "categorise_script df_name_ref_clean r0 =
     (let r1 = upd ''Qty.'' (\<lambda>r. r ''Component Qty'') r0;
          r2 = join_row ''Real Item Name''
                 (drop_duplicates ''Real Item Name''
                    (select [''Real Item Name'', ''Parent Category'', ''Sub Category'']
                       df_name_ref_clean)) r1;
          r3 = upd ''Parent Category'' (\<lambda>r. fillna (Text ''Unknown'') (r ''Parent Category'')) r2;
          r4 = upd ''Sub Category'' (\<lambda>r. fillna (Text ''Unknown'') (r ''Sub Category'')) r3
      in (\<lambda>c. if c \<in> set [''Component Qty''] then NaN else r4 c))"

text \<open>The key set of the combo mapping, and the rows that are combos.\<close>

definition is_combo :: "frame \<Rightarrow> row \<Rightarrow> bool" where
  "is_combo df_combo_ref_clean r \<longleftrightarrow>
     isin (r ''Item Name'') (unique (column ''Item Name'' (rows df_combo_ref_clean)))"

text \<open>A row of \<^verbatim>\<open>df[[c1, ..., cn]]\<close>, and a row of the item mapping before deduplication.\<close>

definition restrict :: "string list \<Rightarrow> row \<Rightarrow> row" where
  "restrict cols r = (\<lambda>c. if c \<in> set cols then r c else NaN)"

definition name_ref_row :: "row \<Rightarrow> row" where
  "name_ref_row r =
     (\<lambda>c. case map_of (zip name_ref_columns [''Item'', ''Real Name'', ''Parent'', ''Sub Category'']) c of
            Some old \<Rightarrow> restrict [''Item'', ''Real Name'', ''Parent'', ''Sub Category''] r old
          | None \<Rightarrow> NaN)"

text \<open>The columns the cleaners write; every other column of a transaction is kept as read.\<close>

definition cleaner_columns :: "string list" where
  "cleaner_columns =
     [''Date'', ''Timestamp''] @ numeric_cols @
     [''Year'', ''Month'', ''Month-Year'', ''Week'', ''DayOfWeek'', ''Hour'',
      ''Sales Channel'', ''Outlet'']"

text \<open>
  Further example sheets: a sales sheet whose only sale failed, one without the
  \<^verbatim>\<open>Status\<close> column, one with a sale whose item name is blank, and one that has a
  column named \<^verbatim>\<open>Component Qty\<close> of its own; a combo mapping with a row whose item
  name is blank.
\<close>

definition failed_sales :: frame where
  "failed_sales = \<lparr>columns = sales_columns, rows = [sale 2 ''Failed'' (Text ''Tea'') 1 20]\<rparr>"

definition no_status_sales :: frame where
  "no_status_sales =
     \<lparr>columns = filter (\<lambda>c. c \<noteq> ''Status'') sales_columns,
      rows = [(sale 3 ''Success'' (Text ''Tea'') 1 20)(''Status'' := NaN)]\<rparr>"



definition memo_sales :: frame where
  "memo_sales =
     \<lparr>columns = sales_columns @ [''Component Qty''],
      rows = [(sale 1 ''Success'' (Text ''Combo-A'') 2 300)(''Component Qty'' := Text ''memo'')]\<rparr>"

text \<open>A combo mapping with the components of the example and a count for each.\<close>

definition multiplier_combo_ref :: frame where
  "multiplier_combo_ref =
     \<lparr>columns = [''Item Name'', ''Real Item Name'', ''Category'', ''Sub Category'', ''Count''],
      rows = [(combo_entry (Text ''Combo-A'') ''Item-X'' (Text ''Food'') (Text ''Snacks''))
                (''Count'' := Number 3),
              (combo_entry (Text ''Combo-A'') ''Item-Y'' (Text ''Drinks'') (Text ''Juice''))
                (''Count'' := Number 5)]\<rparr>"

abbreviation multiplier_quantity :: frame where
  "multiplier_quantity \<equiv>
     quantity_analysis example_lib example_cleaned (name_ref_clean example_name_ref)
       (combo_ref_clean multiplier_combo_ref)"

abbreviation multiplier_quantity_script :: frame where
  "multiplier_quantity_script \<equiv>
     quantity_analysis_script example_cleaned_script (name_ref_clean example_name_ref)
       (combo_ref_clean_script multiplier_combo_ref)"

text \<open>
  A combo mapping whose hints tell the sources of a category apart: the first component
  is in the item mapping under other categories, the second is not and has both hints,
  the third is not and has none.
\<close>

definition hinted_combo_ref :: frame where
  "hinted_combo_ref =
     \<lparr>columns = [''Item Name'', ''Real Item Name'', ''Category'', ''Sub Category''],
      rows = [combo_entry (Text ''Combo-A'') ''Item-X'' (Text ''Meals'') (Text ''Plates''),
              combo_entry (Text ''Combo-A'') ''Item-Y'' (Text ''Drinks'') (Text ''Juice''),
              combo_entry (Text ''Combo-A'') ''Item-Z'' NaN NaN]\<rparr>"

text \<open>The views the two programs build from given sheets, with the example library.\<close>

abbreviation revenue_of :: "frame \<Rightarrow> frame \<Rightarrow> frame" where
  "revenue_of s n \<equiv>
     revenue_analysis example_lib (cleaned_dashboard example_lib s) (name_ref_clean n)"

abbreviation quantity_of :: "frame \<Rightarrow> frame \<Rightarrow> frame \<Rightarrow> frame" where
  "quantity_of s n c \<equiv>
     quantity_analysis example_lib (cleaned_dashboard example_lib s) (name_ref_clean n)
       (combo_ref_clean c)"

abbreviation revenue_of_script :: "frame \<Rightarrow> frame \<Rightarrow> frame" where
  "revenue_of_script s n \<equiv>
     revenue_analysis_script (cleaned_script example_lib s) (name_ref_clean n)"

abbreviation quantity_of_script :: "frame \<Rightarrow> frame \<Rightarrow> frame \<Rightarrow> frame" where
  "quantity_of_script s n c \<equiv>
     quantity_analysis_script (cleaned_script example_lib s) (name_ref_clean n)
       (combo_ref_clean_script c)"

section \<open>Lemmas on frames\<close>

lemma rows_assign: "rows (assign name f df) = map (upd name f) (rows df)"
  by (simp add: assign_def)

lemma set_add_column: "set (add_column name cols) = insert name (set cols)"
  by (auto simp: add_column_def)

lemma columns_assign: "set (columns (assign name f df)) = insert name (set (columns df))"
  by (simp add: assign_def set_add_column)

lemma rows_where_rows: "rows (where_rows p df) = filter p (rows df)"
  by (simp add: where_rows_def)

lemma columns_where_rows: "columns (where_rows p df) = columns df"
  by (simp add: where_rows_def)

lemma rows_foldl_assign:
  "rows (foldl (\<lambda>df col. assign col (F col) df) df cols) =
   map (\<lambda>r. foldl (\<lambda>r col. upd col (F col) r) r cols) (rows df)"
  by (induction cols arbitrary: df) (simp_all add: rows_assign)

lemma columns_foldl_assign:
  "set (columns (foldl (\<lambda>df col. assign col (F col) df) df cols)) = set cols \<union> set (columns df)"
  by (induction cols arbitrary: df) (auto simp: columns_assign)

lemma rows_clean_sales:
  "rows (clean_sales lib df) = map (clean_row lib) (filter success (rows df))"
  unfolding clean_sales_def clean_row_def Let_def success_def
  by (simp add: rows_assign rows_foldl_assign rows_where_rows o_def)

lemma columns_clean_sales:
  assumes "c \<notin> set ([''Date'', ''Timestamp''] @ numeric_cols @
     [''Year'', ''Month'', ''Month-Year'', ''Week'', ''DayOfWeek'', ''Hour''])"
  shows "c \<in> set (columns (clean_sales lib df)) \<longleftrightarrow> c \<in> set (columns df)"
  using assms unfolding clean_sales_def Let_def
  by (simp add: columns_assign columns_foldl_assign columns_where_rows)

lemma columns_sales_channel:
  "c \<noteq> ''Sales Channel'' \<Longrightarrow> c \<in> set (columns (sales_channel df)) \<longleftrightarrow> c \<in> set (columns df)"
  by (simp add: sales_channel_def columns_assign)

lemma rows_sales_channel:
  "rows (sales_channel df) =
   map (if ''Online / Offline'' \<in> set (columns df)
        then upd ''Sales Channel'' (\<lambda>r. r ''Online / Offline'')
        else upd ''Sales Channel'' channel_of_area) (rows df)"
  by (simp add: sales_channel_def rows_assign)

lemma columns_ensure_outlet:
  "c \<noteq> ''Outlet'' \<Longrightarrow> c \<in> set (columns (ensure_outlet df)) \<longleftrightarrow> c \<in> set (columns df)"
  by (simp add: ensure_outlet_def Let_def columns_assign)

lemma rows_ensure_outlet:
  "rows (ensure_outlet df) =
   map (\<lambda>r. upd ''Outlet'' (\<lambda>r. fillna (Text ''Unknown'') (r ''Outlet''))
              (if ''Outlet'' \<notin> set (columns df) then upd ''Outlet'' (\<lambda>r. Text ''Unknown'') r else r))
       (rows df)"
  by (simp add: ensure_outlet_def Let_def rows_assign o_def)

lemma rows_cleaned_dashboard:
  "rows (cleaned_dashboard lib df) =
   map (cleaned_row_dashboard lib (columns df)) (filter success (rows df))"
proof -
  have a: "''Online / Offline'' \<in> set (columns (clean_sales lib df)) \<longleftrightarrow>
           ''Online / Offline'' \<in> set (columns df)"
    by (rule columns_clean_sales) (simp add: numeric_cols_def)
  have "''Outlet'' \<in> set (columns (clean_sales lib df)) \<longleftrightarrow> ''Outlet'' \<in> set (columns df)"
    by (rule columns_clean_sales) (simp add: numeric_cols_def)
  then have b: "''Outlet'' \<in> set (columns (sales_channel (clean_sales lib df))) \<longleftrightarrow>
           ''Outlet'' \<in> set (columns df)"
    by (simp add: columns_sales_channel)
  show ?thesis
    unfolding cleaned_dashboard_def cleaned_row_dashboard_def Let_def
    by (simp add: rows_ensure_outlet rows_sales_channel rows_clean_sales a b o_def)
qed

lemma rows_cleaned_script:
  "rows (cleaned_script lib df) = map (cleaned_row_script lib) (filter success (rows df))"
  unfolding cleaned_script_def
  by (simp add: rows_assign rows_clean_sales o_def cleaned_row_script_def)

lemma columns_cleaned_dashboard:
  assumes "c \<in> set [''Item Name'', ''Real Item Name'', ''Parent Category'', ''Sub Category'']"
  shows "c \<in> set (columns (cleaned_dashboard lib df)) \<longleftrightarrow> c \<in> set (columns df)"
proof -
  have "c \<in> set (columns (clean_sales lib df)) \<longleftrightarrow> c \<in> set (columns df)"
    by (rule columns_clean_sales) (use assms in \<open>auto simp: numeric_cols_def\<close>)
  moreover have "c \<noteq> ''Outlet''" "c \<noteq> ''Sales Channel''"
    using assms by auto
  ultimately show ?thesis
    by (simp add: cleaned_dashboard_def columns_ensure_outlet columns_sales_channel)
qed

lemma columns_cleaned_script:
  assumes "c \<in> set [''Item Name'', ''Real Item Name'', ''Parent Category'', ''Sub Category'']"
  shows "c \<in> set (columns (cleaned_script lib df)) \<longleftrightarrow> c \<in> set (columns df)"
proof -
  have "c \<in> set (columns (clean_sales lib df)) \<longleftrightarrow> c \<in> set (columns df)"
    by (rule columns_clean_sales) (use assms in \<open>auto simp: numeric_cols_def\<close>)
  moreover have "c \<noteq> ''Sales Channel''"
    using assms by auto
  ultimately show ?thesis
    by (simp add: cleaned_script_def columns_assign)
qed

lemma set_dedup_rows: "set (dedup_rows key rs) \<subseteq> set rs"
proof (induction key rs rule: dedup_rows.induct)
  case (1 key)
  show ?case by simp
next
  case (2 key r rs)
  have "set (filter (\<lambda>e. e key \<noteq> r key) rs) \<subseteq> set rs"
    by (rule filter_is_subset)
  with 2 have "set (dedup_rows key (filter (\<lambda>e. e key \<noteq> r key) rs)) \<subseteq> set rs"
    by (rule subset_trans)
  then show ?case
    by (simp only: dedup_rows.simps list.set) blast
qed

lemma key_not_in_column:
  assumes "\<And>e. e \<in> set rest \<Longrightarrow> e key \<noteq> v"
  shows "v \<notin> set (column key rest)"
  using assms by (induction rest) (auto simp: column_def)

lemma distinct_dedup_rows: "distinct (column key (dedup_rows key rs))"
proof (induction key rs rule: dedup_rows.induct)
  case (1 key)
  show ?case by (simp add: column_def)
next
  case (2 key r rs)
  let ?rest = "dedup_rows key (filter (\<lambda>e. e key \<noteq> r key) rs)"
  have "e key \<noteq> r key" if "e \<in> set ?rest" for e
  proof -
    from that set_dedup_rows [of key "filter (\<lambda>e. e key \<noteq> r key) rs"]
    have "e \<in> set (filter (\<lambda>e. e key \<noteq> r key) rs)" by (rule subsetD [rotated])
    then show ?thesis by simp
  qed
  then have "r key \<notin> set (column key ?rest)"
    by (rule key_not_in_column)
  moreover have "column key (dedup_rows key (r # rs)) = r key # column key ?rest"
    by (simp add: column_def)
  ultimately show ?case using 2 by simp
qed

lemma find_filter_weaker:
  "(\<And>x. P x \<Longrightarrow> Q x) \<Longrightarrow> find P (filter Q xs) = find P xs"
  by (induction xs) simp_all

lemma find_dedup_rows:
  "find (\<lambda>e. e key = v) (dedup_rows key rs) = find (\<lambda>e. e key = v) rs"
proof (induction key rs rule: dedup_rows.induct)
  case (1 key)
  then show ?case by simp
next
  case (2 key r rs)
  show ?case
  proof (cases "r key = v")
    case True
    then show ?thesis by simp
  next
    case False
    then have "find (\<lambda>e. e key = v) (filter (\<lambda>e. e key \<noteq> r key) rs) = find (\<lambda>e. e key = v) rs"
      by (intro find_filter_weaker) simp
    with 2 False show ?thesis by simp
  qed
qed

lemma filter_distinct_key:
  "distinct (map f xs) \<Longrightarrow>
   filter (\<lambda>e. f e = v) xs = (case find (\<lambda>e. f e = v) xs of None \<Rightarrow> [] | Some e \<Rightarrow> [e])"
proof (induction xs)
  case Nil
  then show ?case by simp
next
  case (Cons x xs)
  show ?case
  proof (cases "f x = v")
    case True
    with Cons.prems have "\<forall>e\<in>set xs. f e \<noteq> v"
      by (simp add: image_iff) blast
    then have "filter (\<lambda>e. f e = v) xs = []"
      by (simp add: filter_empty_conv)
    with True show ?thesis by simp
  next
    case False
    with Cons show ?thesis by simp
  qed
qed

lemma concat_map_single: "concat (map (\<lambda>l. [f l]) xs) = map f xs"
  by (induction xs) simp_all

lemma rows_merge_left:
  assumes "distinct (column key (rows right))"
  shows "rows (merge_left key left right) = map (join_row key right) (rows left)"
proof -
  define extra where "extra = filter (\<lambda>c. c \<noteq> key) (columns right)"
  have step: "(case filter (\<lambda>e. e key = l key) (rows right) of
                 [] \<Rightarrow> [\<lambda>c. if c \<in> set extra then NaN else l c]
               | ms \<Rightarrow> map (\<lambda>e c. if c \<in> set extra then e c else l c) ms) =
              [join_row key right l]" for l
  proof -
    have f: "filter (\<lambda>e. e key = l key) (rows right) =
        (case find (\<lambda>e. e key = l key) (rows right) of None \<Rightarrow> [] | Some e \<Rightarrow> [e])"
      using assms unfolding column_def by (rule filter_distinct_key)
    show ?thesis
    proof (cases "find (\<lambda>e. e key = l key) (rows right)")
      case None
      with f show ?thesis by (simp add: join_row_def extra_def)
    next
      case (Some e)
      with f show ?thesis by (simp add: join_row_def extra_def)
    qed
  qed
  have "rows (merge_left key left right) =
        concat (map (\<lambda>l. [join_row key right l]) (rows left))"
    unfolding merge_left_def Let_def extra_def [symmetric] by (simp only: frame.simps step)
  then show ?thesis by (simp only: concat_map_single)
qed

lemma columns_name_ref_clean: "columns (name_ref_clean n) = name_ref_columns"
  by (simp add: name_ref_clean_def drop_duplicates_def set_columns_def)

lemma distinct_name_ref_clean: "distinct (column ''Item Name'' (rows (name_ref_clean n)))"
  by (simp add: name_ref_clean_def drop_duplicates_def distinct_dedup_rows)

lemma rows_merge_name_ref:
  assumes "distinct (column ''Item Name'' (rows nref))"
  shows "rows (merge_name_ref post df nref) = map (enrich post nref) (rows df)"
  unfolding merge_name_ref_def enrich_def Let_def
  by (simp add: rows_assign rows_merge_left [OF assms] o_def)

lemma join_row_other:
  "c \<notin> set (columns right) \<Longrightarrow> join_row key right l c = l c"
  by (simp add: join_row_def Let_def split: option.split)

lemma join_row_key: "join_row key right l key = l key"
  by (simp add: join_row_def Let_def split: option.split)

lemma in_column: "e \<in> set rs \<Longrightarrow> e key \<in> set (column key rs)"
  by (simp add: column_def)

lemma join_row_miss:
  assumes "l key \<notin> set (column key (rows right))" and "c \<in> set (columns right)" and "c \<noteq> key"
  shows "join_row key right l c = NaN"
proof -
  have "e key \<noteq> l key" if "e \<in> set (rows right)" for e
    using in_column [OF that, of key] assms(1) by auto
  then have "find (\<lambda>e. e key = l key) (rows right) = None"
    by (simp add: find_None_iff)
  with assms(2,3) show ?thesis by (simp add: join_row_def Let_def)
qed

lemma join_row_hit:
  assumes "find (\<lambda>e. e key = l key) (rows right) = Some e" and "c \<in> set (columns right)" and "c \<noteq> key"
  shows "join_row key right l c = e c"
  using assms by (simp add: join_row_def Let_def)

lemma enrich_other:
  assumes "columns nref = name_ref_columns"
    and "c \<notin> set [''Real Item Name'', ''Parent Category'', ''Sub Category'']"
  shows "enrich post nref l c = l c"
proof (cases "c = ''Item Name''")
  case True
  then show ?thesis
    by (simp add: enrich_def Let_def upd_def join_row_key)
next
  case False
  with assms have "c \<notin> set (columns nref)"
    by (simp add: name_ref_columns_def)
  then have "join_row ''Item Name'' nref l c = l c"
    by (rule join_row_other)
  with assms(2) show ?thesis
    by (simp add: enrich_def Let_def upd_def)
qed

lemma enrich_unmapped:
  assumes "columns nref = name_ref_columns"
    and "l ''Item Name'' \<notin> set (column ''Item Name'' (rows nref))"
  shows "enrich post nref l ''Real Item Name'' = l ''Item Name''"
    and "enrich post nref l ''Parent Category'' = Text ''Unknown''"
    and "enrich post nref l ''Sub Category'' = post (Text ''Unknown'')"
proof -
  have "join_row ''Item Name'' nref l c = NaN"
    if "c \<in> set [''Real Item Name'', ''Parent Category'', ''Sub Category'']" for c
    using assms(2) by (rule join_row_miss) (use that assms(1) in \<open>auto simp: name_ref_columns_def\<close>)
  then have j: "join_row ''Item Name'' nref l ''Real Item Name'' = NaN"
    "join_row ''Item Name'' nref l ''Parent Category'' = NaN"
    "join_row ''Item Name'' nref l ''Sub Category'' = NaN"
    by simp_all
  show "enrich post nref l ''Real Item Name'' = l ''Item Name''"
    by (simp add: enrich_def Let_def upd_def j join_row_key fillna_def)
  show "enrich post nref l ''Parent Category'' = Text ''Unknown''"
    by (simp add: enrich_def Let_def upd_def j fillna_def)
  show "enrich post nref l ''Sub Category'' = post (Text ''Unknown'')"
    by (simp add: enrich_def Let_def upd_def j fillna_def)
qed

lemma load_data_Inr:
  assumes "load_data lib s n c = Inr (revenue, quantity)"
  shows "missing_column_dashboard s n c = None"
    and "revenue = revenue_analysis lib (cleaned_dashboard lib s) (name_ref_clean n)"
    and "quantity = quantity_analysis lib (cleaned_dashboard lib s) (name_ref_clean n)
                      (combo_ref_clean c)"
  using assms by (simp_all add: load_data_def Let_def split: option.splits)

lemma load_data_ok:
  assumes "missing_column_dashboard s n c = None"
  shows "load_data lib s n c =
         Inr (revenue_analysis lib (cleaned_dashboard lib s) (name_ref_clean n),
              quantity_analysis lib (cleaned_dashboard lib s) (name_ref_clean n)
                (combo_ref_clean c))"
  using assms by (simp add: load_data_def Let_def)

lemma sales_analysis_Inr:
  assumes "sales_analysis lib s n c = Inr (revenue, quantity)"
  shows "missing_column_script s n c = None"
    and "revenue = revenue_analysis_script (cleaned_script lib s) (name_ref_clean n)"
    and "quantity = quantity_analysis_script (cleaned_script lib s) (name_ref_clean n)
                      (combo_ref_clean_script c)"
  using assms by (simp_all add: sales_analysis_def Let_def split: option.splits)

lemma sales_analysis_ok:
  assumes "missing_column_script s n c = None"
  shows "sales_analysis lib s n c =
         Inr (revenue_analysis_script (cleaned_script lib s) (name_ref_clean n),
              quantity_analysis_script (cleaned_script lib s) (name_ref_clean n)
                (combo_ref_clean_script c))"
  using assms by (simp add: sales_analysis_def Let_def)

lemma rows_revenue_analysis:
  "rows (revenue_analysis lib df (name_ref_clean n)) =
   map (enrich (astype_str lib) (name_ref_clean n)) (rows df)"
  unfolding revenue_analysis_def by (rule rows_merge_name_ref) (rule distinct_name_ref_clean)

lemma rows_revenue_analysis_script:
  "rows (revenue_analysis_script df (name_ref_clean n)) =
   map (enrich (\<lambda>c. c) (name_ref_clean n)) (rows df)"
  unfolding revenue_analysis_script_def by (rule rows_merge_name_ref) (rule distinct_name_ref_clean)

lemma column_map_enrich:
  assumes "c \<notin> set [''Real Item Name'', ''Parent Category'', ''Sub Category'']"
  shows "column c (map (enrich post (name_ref_clean n)) rs) = column c rs"
  unfolding column_def
  by (simp add: o_def enrich_other [OF columns_name_ref_clean assms])

lemma set_column_dedup_rows: "set (column key (dedup_rows key rs)) = set (column key rs)"
proof (induction key rs rule: dedup_rows.induct)
  case (1 key)
  show ?case by simp
next
  case (2 key r rs)
  have "set (column key (filter (\<lambda>e. e key \<noteq> r key) rs)) = set (column key rs) - {r key}"
    by (induction rs) (auto simp: column_def)
  with 2 show ?case
    by (simp add: column_def)
qed

lemma item_names_name_ref_clean:
  "set (column ''Item Name'' (rows (name_ref_clean n))) = set (column ''Item'' (rows n))"
proof -
  have "column ''Item Name'' (rows (set_columns name_ref_columns
          (select [''Item'', ''Real Name'', ''Parent'', ''Sub Category''] n))) = column ''Item'' (rows n)"
    by (simp add: column_def set_columns_def select_def name_ref_columns_def o_def)
  then show ?thesis
    by (simp add: name_ref_clean_def drop_duplicates_def set_column_dedup_rows)
qed

lemma example_missing_dashboard:
  "missing_column_dashboard example_sales example_name_ref example_combo_ref = None"
  by (simp add: missing_column_dashboard_def first_missing_def first_clash_def or_else_def
      numeric_cols_def example_sales_def example_name_ref_def example_combo_ref_def sales_columns_def)

lemma example_missing_script:
  "missing_column_script example_sales example_name_ref example_combo_ref = None"
  by (simp add: missing_column_script_def first_missing_def first_clash_def or_else_def
      numeric_cols_def example_sales_def example_name_ref_def example_combo_ref_def sales_columns_def)

lemmas row_eval = cleaned_row_dashboard_def cleaned_row_script_def clean_row_def upd_def
  numeric_cols_def to_numeric_def fillna_def channel_of_area_def example_lib_def sale_def
  empty_row_def Let_def

lemma example_success: "filter success (rows example_sales) =
  [sale 1 ''Success'' (Text ''Combo-A'') 2 300, sale 3 ''Success'' (Text ''Tea'') 1 20,
   sale 4 ''Success'' (Text ''Mystery'') 3 45]"
  by (simp add: example_sales_def success_def sale_def empty_row_def)

lemma example_final_total_dashboard:
  "column ''Final Total'' (rows (cleaned_dashboard example_lib example_sales)) =
   [Number 300, Number 20, Number 45]"
  by (simp add: rows_cleaned_dashboard example_success column_def)
     (simp add: row_eval)

lemma example_final_total_script:
  "column ''Final Total'' (rows (cleaned_script example_lib example_sales)) =
   [Number 300, Number 20, Number 45]"
  by (simp add: rows_cleaned_script example_success column_def)
     (simp add: row_eval)

lemma example_item_name_dashboard:
  "column ''Item Name'' (rows (cleaned_dashboard example_lib example_sales)) =
   [Text ''Combo-A'', Text ''Tea'', Text ''Mystery'']"
  by (simp add: rows_cleaned_dashboard example_success column_def)
     (simp add: row_eval)

lemma example_item_name_script:
  "column ''Item Name'' (rows (cleaned_script example_lib example_sales)) =
   [Text ''Combo-A'', Text ''Tea'', Text ''Mystery'']"
  by (simp add: rows_cleaned_script example_success column_def)
     (simp add: row_eval)

lemma example_load_data:
  "load_data example_lib example_sales example_name_ref example_combo_ref =
   Inr (example_revenue, example_quantity)"
  by (rule load_data_ok) (rule example_missing_dashboard)

lemma example_sales_analysis:
  "sales_analysis example_lib example_sales example_name_ref example_combo_ref =
   Inr (example_revenue_script, example_quantity_script)"
  by (rule sales_analysis_ok) (rule example_missing_script)

text \<open>
  C1. Revenue conservation: in both programs the \<^verbatim>\<open>Final Total\<close> column of the revenue
  view is, cell by cell and in order, the \<^verbatim>\<open>Final Total\<close> column of the cleaned
  transactions, so the two sums are equal; the left join with the deduplicated item
  mapping does not change the monetary totals.
\<close>

theorem revenue_conservation:
  "(load_data lib df_sales df_name_ref df_combo_ref = Inr (revenue, quantity) \<longrightarrow>
      column ''Final Total'' (rows revenue) =
        column ''Final Total'' (rows (cleaned_dashboard lib df_sales)) \<and>
      col_sum ''Final Total'' revenue = col_sum ''Final Total'' (cleaned_dashboard lib df_sales)) \<and>
   (sales_analysis lib df_sales df_name_ref df_combo_ref = Inr (revenue', quantity') \<longrightarrow>
      column ''Final Total'' (rows revenue') =
        column ''Final Total'' (rows (cleaned_script lib df_sales)) \<and>
      col_sum ''Final Total'' revenue' = col_sum ''Final Total'' (cleaned_script lib df_sales))"
proof -
  have ft: "''Final Total'' \<notin> set [''Real Item Name'', ''Parent Category'', ''Sub Category'']"
    by simp
  have "column ''Final Total'' (rows revenue) =
        column ''Final Total'' (rows (cleaned_dashboard lib df_sales))"
    if "load_data lib df_sales df_name_ref df_combo_ref = Inr (revenue, quantity)"
    using load_data_Inr(2) [OF that]
    by (simp only: rows_revenue_analysis column_map_enrich [OF ft])
  moreover have "column ''Final Total'' (rows revenue') =
        column ''Final Total'' (rows (cleaned_script lib df_sales))"
    if "sales_analysis lib df_sales df_name_ref df_combo_ref = Inr (revenue', quantity')"
    using sales_analysis_Inr(2) [OF that]
    by (simp only: rows_revenue_analysis_script column_map_enrich [OF ft])
  ultimately show ?thesis
    by (simp add: col_sum_def)
qed

theorem revenue_conservation_witness:
  "load_data example_lib example_sales example_name_ref example_combo_ref =
     Inr (example_revenue, example_quantity) \<and>
   column ''Final Total'' (rows example_revenue) = [Number 300, Number 20, Number 45] \<and>
   col_sum ''Final Total'' example_revenue = 365 \<and>
   col_sum ''Final Total'' example_cleaned = 365 \<and>
   sales_analysis example_lib example_sales example_name_ref example_combo_ref =
     Inr (example_revenue_script, example_quantity_script) \<and>
   column ''Final Total'' (rows example_revenue_script) = [Number 300, Number 20, Number 45] \<and>
   col_sum ''Final Total'' example_revenue_script = 365 \<and>
   col_sum ''Final Total'' example_cleaned_script = 365"
proof -
  note c = revenue_conservation [of example_lib example_sales example_name_ref example_combo_ref
      example_revenue example_quantity example_revenue_script example_quantity_script]
  have d: "column ''Final Total'' (rows example_revenue) = [Number 300, Number 20, Number 45]"
    "col_sum ''Final Total'' example_revenue = col_sum ''Final Total'' example_cleaned"
    using c example_load_data by (simp_all only: example_final_total_dashboard)
  have s: "column ''Final Total'' (rows example_revenue_script) = [Number 300, Number 20, Number 45]"
    "col_sum ''Final Total'' example_revenue_script = col_sum ''Final Total'' example_cleaned_script"
    using c example_sales_analysis by (simp_all only: example_final_total_script)
  have "col_sum ''Final Total'' example_cleaned = 365"
    by (simp add: col_sum_def example_final_total_dashboard)
  moreover have "col_sum ''Final Total'' example_cleaned_script = 365"
    by (simp add: col_sum_def example_final_total_script)
  ultimately show ?thesis
    using d s example_load_data example_sales_analysis by (simp only: simp_thms)
qed

lemma set_unique: "set (unique cs) = set cs"
proof (induction cs rule: unique.induct)
  case 1
  show ?case by simp
next
  case (2 c cs)
  have "set (filter (\<lambda>d. d \<noteq> c) cs) = set cs - {c}"
    by (induction cs) auto
  with 2 show ?case by auto
qed

lemma is_combo_iff:
  "is_combo cref r \<longleftrightarrow> r ''Item Name'' \<in> set (column ''Item Name'' (rows cref))"
  by (simp add: is_combo_def isin_def set_unique)

lemma times_one_id: "times_one c = c"
  by (cases c) (simp_all add: times_one_def)

lemma rows_quantity_analysis:
  assumes "distinct (column ''Item Name'' (rows nref))"
  shows "rows (quantity_analysis lib df nref cref) =
         map (clean_sub_category lib)
           (map (enrich (astype_str lib) nref) (filter (\<lambda>r. \<not> is_combo cref r) (rows df)) @
            concat (map (explode nref cref) (filter (is_combo cref) (rows df))))"
proof -
  let ?list = "concat (map (explode nref cref) (filter (is_combo cref) (rows df)))"
  show ?thesis
  proof (cases "?list = []")
    case True
    then show ?thesis
      unfolding quantity_analysis_def Let_def is_combo_def [symmetric] clean_sub_category_def
      by (simp only: if_False if_True rows_assign rows_merge_name_ref [OF assms] rows_where_rows
          append_Nil2 simp_thms)
  next
    case False
    then show ?thesis
      unfolding quantity_analysis_def Let_def is_combo_def [symmetric] clean_sub_category_def
      by (simp only: if_False if_True rows_assign rows_merge_name_ref [OF assms] rows_where_rows
          concat_frames_def frame.simps simp_thms)
  qed
qed

lemma component_row_other:
  assumes "c \<notin> set [''Real Item Name'', ''Qty.'', ''Parent Category'', ''Sub Category'']"
  shows "component_row nref T component c = T c"
  using assms by (simp add: component_row_def Let_def split: list.split)

lemma component_row_qty: "component_row nref T component ''Qty.'' = T ''Qty.''"
  by (simp add: component_row_def Let_def times_one_id split: list.split)

lemma component_row_name:
  "component_row nref T component ''Real Item Name'' = component ''Real Item Name''"
  by (simp add: component_row_def Let_def split: list.split)

lemma clean_sub_category_other:
  "c \<noteq> ''Sub Category'' \<Longrightarrow> clean_sub_category lib r c = r c"
  by (simp add: clean_sub_category_def upd_def)


lemma nth_explode:
  "i < length (components_of cref T) \<Longrightarrow>
   explode nref cref T ! i = component_row nref T (components_of cref T ! i)"
  by (simp add: explode_def)

lemma set_columns_drop_columns:
  "set (columns (drop_columns cols df)) = set (columns df) - set cols"
  by (auto simp: drop_columns_def)

lemma rows_drop_columns:
  "rows (drop_columns cols df) = map (\<lambda>r c. if c \<in> set cols then NaN else r c) (rows df)"
  by (simp add: drop_columns_def)

lemma rows_combo_exploded:
  assumes "''Parent Category'' \<notin> set (columns df_combo)"
  shows "rows (combo_exploded nref df_combo list) = map (categorise_script nref) list"
proof (cases "list = []")
  case True
  then show ?thesis by (simp add: combo_exploded_def)
next
  case False
  let ?right = "drop_duplicates ''Real Item Name''
                  (select [''Real Item Name'', ''Parent Category'', ''Sub Category''] nref)"
  let ?e0 = "\<lparr>columns = add_column ''Component Qty''
                           (add_column ''Real Item Name'' (columns df_combo)),
              rows = list\<rparr>"
  have d: "distinct (column ''Real Item Name'' (rows ?right))"
    by (simp add: drop_duplicates_def distinct_dedup_rows)
  have p: "''Parent Category'' \<notin> set (columns (assign ''Qty.'' (\<lambda>r. r ''Component Qty'') ?e0))"
    using assms by (simp add: columns_assign set_add_column)
  show ?thesis
    unfolding combo_exploded_def Let_def categorise_script_def
    using False p
    by (simp add: rows_drop_columns rows_assign rows_merge_left [OF d] o_def)
qed

lemma columns_combo_exploded:
  assumes "list \<noteq> []"
  shows "columns (combo_exploded nref df_combo list) \<noteq> []"
proof -
  have "''Sub Category'' \<in> set (columns (combo_exploded nref df_combo list))"
    using assms unfolding combo_exploded_def Let_def
    by (simp add: set_columns_drop_columns columns_assign)
  then show ?thesis by auto
qed

lemma rows_quantity_analysis_script:
  assumes "distinct (column ''Item Name'' (rows nref))"
    and "''Parent Category'' \<notin> set (columns df)"
  shows "rows (quantity_analysis_script df nref cref) =
         map (enrich (\<lambda>c. c) nref) (filter (\<lambda>r. \<not> is_combo cref r) (rows df)) @
         map (categorise_script nref)
           (concat (map (explode_script cref) (filter (is_combo cref) (rows df))))"
proof -
  let ?combo = "where_rows (is_combo cref) df"
  let ?list = "concat (map (explode_script cref) (filter (is_combo cref) (rows df)))"
  have c: "''Parent Category'' \<notin> set (columns ?combo)"
    using assms(2) by (simp add: columns_where_rows)
  have r: "rows (combo_exploded nref ?combo ?list) = map (categorise_script nref) ?list"
    using c by (rule rows_combo_exploded)
  show ?thesis
  proof (cases "?list = []")
    case True
    then show ?thesis
      unfolding quantity_analysis_script_def Let_def is_combo_def [symmetric]
      by (simp add: rows_where_rows r rows_merge_name_ref [OF assms(1)])
  next
    case False
    then have "columns (combo_exploded nref ?combo ?list) \<noteq> []"
      by (rule columns_combo_exploded)
    with False show ?thesis
      unfolding quantity_analysis_script_def Let_def is_combo_def [symmetric]
      by (simp add: rows_where_rows r rows_merge_name_ref [OF assms(1)] concat_frames_def)
  qed
qed

lemma columns_script_right:
  "columns (drop_duplicates ''Real Item Name''
     (select [''Real Item Name'', ''Parent Category'', ''Sub Category''] nref)) =
   [''Real Item Name'', ''Parent Category'', ''Sub Category'']"
  by (simp add: drop_duplicates_def select_def)

lemma categorise_script_other:
  assumes "c \<notin> set [''Real Item Name'', ''Qty.'', ''Parent Category'', ''Sub Category'',
                     ''Component Qty'']"
  shows "categorise_script nref (component_row_script T component) c = T c"
proof -
  have "c \<notin> set (columns (drop_duplicates ''Real Item Name''
     (select [''Real Item Name'', ''Parent Category'', ''Sub Category''] nref)))"
    using assms by (simp add: columns_script_right)
  then show ?thesis
    using assms
    by (simp add: categorise_script_def Let_def upd_def join_row_other component_row_script_def)
qed

lemma categorise_script_qty:
  "categorise_script nref (component_row_script T component) ''Qty.'' = T ''Qty.''"
proof -
  have "''Qty.'' \<notin> set (columns (drop_duplicates ''Real Item Name''
     (select [''Real Item Name'', ''Parent Category'', ''Sub Category''] nref)))"
    by (simp add: columns_script_right)
  then show ?thesis
    by (simp add: categorise_script_def Let_def upd_def join_row_other component_row_script_def
        times_one_id)
qed

lemma categorise_script_name:
  "categorise_script nref (component_row_script T component) ''Real Item Name'' =
   component ''Real Item Name''"
  by (simp add: categorise_script_def Let_def upd_def join_row_key component_row_script_def)

lemma clean_row_other:
  assumes "c \<notin> set ([''Date'', ''Timestamp''] @ numeric_cols @
     [''Year'', ''Month'', ''Month-Year'', ''Week'', ''DayOfWeek'', ''Hour''])"
  shows "clean_row lib r c = r c"
  using assms by (simp add: clean_row_def Let_def upd_def numeric_cols_def)

lemma cleaned_row_dashboard_other:
  assumes "c \<notin> set ([''Date'', ''Timestamp''] @ numeric_cols @
     [''Year'', ''Month'', ''Month-Year'', ''Week'', ''DayOfWeek'', ''Hour'',
      ''Sales Channel'', ''Outlet''])"
  shows "cleaned_row_dashboard lib cols r c = r c"
proof -
  have "clean_row lib r c = r c"
    by (rule clean_row_other) (use assms in simp)
  with assms show ?thesis
    by (simp add: cleaned_row_dashboard_def Let_def upd_def)
qed

lemma cleaned_row_script_other:
  assumes "c \<notin> set ([''Date'', ''Timestamp''] @ numeric_cols @
     [''Year'', ''Month'', ''Month-Year'', ''Week'', ''DayOfWeek'', ''Hour'',
      ''Sales Channel''])"
  shows "cleaned_row_script lib r c = r c"
proof -
  have "clean_row lib r c = r c"
    by (rule clean_row_other) (use assms in simp)
  with assms show ?thesis
    by (simp add: cleaned_row_script_def upd_def)
qed

lemma nth_column: "i < length rs \<Longrightarrow> column c rs ! i = (rs ! i) c"
  by (simp add: column_def)

lemma length_column: "length (column c rs) = length rs"
  by (simp add: column_def)

lemma column_constant:
  "(\<And>r. r \<in> set rs \<Longrightarrow> r c = v) \<Longrightarrow> column c rs = replicate (length rs) v"
  by (induction rs) (simp_all add: column_def)

lemma example_rows_cleaned:
  "rows example_cleaned = map (cleaned_row_dashboard example_lib sales_columns)
     [sale 1 ''Success'' (Text ''Combo-A'') 2 300, sale 3 ''Success'' (Text ''Tea'') 1 20,
      sale 4 ''Success'' (Text ''Mystery'') 3 45]"
  by (simp add: rows_cleaned_dashboard example_success) (simp add: example_sales_def)

lemma example_name_ref_rows:
  "map (\<lambda>r. map r name_ref_columns) (rows (name_ref_clean example_name_ref)) =
   [[Text ''Tea'', Text ''Masala Tea'', Text ''Beverages'', Text ''Hot''],
    [Text ''Item-X'', Text ''Item-X'', Text ''Food'', Text ''Snacks'']]"
  by (simp add: name_ref_clean_def drop_duplicates_def set_columns_def select_def
      example_name_ref_def name_entry_def empty_row_def name_ref_columns_def)

lemma column_append: "column c (xs @ ys) = column c xs @ column c ys"
  by (simp add: column_def)

lemma column_concat_map: "column c (concat (map f xs)) = concat (map (\<lambda>x. column c (f x)) xs)"
  by (induction xs) (simp_all add: column_def)

lemma column_map_clean_sub_category:
  "c \<noteq> ''Sub Category'' \<Longrightarrow> column c (map (clean_sub_category lib) rs) = column c rs"
  by (simp add: column_def clean_sub_category_other)

lemma column_explode_other:
  assumes "c \<notin> set [''Real Item Name'', ''Qty.'', ''Parent Category'', ''Sub Category'']"
  shows "column c (explode nref cref T) = replicate (length (components_of cref T)) (T c)"
  unfolding explode_def column_def
  by (simp add: o_def component_row_other [OF assms] map_replicate_const)

lemma column_explode_qty:
  "column ''Qty.'' (explode nref cref T) = replicate (length (components_of cref T)) (T ''Qty.'')"
  unfolding explode_def column_def
  by (simp add: o_def component_row_qty map_replicate_const)

lemma column_explode_name:
  "column ''Real Item Name'' (explode nref cref T) =
   column ''Real Item Name'' (components_of cref T)"
  unfolding explode_def column_def
  by (simp add: o_def component_row_name)

lemma column_explode_script_other:
  assumes "c \<notin> set [''Real Item Name'', ''Qty.'', ''Parent Category'', ''Sub Category'',
                     ''Component Qty'']"
  shows "column c (map (categorise_script nref) (explode_script cref T)) =
         replicate (length (components_of cref T)) (T c)"
  unfolding explode_script_def column_def
  by (simp add: o_def categorise_script_other [OF assms] map_replicate_const)

lemma column_explode_script_qty:
  "column ''Qty.'' (map (categorise_script nref) (explode_script cref T)) =
   replicate (length (components_of cref T)) (T ''Qty.'')"
  unfolding explode_script_def column_def
  by (simp add: o_def categorise_script_qty map_replicate_const)

lemma column_explode_script_name:
  "column ''Real Item Name'' (map (categorise_script nref) (explode_script cref T)) =
   column ''Real Item Name'' (components_of cref T)"
  unfolding explode_script_def column_def
  by (simp add: o_def categorise_script_name)

lemma map_concat_map: "map g (concat (map f xs)) = concat (map (\<lambda>x. map g (f x)) xs)"
  by (induction xs) simp_all

text \<open>The columns of the two quantity views, block by block.\<close>

lemma column_quantity_dashboard:
  assumes "c \<noteq> ''Sub Category''"
  shows "column c (rows (quantity_analysis lib df (name_ref_clean n) cref)) =
         column c (map (enrich (astype_str lib) (name_ref_clean n))
                     (filter (\<lambda>r. \<not> is_combo cref r) (rows df))) @
         concat (map (\<lambda>T. column c (explode (name_ref_clean n) cref T))
                   (filter (is_combo cref) (rows df)))"
  by (simp only: rows_quantity_analysis [OF distinct_name_ref_clean]
      column_map_clean_sub_category [OF assms] column_append column_concat_map)

lemma column_quantity_script:
  assumes "''Parent Category'' \<notin> set (columns df)"
  shows "column c (rows (quantity_analysis_script df (name_ref_clean n) cref)) =
         column c (map (enrich (\<lambda>c. c) (name_ref_clean n))
                     (filter (\<lambda>r. \<not> is_combo cref r) (rows df))) @
         concat (map (\<lambda>T. column c (map (categorise_script (name_ref_clean n))
                                       (explode_script cref T)))
                   (filter (is_combo cref) (rows df)))"
  by (simp only: rows_quantity_analysis_script [OF distinct_name_ref_clean assms]
      column_append map_concat_map column_concat_map)

lemma no_clash_dashboard:
  assumes "missing_column_dashboard s n c = None"
  shows "''Parent Category'' \<notin> set (columns s)"
  using assms
  by (simp add: missing_column_dashboard_def or_else_def first_clash_def
      split: option.splits if_splits)

lemma no_clash_script:
  assumes "missing_column_script s n c = None"
  shows "''Parent Category'' \<notin> set (columns s)"
  using assms
  by (simp add: missing_column_script_def or_else_def first_clash_def
      split: option.splits if_splits)

lemma example_invoice_dashboard:
  "column ''Invoice No.'' (rows example_cleaned) = [Number 1, Number 3, Number 4]"
  by (simp add: rows_cleaned_dashboard example_success column_def)
     (simp add: row_eval)

lemma example_invoice_script:
  "column ''Invoice No.'' (rows example_cleaned_script) = [Number 1, Number 3, Number 4]"
  by (simp add: rows_cleaned_script example_success column_def)
     (simp add: row_eval)

lemma example_length_cleaned: "length (rows example_cleaned) = 3"
  by (simp add: rows_cleaned_dashboard example_success)

lemma example_length_cleaned_script: "length (rows example_cleaned_script) = 3"
  by (simp add: rows_cleaned_script example_success)

lemma example_items: "column ''Item'' (rows example_name_ref) = [Text ''Tea'', Text ''Tea'', Text ''Item-X'']"
  by (simp add: column_def example_name_ref_def name_entry_def empty_row_def)

text \<open>
  C5. Row-count invariant: in both programs the revenue view has as many rows as the
  cleaned transaction set, and every column of the transactions is carried over
  unchanged and in order (the join with the first-wins item mapping never fans out).
\<close>

theorem row_count_invariant:
  "(load_data lib df_sales df_name_ref df_combo_ref = Inr (revenue, quantity) \<longrightarrow>
      length (rows revenue) = length (rows (cleaned_dashboard lib df_sales)) \<and>
      (\<forall>c. c \<notin> set [''Real Item Name'', ''Parent Category'', ''Sub Category''] \<longrightarrow>
         column c (rows revenue) = column c (rows (cleaned_dashboard lib df_sales)))) \<and>
   (sales_analysis lib df_sales df_name_ref df_combo_ref = Inr (revenue', quantity') \<longrightarrow>
      length (rows revenue') = length (rows (cleaned_script lib df_sales)) \<and>
      (\<forall>c. c \<notin> set [''Real Item Name'', ''Parent Category'', ''Sub Category''] \<longrightarrow>
         column c (rows revenue') = column c (rows (cleaned_script lib df_sales))))"
proof (intro conjI impI allI)
  assume l: "load_data lib df_sales df_name_ref df_combo_ref = Inr (revenue, quantity)"
  show "length (rows revenue) = length (rows (cleaned_dashboard lib df_sales))"
    using load_data_Inr(2) [OF l] by (simp add: rows_revenue_analysis)
  fix c assume c: "c \<notin> set [''Real Item Name'', ''Parent Category'', ''Sub Category'']"
  show "column c (rows revenue) = column c (rows (cleaned_dashboard lib df_sales))"
    using load_data_Inr(2) [OF l] by (simp only: rows_revenue_analysis column_map_enrich [OF c])
next
  assume l: "sales_analysis lib df_sales df_name_ref df_combo_ref = Inr (revenue', quantity')"
  show "length (rows revenue') = length (rows (cleaned_script lib df_sales))"
    using sales_analysis_Inr(2) [OF l] by (simp add: rows_revenue_analysis_script)
  fix c assume c: "c \<notin> set [''Real Item Name'', ''Parent Category'', ''Sub Category'']"
  show "column c (rows revenue') = column c (rows (cleaned_script lib df_sales))"
    using sales_analysis_Inr(2) [OF l]
    by (simp only: rows_revenue_analysis_script column_map_enrich [OF c])
qed

theorem row_count_invariant_witness:
  "load_data example_lib example_sales example_name_ref example_combo_ref =
     Inr (example_revenue, example_quantity) \<and>
   length (rows example_cleaned) = 3 \<and>
   length (rows example_revenue) = 3 \<and>
   ''Invoice No.'' \<notin> set [''Real Item Name'', ''Parent Category'', ''Sub Category''] \<and>
   column ''Invoice No.'' (rows example_revenue) = [Number 1, Number 3, Number 4] \<and>
   sales_analysis example_lib example_sales example_name_ref example_combo_ref =
     Inr (example_revenue_script, example_quantity_script) \<and>
   length (rows example_cleaned_script) = 3 \<and>
   length (rows example_revenue_script) = 3 \<and>
   column ''Invoice No.'' (rows example_revenue_script) = [Number 1, Number 3, Number 4]"
proof -
  note c = row_count_invariant [of example_lib example_sales example_name_ref example_combo_ref
      example_revenue example_quantity example_revenue_script example_quantity_script]
  have i: "''Invoice No.'' \<notin> set [''Real Item Name'', ''Parent Category'', ''Sub Category'']"
    by simp
  from c example_load_data
  have "length (rows example_revenue) = length (rows example_cleaned)"
    and "column ''Invoice No.'' (rows example_revenue) = column ''Invoice No.'' (rows example_cleaned)"
    using i by blast+
  then have d: "length (rows example_revenue) = 3"
    "column ''Invoice No.'' (rows example_revenue) = [Number 1, Number 3, Number 4]"
    by (simp_all only: example_length_cleaned example_invoice_dashboard)
  from c example_sales_analysis
  have "length (rows example_revenue_script) = length (rows example_cleaned_script)"
    and "column ''Invoice No.'' (rows example_revenue_script) =
         column ''Invoice No.'' (rows example_cleaned_script)"
    using i by blast+
  then have s: "length (rows example_revenue_script) = 3"
    "column ''Invoice No.'' (rows example_revenue_script) = [Number 1, Number 3, Number 4]"
    by (simp_all only: example_length_cleaned_script example_invoice_script)
  show ?thesis
    using d s i example_load_data example_sales_analysis
      example_length_cleaned example_length_cleaned_script
    by (simp only: simp_thms)
qed

lemma example_third_item:
  "(rows example_cleaned ! 2) ''Item Name'' = Text ''Mystery''"
  "(rows example_cleaned_script ! 2) ''Item Name'' = Text ''Mystery''"
proof -
  have "(rows example_cleaned ! 2) ''Item Name'' = column ''Item Name'' (rows example_cleaned) ! 2"
    by (simp add: nth_column example_length_cleaned)
  then show "(rows example_cleaned ! 2) ''Item Name'' = Text ''Mystery''"
    by (simp add: example_item_name_dashboard)
  have "(rows example_cleaned_script ! 2) ''Item Name'' =
        column ''Item Name'' (rows example_cleaned_script) ! 2"
    by (simp add: nth_column example_length_cleaned_script)
  then show "(rows example_cleaned_script ! 2) ''Item Name'' = Text ''Mystery''"
    by (simp add: example_item_name_script)
qed

lemma example_mystery_unmapped:
  "Text ''Mystery'' \<notin> set (column ''Item'' (rows example_name_ref))"
  by (simp add: example_items)


lemma rows_select: "rows (select cols df) = map (restrict cols) (rows df)"
  by (simp add: select_def restrict_def)

lemma restrict_in: "c \<in> set cols \<Longrightarrow> restrict cols r c = r c"
  by (simp add: restrict_def)

lemma rows_name_ref_clean:
  "rows (name_ref_clean n) = dedup_rows ''Item Name'' (map name_ref_row (rows n))"
proof -
  have "rows (set_columns name_ref_columns
          (select [''Item'', ''Real Name'', ''Parent'', ''Sub Category''] n)) =
        map name_ref_row (rows n)"
    by (simp add: set_columns_def select_def name_ref_row_def restrict_def fun_eq_iff
        split: option.split)
  then show ?thesis
    by (simp add: name_ref_clean_def drop_duplicates_def)
qed

lemma name_ref_row_simps:
  "name_ref_row r ''Item Name'' = r ''Item''"
  "name_ref_row r ''Real Item Name'' = r ''Real Name''"
  "name_ref_row r ''Parent Category'' = r ''Parent''"
  "name_ref_row r ''Sub Category'' = r ''Sub Category''"
  by (simp_all add: name_ref_row_def name_ref_columns_def restrict_def)

lemma rows_combo_ref_clean:
  "rows (combo_ref_clean c) =
   map (restrict [''Item Name'', ''Real Item Name'', ''Category'', ''Sub Category'']) (rows c)"
  by (simp add: combo_ref_clean_def rows_select)

lemma rows_combo_ref_clean_script:
  "rows (combo_ref_clean_script c) = map (restrict [''Item Name'', ''Real Item Name'']) (rows c)"
  by (simp add: combo_ref_clean_script_def rows_select)

lemma find_map: "find P (map f xs) = map_option f (find (\<lambda>x. P (f x)) xs)"
  by (induction xs) simp_all

text \<open>The item mapping is first-wins: the join finds the first sheet row of the item.\<close>

lemma find_name_ref_clean:
  "find (\<lambda>e. e ''Item Name'' = v) (rows (name_ref_clean n)) =
   map_option name_ref_row (find (\<lambda>r. r ''Item'' = v) (rows n))"
  by (simp add: rows_name_ref_clean find_dedup_rows find_map name_ref_row_simps)

lemma enrich_mapped:
  assumes "find (\<lambda>r. r ''Item'' = l ''Item Name'') (rows n) = Some r0"
  shows "enrich post (name_ref_clean n) l ''Real Item Name'' =
           fillna (l ''Item Name'') (r0 ''Real Name'')"
    and "enrich post (name_ref_clean n) l ''Parent Category'' =
           fillna (Text ''Unknown'') (r0 ''Parent'')"
    and "enrich post (name_ref_clean n) l ''Sub Category'' =
           post (fillna (Text ''Unknown'') (r0 ''Sub Category''))"
proof -
  have f: "find (\<lambda>e. e ''Item Name'' = l ''Item Name'') (rows (name_ref_clean n)) =
           Some (name_ref_row r0)"
    by (simp add: find_name_ref_clean assms)
  have j: "join_row ''Item Name'' (name_ref_clean n) l c = name_ref_row r0 c"
    if "c \<in> set [''Real Item Name'', ''Parent Category'', ''Sub Category'']" for c
    using f by (rule join_row_hit)
      (use that in \<open>auto simp: columns_name_ref_clean name_ref_columns_def\<close>)
  show "enrich post (name_ref_clean n) l ''Real Item Name'' =
           fillna (l ''Item Name'') (r0 ''Real Name'')"
    by (simp add: enrich_def Let_def upd_def j join_row_key name_ref_row_simps)
  show "enrich post (name_ref_clean n) l ''Parent Category'' =
           fillna (Text ''Unknown'') (r0 ''Parent'')"
    by (simp add: enrich_def Let_def upd_def j name_ref_row_simps)
  show "enrich post (name_ref_clean n) l ''Sub Category'' =
           post (fillna (Text ''Unknown'') (r0 ''Sub Category''))"
    by (simp add: enrich_def Let_def upd_def j name_ref_row_simps)
qed

lemma cleaned_row_dashboard_plain:
  "cleaned_row_dashboard lib cols r ''Item Name'' = r ''Item Name''"
  "cleaned_row_dashboard lib cols r ''Invoice No.'' = r ''Invoice No.''"
  "cleaned_row_dashboard lib cols r ''Status'' = r ''Status''"
  by (rule cleaned_row_dashboard_other, simp add: numeric_cols_def)+

lemma cleaned_row_script_plain:
  "cleaned_row_script lib r ''Item Name'' = r ''Item Name''"
  "cleaned_row_script lib r ''Invoice No.'' = r ''Invoice No.''"
  "cleaned_row_script lib r ''Status'' = r ''Status''"
  by (rule cleaned_row_script_other, simp add: numeric_cols_def)+

lemma cleaned_row_dashboard_qty:
  "cleaned_row_dashboard lib cols r ''Qty.'' = to_numeric lib (r ''Qty.'')"
  by (simp add: cleaned_row_dashboard_def clean_row_def Let_def upd_def numeric_cols_def)

lemma cleaned_row_script_qty:
  "cleaned_row_script lib r ''Qty.'' = to_numeric lib (r ''Qty.'')"
  by (simp add: cleaned_row_script_def clean_row_def Let_def upd_def numeric_cols_def)

lemma cleaner_columns_dashboard:
  "c \<notin> set cleaner_columns \<Longrightarrow> cleaned_row_dashboard lib cols r c = r c"
  by (rule cleaned_row_dashboard_other) (simp add: cleaner_columns_def)

lemma cleaner_columns_script:
  "c \<notin> set cleaner_columns \<Longrightarrow> cleaned_row_script lib r c = r c"
  by (rule cleaned_row_script_other) (simp add: cleaner_columns_def)

lemma status_not_cleaner: "''Status'' \<notin> set cleaner_columns"
  by (simp add: cleaner_columns_def numeric_cols_def)

lemma success_filter: "filter success rs = filter (\<lambda>r. r ''Status'' = Text ''Success'') rs"
  by (induction rs) (simp_all add: success_def)

lemma column_cleaned_dashboard:
  assumes "c \<notin> set cleaner_columns"
  shows "column c (rows (cleaned_dashboard lib df)) =
         column c (filter (\<lambda>r. r ''Status'' = Text ''Success'') (rows df))"
  by (simp add: rows_cleaned_dashboard column_def o_def cleaner_columns_dashboard [OF assms]
      success_filter)

lemma column_cleaned_script:
  assumes "c \<notin> set cleaner_columns"
  shows "column c (rows (cleaned_script lib df)) =
         column c (filter (\<lambda>r. r ''Status'' = Text ''Success'') (rows df))"
  by (simp add: rows_cleaned_script column_def o_def cleaner_columns_script [OF assms]
      success_filter)

lemma set_column: "set (column c rs) = (\<lambda>r. r c) ` set rs"
  by (simp add: column_def)

lemma status_cleaned_dashboard:
  "set (column ''Status'' (rows (cleaned_dashboard lib df))) \<subseteq> {Text ''Success''}"
  by (simp only: column_cleaned_dashboard [OF status_not_cleaner]) (auto simp: column_def)

lemma status_cleaned_script:
  "set (column ''Status'' (rows (cleaned_script lib df))) \<subseteq> {Text ''Success''}"
  by (simp only: column_cleaned_script [OF status_not_cleaner]) (auto simp: column_def)

text \<open>
  The columns of the two quantity views that neither the join nor the explosion
  writes: the column of the rows that are no combo, then, for each combo row in order,
  its cell once for every component.
\<close>

lemma column_quantity_dashboard_other:
  assumes "c \<notin> set [''Real Item Name'', ''Qty.'', ''Parent Category'', ''Sub Category'']"
  shows "column c (rows (quantity_analysis lib df (name_ref_clean n) cref)) =
         column c (filter (\<lambda>r. \<not> is_combo cref r) (rows df)) @
         concat (map (\<lambda>T. replicate (length (components_of cref T)) (T c))
                   (filter (is_combo cref) (rows df)))"
proof -
  have a: "c \<noteq> ''Sub Category''" and b: "c \<notin> set [''Real Item Name'', ''Parent Category'', ''Sub Category'']"
    using assms by auto
  show ?thesis
    by (simp only: column_quantity_dashboard [OF a] column_map_enrich [OF b]
        column_explode_other [OF assms])
qed

lemma column_quantity_dashboard_qty:
  "column ''Qty.'' (rows (quantity_analysis lib df (name_ref_clean n) cref)) =
   column ''Qty.'' (filter (\<lambda>r. \<not> is_combo cref r) (rows df)) @
   concat (map (\<lambda>T. replicate (length (components_of cref T)) (T ''Qty.''))
             (filter (is_combo cref) (rows df)))"
proof -
  have a: "''Qty.'' \<noteq> ''Sub Category''"
    and b: "''Qty.'' \<notin> set [''Real Item Name'', ''Parent Category'', ''Sub Category'']"
    by auto
  show ?thesis
    by (simp only: column_quantity_dashboard [OF a] column_map_enrich [OF b] column_explode_qty)
qed

lemma column_quantity_script_other:
  assumes "''Parent Category'' \<notin> set (columns df)"
    and "c \<notin> set [''Real Item Name'', ''Qty.'', ''Parent Category'', ''Sub Category'',
                     ''Component Qty'']"
  shows "column c (rows (quantity_analysis_script df (name_ref_clean n) cref)) =
         column c (filter (\<lambda>r. \<not> is_combo cref r) (rows df)) @
         concat (map (\<lambda>T. replicate (length (components_of cref T)) (T c))
                   (filter (is_combo cref) (rows df)))"
proof -
  have b: "c \<notin> set [''Real Item Name'', ''Parent Category'', ''Sub Category'']"
    using assms(2) by auto
  show ?thesis
    by (simp only: column_quantity_script [OF assms(1)] column_map_enrich [OF b]
        column_explode_script_other [OF assms(2)])
qed

lemma column_quantity_script_qty:
  assumes "''Parent Category'' \<notin> set (columns df)"
  shows "column ''Qty.'' (rows (quantity_analysis_script df (name_ref_clean n) cref)) =
         column ''Qty.'' (filter (\<lambda>r. \<not> is_combo cref r) (rows df)) @
         concat (map (\<lambda>T. replicate (length (components_of cref T)) (T ''Qty.''))
                   (filter (is_combo cref) (rows df)))"
proof -
  have b: "''Qty.'' \<notin> set [''Real Item Name'', ''Parent Category'', ''Sub Category'']"
    by auto
  show ?thesis
    by (simp only: column_quantity_script [OF assms] column_map_enrich [OF b]
        column_explode_script_qty)
qed

lemma blocks_subset:
  "set (column c (filter P rs) @ concat (map (\<lambda>T. replicate (k T) (T c)) (filter Q rs)))
   \<subseteq> set (column c rs)"
  by (induction rs) (auto simp: column_def)

lemma no_clash_cleaned_script:
  assumes "missing_column_script s n c = None"
  shows "''Parent Category'' \<notin> set (columns (cleaned_script lib s))"
proof -
  have "''Parent Category'' \<in> set (columns (cleaned_script lib s)) \<longleftrightarrow>
        ''Parent Category'' \<in> set (columns s)"
    by (rule columns_cleaned_script) simp
  with no_clash_script [OF assms] show ?thesis by simp
qed

lemma status_revenue:
  "column ''Status'' (map (enrich post (name_ref_clean n)) rs) = column ''Status'' rs"
  by (rule column_map_enrich) simp

lemma status_quantity_dashboard:
  "set (column ''Status'' (rows (quantity_analysis lib df (name_ref_clean n) cref)))
   \<subseteq> set (column ''Status'' (rows df))"
proof -
  have a: "''Status'' \<notin> set [''Real Item Name'', ''Qty.'', ''Parent Category'', ''Sub Category'']"
    by simp
  show ?thesis
    by (simp only: column_quantity_dashboard_other [OF a] blocks_subset)
qed

lemma status_quantity_script:
  assumes "''Parent Category'' \<notin> set (columns df)"
  shows "set (column ''Status'' (rows (quantity_analysis_script df (name_ref_clean n) cref)))
         \<subseteq> set (column ''Status'' (rows df))"
proof -
  have a: "''Status'' \<notin> set [''Real Item Name'', ''Qty.'', ''Parent Category'', ''Sub Category'',
                     ''Component Qty'']"
    by simp
  show ?thesis
    by (simp only: column_quantity_script_other [OF assms a] blocks_subset)
qed

lemma all_success:
  "set (column ''Status'' rs) \<subseteq> {Text ''Success''} \<Longrightarrow> \<forall>r\<in>set rs. r ''Status'' = Text ''Success''"
  by (auto simp: column_def)

text \<open>
  C8. Status filtering: in both programs the cleaned transaction set is the raw rows
  whose status is the string \<^verbatim>\<open>Success\<close>, all of them and only them, in order (seen on
  every column the cleaner does not write), and every row of the revenue view and of
  the quantity view has the status \<^verbatim>\<open>Success\<close>: a row whose status is \<^verbatim>\<open>Failed\<close> is in
  neither view.
\<close>

theorem status_filtering:
  "(load_data lib df_sales df_name_ref df_combo_ref = Inr (revenue, quantity) \<longrightarrow>
      length (rows (cleaned_dashboard lib df_sales)) =
        length (filter (\<lambda>r. r ''Status'' = Text ''Success'') (rows df_sales)) \<and>
      (\<forall>c. c \<notin> set cleaner_columns \<longrightarrow>
         column c (rows (cleaned_dashboard lib df_sales)) =
           column c (filter (\<lambda>r. r ''Status'' = Text ''Success'') (rows df_sales))) \<and>
      (\<forall>r\<in>set (rows revenue). r ''Status'' = Text ''Success'') \<and>
      (\<forall>r\<in>set (rows quantity). r ''Status'' = Text ''Success'')) \<and>
   (sales_analysis lib df_sales df_name_ref df_combo_ref = Inr (revenue', quantity') \<longrightarrow>
      length (rows (cleaned_script lib df_sales)) =
        length (filter (\<lambda>r. r ''Status'' = Text ''Success'') (rows df_sales)) \<and>
      (\<forall>c. c \<notin> set cleaner_columns \<longrightarrow>
         column c (rows (cleaned_script lib df_sales)) =
           column c (filter (\<lambda>r. r ''Status'' = Text ''Success'') (rows df_sales))) \<and>
      (\<forall>r\<in>set (rows revenue'). r ''Status'' = Text ''Success'') \<and>
      (\<forall>r\<in>set (rows quantity'). r ''Status'' = Text ''Success''))"
proof (intro conjI impI allI)
  assume l: "load_data lib df_sales df_name_ref df_combo_ref = Inr (revenue, quantity)"
  show "length (rows (cleaned_dashboard lib df_sales)) =
        length (filter (\<lambda>r. r ''Status'' = Text ''Success'') (rows df_sales))"
    by (simp add: rows_cleaned_dashboard success_filter)
  have "set (column ''Status'' (rows revenue)) \<subseteq> {Text ''Success''}"
    using status_cleaned_dashboard [of lib df_sales]
    by (simp only: load_data_Inr(2) [OF l] rows_revenue_analysis status_revenue)
  then show "\<forall>r\<in>set (rows revenue). r ''Status'' = Text ''Success''"
    by (rule all_success)
  have "set (column ''Status'' (rows quantity)) \<subseteq> {Text ''Success''}"
    unfolding load_data_Inr(3) [OF l]
    using status_quantity_dashboard status_cleaned_dashboard by (rule subset_trans)
  then show "\<forall>r\<in>set (rows quantity). r ''Status'' = Text ''Success''"
    by (rule all_success)
next
  fix c assume "c \<notin> set cleaner_columns"
  then show "column c (rows (cleaned_dashboard lib df_sales)) =
           column c (filter (\<lambda>r. r ''Status'' = Text ''Success'') (rows df_sales))"
    by (rule column_cleaned_dashboard)
next
  assume l: "sales_analysis lib df_sales df_name_ref df_combo_ref = Inr (revenue', quantity')"
  show "length (rows (cleaned_script lib df_sales)) =
        length (filter (\<lambda>r. r ''Status'' = Text ''Success'') (rows df_sales))"
    by (simp add: rows_cleaned_script success_filter)
  have "set (column ''Status'' (rows revenue')) \<subseteq> {Text ''Success''}"
    using status_cleaned_script [of lib df_sales]
    by (simp only: sales_analysis_Inr(2) [OF l] rows_revenue_analysis_script status_revenue)
  then show "\<forall>r\<in>set (rows revenue'). r ''Status'' = Text ''Success''"
    by (rule all_success)
  note p = no_clash_cleaned_script [OF sales_analysis_Inr(1) [OF l], of lib]
  have "set (column ''Status'' (rows quantity')) \<subseteq> {Text ''Success''}"
    unfolding sales_analysis_Inr(3) [OF l]
    using status_quantity_script [OF p] status_cleaned_script by (rule subset_trans)
  then show "\<forall>r\<in>set (rows quantity'). r ''Status'' = Text ''Success''"
    by (rule all_success)
next
  fix c assume "c \<notin> set cleaner_columns"
  then show "column c (rows (cleaned_script lib df_sales)) =
           column c (filter (\<lambda>r. r ''Status'' = Text ''Success'') (rows df_sales))"
    by (rule column_cleaned_script)
qed

lemma example_raw_status:
  "column ''Status'' (rows example_sales) =
   [Text ''Success'', Text ''Failed'', Text ''Success'', Text ''Success'']"
  by (simp add: column_def example_sales_def sale_def empty_row_def)

lemma example_raw_invoices:
  "column ''Invoice No.'' (rows example_sales) = [Number 1, Number 2, Number 3, Number 4]"
  by (simp add: column_def example_sales_def sale_def empty_row_def)

lemma no_failed: "\<forall>r\<in>set rs. r ''Status'' = Text ''Success'' \<Longrightarrow>
  Text ''Failed'' \<notin> set (column ''Status'' rs)"
  by (auto simp: column_def)

theorem status_filtering_witness:
  "load_data example_lib example_sales example_name_ref example_combo_ref =
     Inr (example_revenue, example_quantity) \<and>
   column ''Status'' (rows example_sales) =
     [Text ''Success'', Text ''Failed'', Text ''Success'', Text ''Success''] \<and>
   column ''Invoice No.'' (rows example_sales) = [Number 1, Number 2, Number 3, Number 4] \<and>
   ''Invoice No.'' \<notin> set cleaner_columns \<and>
   length (rows example_cleaned) = 3 \<and>
   column ''Invoice No.'' (rows example_cleaned) = [Number 1, Number 3, Number 4] \<and>
   Text ''Failed'' \<notin> set (column ''Status'' (rows example_revenue)) \<and>
   Text ''Failed'' \<notin> set (column ''Status'' (rows example_quantity)) \<and>
   sales_analysis example_lib example_sales example_name_ref example_combo_ref =
     Inr (example_revenue_script, example_quantity_script) \<and>
   length (rows example_cleaned_script) = 3 \<and>
   column ''Invoice No.'' (rows example_cleaned_script) = [Number 1, Number 3, Number 4] \<and>
   Text ''Failed'' \<notin> set (column ''Status'' (rows example_revenue_script)) \<and>
   Text ''Failed'' \<notin> set (column ''Status'' (rows example_quantity_script))"
proof -
  note c = status_filtering [of example_lib example_sales example_name_ref example_combo_ref
      example_revenue example_quantity example_revenue_script example_quantity_script]
  have i: "''Invoice No.'' \<notin> set cleaner_columns"
    by (simp add: cleaner_columns_def numeric_cols_def)
  have f: "filter (\<lambda>r. r ''Status'' = Text ''Success'') (rows example_sales) =
    [sale 1 ''Success'' (Text ''Combo-A'') 2 300, sale 3 ''Success'' (Text ''Tea'') 1 20,
     sale 4 ''Success'' (Text ''Mystery'') 3 45]"
    using example_success by (simp only: success_filter)
  have v: "column ''Invoice No.'' [sale 1 ''Success'' (Text ''Combo-A'') 2 300,
     sale 3 ''Success'' (Text ''Tea'') 1 20, sale 4 ''Success'' (Text ''Mystery'') 3 45] =
     [Number 1, Number 3, Number 4]"
    by (simp add: column_def sale_def empty_row_def)
  from c example_load_data
  have d1: "length (rows example_cleaned) =
        length (filter (\<lambda>r. r ''Status'' = Text ''Success'') (rows example_sales))"
    and d2: "column ''Invoice No.'' (rows example_cleaned) =
        column ''Invoice No.'' (filter (\<lambda>r. r ''Status'' = Text ''Success'') (rows example_sales))"
    and d3: "\<forall>r\<in>set (rows example_revenue). r ''Status'' = Text ''Success''"
    and d4: "\<forall>r\<in>set (rows example_quantity). r ''Status'' = Text ''Success''"
    using i by blast+
  from c example_sales_analysis
  have s1: "length (rows example_cleaned_script) =
        length (filter (\<lambda>r. r ''Status'' = Text ''Success'') (rows example_sales))"
    and s2: "column ''Invoice No.'' (rows example_cleaned_script) =
        column ''Invoice No.'' (filter (\<lambda>r. r ''Status'' = Text ''Success'') (rows example_sales))"
    and s3: "\<forall>r\<in>set (rows example_revenue_script). r ''Status'' = Text ''Success''"
    and s4: "\<forall>r\<in>set (rows example_quantity_script). r ''Status'' = Text ''Success''"
    using i by blast+
  have "length (rows example_cleaned) = 3" "length (rows example_cleaned_script) = 3"
    using d1 s1 by (simp_all add: f)
  moreover have "column ''Invoice No.'' (rows example_cleaned) = [Number 1, Number 3, Number 4]"
    "column ''Invoice No.'' (rows example_cleaned_script) = [Number 1, Number 3, Number 4]"
    using d2 s2 by (simp_all only: f v)
  ultimately show ?thesis
    using example_load_data example_sales_analysis example_raw_status example_raw_invoices i
      no_failed [OF d3] no_failed [OF d4] no_failed [OF s3] no_failed [OF s4]
    by (simp only: simp_thms)
qed

text \<open>The cells of the example rows.\<close>

lemma sale_cells:
  "sale i st item q a ''Invoice No.'' = Number i"
  "sale i st item q a ''Status'' = Text st"
  "sale i st item q a ''Item Name'' = item"
  "sale i st item q a ''Qty.'' = Number q"
  "sale i st item q a ''Final Total'' = Number a"
  by (simp_all add: sale_def empty_row_def)

lemma combo_entry_cells:
  "combo_entry item real_name category sub ''Item Name'' = item"
  "combo_entry item real_name category sub ''Real Item Name'' = Text real_name"
  "combo_entry item real_name category sub ''Category'' = category"
  "combo_entry item real_name category sub ''Sub Category'' = sub"
  by (simp_all add: combo_entry_def empty_row_def)

lemma name_entry_cells:
  "name_entry item real_name parent sub ''Item'' = Text item"
  "name_entry item real_name parent sub ''Real Name'' = Text real_name"
  "name_entry item real_name parent sub ''Parent'' = Text parent"
  "name_entry item real_name parent sub ''Sub Category'' = Text sub"
  by (simp_all add: name_entry_def empty_row_def)

lemma restrict_combo_cells:
  "restrict [''Item Name'', ''Real Item Name'', ''Category'', ''Sub Category''] r ''Item Name'' =
     r ''Item Name''"
  "restrict [''Item Name'', ''Real Item Name'', ''Category'', ''Sub Category''] r ''Real Item Name'' =
     r ''Real Item Name''"
  "restrict [''Item Name'', ''Real Item Name'', ''Category'', ''Sub Category''] r ''Category'' =
     r ''Category''"
  "restrict [''Item Name'', ''Real Item Name'', ''Category'', ''Sub Category''] r ''Sub Category'' =
     r ''Sub Category''"
  "restrict [''Item Name'', ''Real Item Name''] r ''Item Name'' = r ''Item Name''"
  "restrict [''Item Name'', ''Real Item Name''] r ''Real Item Name'' = r ''Real Item Name''"
  by (simp_all add: restrict_def)

lemma example_qty_cell:
  "cleaned_row_dashboard example_lib cols (sale i st item q a) ''Qty.'' = Number q"
  "cleaned_row_script example_lib (sale i st item q a) ''Qty.'' = Number q"
  by (simp_all add: cleaned_row_dashboard_qty cleaned_row_script_qty sale_cells to_numeric_def)

lemmas example_cells = sale_cells combo_entry_cells name_entry_cells restrict_combo_cells
  example_qty_cell cleaned_row_dashboard_plain cleaned_row_script_plain

lemma example_rows_cleaned_script:
  "rows example_cleaned_script = map (cleaned_row_script example_lib)
     [sale 1 ''Success'' (Text ''Combo-A'') 2 300, sale 3 ''Success'' (Text ''Tea'') 1 20,
      sale 4 ''Success'' (Text ''Mystery'') 3 45]"
  by (simp add: rows_cleaned_script example_success)

lemma example_combo_keys:
  "column ''Item Name'' (rows (combo_ref_clean example_combo_ref)) =
     [Text ''Combo-A'', Text ''Combo-A'']"
  "column ''Item Name'' (rows (combo_ref_clean_script example_combo_ref)) =
     [Text ''Combo-A'', Text ''Combo-A'']"
  by (simp_all add: rows_combo_ref_clean rows_combo_ref_clean_script column_def
      example_combo_ref_def example_cells)

lemma example_split_dashboard:
  "filter (is_combo (combo_ref_clean example_combo_ref)) (rows example_cleaned) =
     [cleaned_row_dashboard example_lib sales_columns (sale 1 ''Success'' (Text ''Combo-A'') 2 300)]"
  "filter (\<lambda>r. \<not> is_combo (combo_ref_clean example_combo_ref) r) (rows example_cleaned) =
     [cleaned_row_dashboard example_lib sales_columns (sale 3 ''Success'' (Text ''Tea'') 1 20),
      cleaned_row_dashboard example_lib sales_columns (sale 4 ''Success'' (Text ''Mystery'') 3 45)]"
  by (simp_all add: example_rows_cleaned is_combo_iff example_combo_keys example_cells)

lemma example_split_script:
  "filter (is_combo (combo_ref_clean_script example_combo_ref)) (rows example_cleaned_script) =
     [cleaned_row_script example_lib (sale 1 ''Success'' (Text ''Combo-A'') 2 300)]"
  "filter (\<lambda>r. \<not> is_combo (combo_ref_clean_script example_combo_ref) r)
     (rows example_cleaned_script) =
     [cleaned_row_script example_lib (sale 3 ''Success'' (Text ''Tea'') 1 20),
      cleaned_row_script example_lib (sale 4 ''Success'' (Text ''Mystery'') 3 45)]"
  by (simp_all add: example_rows_cleaned_script is_combo_iff example_combo_keys example_cells)

lemma example_components:
  "components_of (combo_ref_clean example_combo_ref)
     (cleaned_row_dashboard example_lib sales_columns (sale 1 ''Success'' (Text ''Combo-A'') 2 300)) =
   map (restrict [''Item Name'', ''Real Item Name'', ''Category'', ''Sub Category''])
     (rows example_combo_ref)"
  "components_of (combo_ref_clean_script example_combo_ref)
     (cleaned_row_script example_lib (sale 1 ''Success'' (Text ''Combo-A'') 2 300)) =
   map (restrict [''Item Name'', ''Real Item Name'']) (rows example_combo_ref)"
  by (simp_all add: components_of_def rows_combo_ref_clean rows_combo_ref_clean_script pd_eq_def
      example_combo_ref_def example_cells)

lemma example_component_names:
  "column ''Real Item Name'' (map (restrict [''Item Name'', ''Real Item Name'', ''Category'',
     ''Sub Category'']) (rows example_combo_ref)) = [Text ''Item-X'', Text ''Item-Y'']"
  "column ''Real Item Name'' (map (restrict [''Item Name'', ''Real Item Name''])
     (rows example_combo_ref)) = [Text ''Item-X'', Text ''Item-Y'']"
  by (simp_all add: column_def example_combo_ref_def example_cells)

lemma example_component_count:
  "length (rows example_combo_ref) = 2"
  by (simp add: example_combo_ref_def)

text \<open>The item mapping of the example: the first \<^verbatim>\<open>Tea\<close> row wins.\<close>

lemma example_item_mapping:
  "rows (name_ref_clean example_name_ref) =
   [name_ref_row (name_entry ''Tea'' ''Masala Tea'' ''Beverages'' ''Hot''),
    name_ref_row (name_entry ''Item-X'' ''Item-X'' ''Food'' ''Snacks'')]"
  by (simp add: rows_name_ref_clean example_name_ref_def name_ref_row_simps example_cells)

lemma length_components_of:
  "length (components_of cref T) =
   length (filter (\<lambda>v. pd_eq v (T ''Item Name'')) (column ''Item Name'' (rows cref)))"
  by (simp add: components_of_def column_def filter_map o_def)

lemma combo_keys_dashboard:
  "column ''Item Name'' (rows (combo_ref_clean c)) = column ''Item Name'' (rows c)"
  by (simp add: rows_combo_ref_clean column_def restrict_def)

lemma combo_keys_script:
  "column ''Item Name'' (rows (combo_ref_clean_script c)) = column ''Item Name'' (rows c)"
  by (simp add: rows_combo_ref_clean_script column_def restrict_def)

lemma same_keys_blocks:
  assumes "column ''Item Name'' (rows cref2) = column ''Item Name'' (rows cref)"
  shows "column c (filter (\<lambda>r. \<not> is_combo cref2 r) rs) @
         concat (map (\<lambda>T. replicate (length (components_of cref2 T)) (T c))
                   (filter (is_combo cref2) rs)) =
         column c (filter (\<lambda>r. \<not> is_combo cref r) rs) @
         concat (map (\<lambda>T. replicate (length (components_of cref T)) (T c))
                   (filter (is_combo cref) rs))"
proof -
  have "is_combo cref2 r \<longleftrightarrow> is_combo cref r" for r
    by (simp add: is_combo_iff assms)
  then have a: "is_combo cref2 = is_combo cref"
    by (simp add: fun_eq_iff)
  have b: "length (components_of cref2 T) = length (components_of cref T)" for T
    by (simp add: length_components_of assms)
  show ?thesis
    by (simp only: a b)
qed

text \<open>
  C10. Multiplicity is always one: in both programs the \<^verbatim>\<open>Qty.\<close> column of the quantity
  view is the quantities of the transactions that are no combo, followed, for each combo
  transaction in order, by that transaction's own quantity once for every component row.
  The combo mapping is read for its item names only: two combo mappings with the same
  \<^verbatim>\<open>Item Name\<close> column give the same \<^verbatim>\<open>Qty.\<close> column, whatever else they contain.
\<close>

theorem multiplicity_one:
  "(load_data lib df_sales df_name_ref df_combo_ref = Inr (revenue, quantity) \<longrightarrow>
      column ''Qty.'' (rows quantity) =
        column ''Qty.'' (filter (\<lambda>r. \<not> is_combo (combo_ref_clean df_combo_ref) r)
                           (rows (cleaned_dashboard lib df_sales))) @
        concat (map (\<lambda>T. replicate (length (components_of (combo_ref_clean df_combo_ref) T))
                            (T ''Qty.''))
                  (filter (is_combo (combo_ref_clean df_combo_ref))
                     (rows (cleaned_dashboard lib df_sales)))) \<and>
      (load_data lib df_sales df_name_ref df_combo_ref2 = Inr (revenue2, quantity2) \<and>
       column ''Item Name'' (rows df_combo_ref2) = column ''Item Name'' (rows df_combo_ref) \<longrightarrow>
         column ''Qty.'' (rows quantity2) = column ''Qty.'' (rows quantity))) \<and>
   (sales_analysis lib df_sales df_name_ref df_combo_ref = Inr (revenue', quantity') \<longrightarrow>
      column ''Qty.'' (rows quantity') =
        column ''Qty.'' (filter (\<lambda>r. \<not> is_combo (combo_ref_clean_script df_combo_ref) r)
                           (rows (cleaned_script lib df_sales))) @
        concat (map (\<lambda>T. replicate (length (components_of (combo_ref_clean_script df_combo_ref) T))
                            (T ''Qty.''))
                  (filter (is_combo (combo_ref_clean_script df_combo_ref))
                     (rows (cleaned_script lib df_sales)))) \<and>
      (sales_analysis lib df_sales df_name_ref df_combo_ref2 = Inr (revenue2', quantity2') \<and>
       column ''Item Name'' (rows df_combo_ref2) = column ''Item Name'' (rows df_combo_ref) \<longrightarrow>
         column ''Qty.'' (rows quantity2') = column ''Qty.'' (rows quantity')))"
proof (intro conjI impI; (elim conjE)?)
  assume l: "load_data lib df_sales df_name_ref df_combo_ref = Inr (revenue, quantity)"
  show q: "column ''Qty.'' (rows quantity) =
        column ''Qty.'' (filter (\<lambda>r. \<not> is_combo (combo_ref_clean df_combo_ref) r)
                           (rows (cleaned_dashboard lib df_sales))) @
        concat (map (\<lambda>T. replicate (length (components_of (combo_ref_clean df_combo_ref) T))
                            (T ''Qty.''))
                  (filter (is_combo (combo_ref_clean df_combo_ref))
                     (rows (cleaned_dashboard lib df_sales))))"
    unfolding load_data_Inr(3) [OF l] by (rule column_quantity_dashboard_qty)
  assume l2: "load_data lib df_sales df_name_ref df_combo_ref2 = Inr (revenue2, quantity2)"
    and k: "column ''Item Name'' (rows df_combo_ref2) = column ''Item Name'' (rows df_combo_ref)"
  have k': "column ''Item Name'' (rows (combo_ref_clean df_combo_ref2)) =
            column ''Item Name'' (rows (combo_ref_clean df_combo_ref))"
    by (simp only: combo_keys_dashboard k)
  have "column ''Qty.'' (rows quantity2) =
        column ''Qty.'' (filter (\<lambda>r. \<not> is_combo (combo_ref_clean df_combo_ref2) r)
                           (rows (cleaned_dashboard lib df_sales))) @
        concat (map (\<lambda>T. replicate (length (components_of (combo_ref_clean df_combo_ref2) T))
                            (T ''Qty.''))
                  (filter (is_combo (combo_ref_clean df_combo_ref2))
                     (rows (cleaned_dashboard lib df_sales))))"
    unfolding load_data_Inr(3) [OF l2] by (rule column_quantity_dashboard_qty)
  then show "column ''Qty.'' (rows quantity2) = column ''Qty.'' (rows quantity)"
    by (simp only: q same_keys_blocks [OF k'])
next
  assume l: "sales_analysis lib df_sales df_name_ref df_combo_ref = Inr (revenue', quantity')"
  note p = no_clash_cleaned_script [OF sales_analysis_Inr(1) [OF l], of lib]
  show q: "column ''Qty.'' (rows quantity') =
        column ''Qty.'' (filter (\<lambda>r. \<not> is_combo (combo_ref_clean_script df_combo_ref) r)
                           (rows (cleaned_script lib df_sales))) @
        concat (map (\<lambda>T. replicate (length (components_of (combo_ref_clean_script df_combo_ref) T))
                            (T ''Qty.''))
                  (filter (is_combo (combo_ref_clean_script df_combo_ref))
                     (rows (cleaned_script lib df_sales))))"
    unfolding sales_analysis_Inr(3) [OF l] using p by (rule column_quantity_script_qty)
  assume l2: "sales_analysis lib df_sales df_name_ref df_combo_ref2 = Inr (revenue2', quantity2')"
    and k: "column ''Item Name'' (rows df_combo_ref2) = column ''Item Name'' (rows df_combo_ref)"
  have k': "column ''Item Name'' (rows (combo_ref_clean_script df_combo_ref2)) =
            column ''Item Name'' (rows (combo_ref_clean_script df_combo_ref))"
    by (simp only: combo_keys_script k)
  have "column ''Qty.'' (rows quantity2') =
        column ''Qty.'' (filter (\<lambda>r. \<not> is_combo (combo_ref_clean_script df_combo_ref2) r)
                           (rows (cleaned_script lib df_sales))) @
        concat (map (\<lambda>T. replicate (length (components_of (combo_ref_clean_script df_combo_ref2) T))
                            (T ''Qty.''))
                  (filter (is_combo (combo_ref_clean_script df_combo_ref2))
                     (rows (cleaned_script lib df_sales))))"
    unfolding sales_analysis_Inr(3) [OF l2] using p by (rule column_quantity_script_qty)
  then show "column ''Qty.'' (rows quantity2') = column ''Qty.'' (rows quantity')"
    by (simp only: q same_keys_blocks [OF k'])
qed

lemma multiplier_missing:
  "missing_column_dashboard example_sales example_name_ref multiplier_combo_ref = None"
  "missing_column_script example_sales example_name_ref multiplier_combo_ref = None"
  by (simp_all add: missing_column_dashboard_def missing_column_script_def first_missing_def
      first_clash_def or_else_def numeric_cols_def example_sales_def example_name_ref_def
      multiplier_combo_ref_def sales_columns_def)

lemma multiplier_load_data:
  "load_data example_lib example_sales example_name_ref multiplier_combo_ref =
   Inr (example_revenue, multiplier_quantity)"
  by (rule load_data_ok) (rule multiplier_missing)

lemma multiplier_sales_analysis:
  "sales_analysis example_lib example_sales example_name_ref multiplier_combo_ref =
   Inr (example_revenue_script, multiplier_quantity_script)"
  by (rule sales_analysis_ok) (rule multiplier_missing)

lemma multiplier_keys:
  "column ''Item Name'' (rows multiplier_combo_ref) = column ''Item Name'' (rows example_combo_ref)"
  by (simp add: column_def multiplier_combo_ref_def example_combo_ref_def combo_entry_cells)

lemma multiplier_counts:
  "column ''Count'' (rows multiplier_combo_ref) = [Number 3, Number 5]"
  by (simp add: column_def multiplier_combo_ref_def)

lemma example_qty_cleaned:
  "column ''Qty.'' (rows example_cleaned) = [Number 2, Number 1, Number 3]"
  "column ''Qty.'' (rows example_cleaned_script) = [Number 2, Number 1, Number 3]"
  by (simp_all add: example_rows_cleaned example_rows_cleaned_script column_def example_cells)

lemma example_blocks_dashboard:
  "column c (filter (\<lambda>r. \<not> is_combo (combo_ref_clean example_combo_ref) r)
                           (rows example_cleaned)) @
        concat (map (\<lambda>T. replicate (length (components_of (combo_ref_clean example_combo_ref) T))
                            (T c))
                  (filter (is_combo (combo_ref_clean example_combo_ref)) (rows example_cleaned))) =
   [cleaned_row_dashboard example_lib sales_columns (sale 3 ''Success'' (Text ''Tea'') 1 20) c,
    cleaned_row_dashboard example_lib sales_columns (sale 4 ''Success'' (Text ''Mystery'') 3 45) c,
    cleaned_row_dashboard example_lib sales_columns (sale 1 ''Success'' (Text ''Combo-A'') 2 300) c,
    cleaned_row_dashboard example_lib sales_columns (sale 1 ''Success'' (Text ''Combo-A'') 2 300) c]"
  by (simp add: example_split_dashboard example_components example_component_count column_def
      numeral_2_eq_2)

lemma example_blocks_script:
  "column c (filter (\<lambda>r. \<not> is_combo (combo_ref_clean_script example_combo_ref) r)
                           (rows example_cleaned_script)) @
        concat (map (\<lambda>T. replicate (length (components_of (combo_ref_clean_script example_combo_ref) T))
                            (T c))
                  (filter (is_combo (combo_ref_clean_script example_combo_ref))
                     (rows example_cleaned_script))) =
   [cleaned_row_script example_lib (sale 3 ''Success'' (Text ''Tea'') 1 20) c,
    cleaned_row_script example_lib (sale 4 ''Success'' (Text ''Mystery'') 3 45) c,
    cleaned_row_script example_lib (sale 1 ''Success'' (Text ''Combo-A'') 2 300) c,
    cleaned_row_script example_lib (sale 1 ''Success'' (Text ''Combo-A'') 2 300) c]"
  by (simp add: example_split_script example_components example_component_count column_def
      numeral_2_eq_2)

theorem multiplicity_one_witness:
  "load_data example_lib example_sales example_name_ref example_combo_ref =
     Inr (example_revenue, example_quantity) \<and>
   column ''Qty.'' (rows example_cleaned) = [Number 2, Number 1, Number 3] \<and>
   column ''Qty.'' (rows example_quantity) = [Number 1, Number 3, Number 2, Number 2] \<and>
   load_data example_lib example_sales example_name_ref multiplier_combo_ref =
     Inr (example_revenue, multiplier_quantity) \<and>
   column ''Item Name'' (rows multiplier_combo_ref) =
     column ''Item Name'' (rows example_combo_ref) \<and>
   column ''Count'' (rows multiplier_combo_ref) = [Number 3, Number 5] \<and>
   column ''Qty.'' (rows multiplier_quantity) = [Number 1, Number 3, Number 2, Number 2] \<and>
   sales_analysis example_lib example_sales example_name_ref example_combo_ref =
     Inr (example_revenue_script, example_quantity_script) \<and>
   column ''Qty.'' (rows example_cleaned_script) = [Number 2, Number 1, Number 3] \<and>
   column ''Qty.'' (rows example_quantity_script) = [Number 1, Number 3, Number 2, Number 2] \<and>
   sales_analysis example_lib example_sales example_name_ref multiplier_combo_ref =
     Inr (example_revenue_script, multiplier_quantity_script) \<and>
   column ''Qty.'' (rows multiplier_quantity_script) = [Number 1, Number 3, Number 2, Number 2]"
proof -
  note c = multiplicity_one [of example_lib example_sales example_name_ref example_combo_ref
      example_revenue example_quantity multiplier_combo_ref example_revenue multiplier_quantity
      example_revenue_script example_quantity_script example_revenue_script
      multiplier_quantity_script]
  from c example_load_data
  have d1: "column ''Qty.'' (rows example_quantity) = [Number 1, Number 3, Number 2, Number 2]"
    by (simp only: example_blocks_dashboard example_cells simp_thms)
  from c example_load_data multiplier_load_data multiplier_keys
  have "column ''Qty.'' (rows multiplier_quantity) = column ''Qty.'' (rows example_quantity)"
    by (simp only: simp_thms)
  then have d2: "column ''Qty.'' (rows multiplier_quantity) =
      [Number 1, Number 3, Number 2, Number 2]"
    by (simp only: d1)
  from c example_sales_analysis
  have s1: "column ''Qty.'' (rows example_quantity_script) =
      [Number 1, Number 3, Number 2, Number 2]"
    by (simp only: example_blocks_script example_cells simp_thms)
  from c example_sales_analysis multiplier_sales_analysis multiplier_keys
  have "column ''Qty.'' (rows multiplier_quantity_script) =
      column ''Qty.'' (rows example_quantity_script)"
    by (simp only: simp_thms)
  then have s2: "column ''Qty.'' (rows multiplier_quantity_script) =
      [Number 1, Number 3, Number 2, Number 2]"
    by (simp only: s1)
  show ?thesis
    using d1 d2 s1 s2 example_load_data example_sales_analysis multiplier_load_data
      multiplier_sales_analysis multiplier_keys multiplier_counts example_qty_cleaned
    by (simp only: simp_thms)
qed



lemma names_quantity_dashboard:
  "drop (length (filter (\<lambda>r. \<not> is_combo cref r) (rows df)))
     (column ''Real Item Name'' (rows (quantity_analysis lib df (name_ref_clean n) cref))) =
   concat (map (\<lambda>T. column ''Real Item Name'' (components_of cref T))
             (filter (is_combo cref) (rows df)))"
proof -
  have a: "''Real Item Name'' \<noteq> ''Sub Category''" by simp
  show ?thesis
    by (simp add: column_quantity_dashboard [OF a] column_explode_name length_column)
qed

lemma names_quantity_script:
  assumes "''Parent Category'' \<notin> set (columns df)"
  shows "drop (length (filter (\<lambda>r. \<not> is_combo cref r) (rows df)))
     (column ''Real Item Name'' (rows (quantity_analysis_script df (name_ref_clean n) cref))) =
   concat (map (\<lambda>T. column ''Real Item Name'' (components_of cref T))
             (filter (is_combo cref) (rows df)))"
  by (simp add: column_quantity_script [OF assms] column_explode_script_name length_column)

lemma component_names_dashboard:
  "column ''Real Item Name'' (components_of (combo_ref_clean c) T) =
   column ''Real Item Name''
     (filter (\<lambda>e. pd_eq (e ''Item Name'') (T ''Item Name'')) (rows c))"
  by (simp add: components_of_def rows_combo_ref_clean column_def filter_map o_def restrict_def)

lemma component_names_script:
  "column ''Real Item Name'' (components_of (combo_ref_clean_script c) T) =
   column ''Real Item Name''
     (filter (\<lambda>e. pd_eq (e ''Item Name'') (T ''Item Name'')) (rows c))"
  by (simp add: components_of_def rows_combo_ref_clean_script column_def filter_map o_def
      restrict_def)


lemma example_invoice_cell:
  "cleaned_row_dashboard example_lib cols (sale i st item q a) ''Invoice No.'' = Number i"
  "cleaned_row_script example_lib (sale i st item q a) ''Invoice No.'' = Number i"
  by (simp_all add: example_cells)

lemma example_combo_rows:
  "column ''Real Item Name''
     (filter (\<lambda>e. pd_eq (e ''Item Name'') (Text ''Combo-A'')) (rows example_combo_ref)) =
   [Text ''Item-X'', Text ''Item-Y'']"
  by (simp add: example_combo_ref_def pd_eq_def column_def example_cells)

lemma example_sizes:
  "length (filter (\<lambda>r. \<not> is_combo (combo_ref_clean example_combo_ref) r)
     (rows example_cleaned)) = 2"
  "sum_list (map (\<lambda>T. length (components_of (combo_ref_clean example_combo_ref) T))
     (filter (is_combo (combo_ref_clean example_combo_ref)) (rows example_cleaned))) = 2"
  "length (filter (\<lambda>r. \<not> is_combo (combo_ref_clean_script example_combo_ref) r)
     (rows example_cleaned_script)) = 2"
  "sum_list (map (\<lambda>T. length (components_of (combo_ref_clean_script example_combo_ref) T))
     (filter (is_combo (combo_ref_clean_script example_combo_ref))
        (rows example_cleaned_script))) = 2"
  by (simp_all add: example_split_dashboard example_split_script example_components
      example_component_count)

lemma example_names_blocks:
  "concat (map (\<lambda>T. column ''Real Item Name''
                      (filter (\<lambda>e. pd_eq (e ''Item Name'') (T ''Item Name''))
                         (rows example_combo_ref)))
     (filter (is_combo (combo_ref_clean example_combo_ref)) (rows example_cleaned))) =
   [Text ''Item-X'', Text ''Item-Y'']"
  "concat (map (\<lambda>T. column ''Real Item Name''
                      (filter (\<lambda>e. pd_eq (e ''Item Name'') (T ''Item Name''))
                         (rows example_combo_ref)))
     (filter (is_combo (combo_ref_clean_script example_combo_ref))
        (rows example_cleaned_script))) =
   [Text ''Item-X'', Text ''Item-Y'']"
  by (simp_all add: example_split_dashboard example_split_script example_cells
      example_combo_rows)


lemma cleaned_row_dashboard_total:
  "cleaned_row_dashboard lib cols r ''Final Total'' = to_numeric lib (r ''Final Total'')"
  by (simp add: cleaned_row_dashboard_def clean_row_def Let_def upd_def numeric_cols_def)

lemma cleaned_row_script_total:
  "cleaned_row_script lib r ''Final Total'' = to_numeric lib (r ''Final Total'')"
  by (simp add: cleaned_row_script_def clean_row_def Let_def upd_def numeric_cols_def)

lemma example_total_cell:
  "cleaned_row_dashboard example_lib cols (sale i st item q a) ''Final Total'' = Number a"
  "cleaned_row_script example_lib (sale i st item q a) ''Final Total'' = Number a"
  by (simp_all add: cleaned_row_dashboard_total cleaned_row_script_total sale_cells to_numeric_def)

text \<open>
  C7. Frame property of the combo explosion. In \<^verbatim>\<open>load_data\<close> every column other than
  \<^verbatim>\<open>Real Item Name\<close>, \<^verbatim>\<open>Qty.\<close>, \<^verbatim>\<open>Parent Category\<close> and \<^verbatim>\<open>Sub Category\<close> (so the invoice,
  date, timestamp, outlet, channel, price, sub total, discount, tax and final total) has,
  in each row emitted for a combo transaction, the cell of that transaction. In the
  script the same holds for every column other than these four and the script's own
  working column \<^verbatim>\<open>Component Qty\<close>.
\<close>

theorem explosion_frame:
  "(load_data lib df_sales df_name_ref df_combo_ref = Inr (revenue, quantity) \<longrightarrow>
      (\<forall>c. c \<notin> set [''Real Item Name'', ''Qty.'', ''Parent Category'', ''Sub Category''] \<longrightarrow>
         column c (rows quantity) =
           column c (filter (\<lambda>r. \<not> is_combo (combo_ref_clean df_combo_ref) r)
                       (rows (cleaned_dashboard lib df_sales))) @
           concat (map (\<lambda>T. replicate (length (components_of (combo_ref_clean df_combo_ref) T))
                               (T c))
                     (filter (is_combo (combo_ref_clean df_combo_ref))
                        (rows (cleaned_dashboard lib df_sales)))))) \<and>
   (sales_analysis lib df_sales df_name_ref df_combo_ref = Inr (revenue', quantity') \<longrightarrow>
      (\<forall>c. c \<notin> set [''Real Item Name'', ''Qty.'', ''Parent Category'', ''Sub Category'',
                       ''Component Qty''] \<longrightarrow>
         column c (rows quantity') =
           column c (filter (\<lambda>r. \<not> is_combo (combo_ref_clean_script df_combo_ref) r)
                       (rows (cleaned_script lib df_sales))) @
           concat (map (\<lambda>T. replicate
                               (length (components_of (combo_ref_clean_script df_combo_ref) T))
                               (T c))
                     (filter (is_combo (combo_ref_clean_script df_combo_ref))
                        (rows (cleaned_script lib df_sales))))))"
proof (intro conjI impI allI)
  fix c
  assume l: "load_data lib df_sales df_name_ref df_combo_ref = Inr (revenue, quantity)"
    and c: "c \<notin> set [''Real Item Name'', ''Qty.'', ''Parent Category'', ''Sub Category'']"
  show "column c (rows quantity) =
           column c (filter (\<lambda>r. \<not> is_combo (combo_ref_clean df_combo_ref) r)
                       (rows (cleaned_dashboard lib df_sales))) @
           concat (map (\<lambda>T. replicate (length (components_of (combo_ref_clean df_combo_ref) T))
                               (T c))
                     (filter (is_combo (combo_ref_clean df_combo_ref))
                        (rows (cleaned_dashboard lib df_sales))))"
    unfolding load_data_Inr(3) [OF l] using c by (rule column_quantity_dashboard_other)
next
  fix c
  assume l: "sales_analysis lib df_sales df_name_ref df_combo_ref = Inr (revenue', quantity')"
    and c: "c \<notin> set [''Real Item Name'', ''Qty.'', ''Parent Category'', ''Sub Category'',
                       ''Component Qty'']"
  note p = no_clash_cleaned_script [OF sales_analysis_Inr(1) [OF l], of lib]
  show "column c (rows quantity') =
           column c (filter (\<lambda>r. \<not> is_combo (combo_ref_clean_script df_combo_ref) r)
                       (rows (cleaned_script lib df_sales))) @
           concat (map (\<lambda>T. replicate
                               (length (components_of (combo_ref_clean_script df_combo_ref) T))
                               (T c))
                     (filter (is_combo (combo_ref_clean_script df_combo_ref))
                        (rows (cleaned_script lib df_sales))))"
    unfolding sales_analysis_Inr(3) [OF l] using p c by (rule column_quantity_script_other)
qed

lemma frame_columns:
  "set [''Invoice No.'', ''Date'', ''Timestamp'', ''Outlet'', ''Sales Channel'', ''Price'',
        ''Sub Total'', ''Discount'', ''Tax'', ''Final Total''] \<inter>
   set [''Real Item Name'', ''Qty.'', ''Parent Category'', ''Sub Category'', ''Component Qty''] = {}"
  by simp

theorem explosion_frame_witness:
  "load_data example_lib example_sales example_name_ref example_combo_ref =
     Inr (example_revenue, example_quantity) \<and>
   set [''Invoice No.'', ''Date'', ''Timestamp'', ''Outlet'', ''Sales Channel'', ''Price'',
        ''Sub Total'', ''Discount'', ''Tax'', ''Final Total''] \<inter>
   set [''Real Item Name'', ''Qty.'', ''Parent Category'', ''Sub Category'', ''Component Qty''] = {} \<and>
   column ''Final Total'' (rows example_cleaned) = [Number 300, Number 20, Number 45] \<and>
   column ''Invoice No.'' (rows example_cleaned) = [Number 1, Number 3, Number 4] \<and>
   column ''Final Total'' (rows example_quantity) =
     [Number 20, Number 45, Number 300, Number 300] \<and>
   column ''Invoice No.'' (rows example_quantity) = [Number 3, Number 4, Number 1, Number 1] \<and>
   sales_analysis example_lib example_sales example_name_ref example_combo_ref =
     Inr (example_revenue_script, example_quantity_script) \<and>
   column ''Final Total'' (rows example_quantity_script) =
     [Number 20, Number 45, Number 300, Number 300] \<and>
   column ''Invoice No.'' (rows example_quantity_script) =
     [Number 3, Number 4, Number 1, Number 1]"
proof -
  note c = explosion_frame [of example_lib example_sales example_name_ref example_combo_ref
      example_revenue example_quantity example_revenue_script example_quantity_script]
  have t: "''Final Total'' \<notin> set [''Real Item Name'', ''Qty.'', ''Parent Category'',
             ''Sub Category'']"
    "''Final Total'' \<notin> set [''Real Item Name'', ''Qty.'', ''Parent Category'',
             ''Sub Category'', ''Component Qty'']"
    and i: "''Invoice No.'' \<notin> set [''Real Item Name'', ''Qty.'', ''Parent Category'',
             ''Sub Category'']"
    "''Invoice No.'' \<notin> set [''Real Item Name'', ''Qty.'', ''Parent Category'',
             ''Sub Category'', ''Component Qty'']"
    by simp_all
  from c example_load_data
  have "\<forall>c. c \<notin> set [''Real Item Name'', ''Qty.'', ''Parent Category'', ''Sub Category''] \<longrightarrow>
         column c (rows example_quantity) =
           column c (filter (\<lambda>r. \<not> is_combo (combo_ref_clean example_combo_ref) r)
                       (rows example_cleaned)) @
           concat (map (\<lambda>T. replicate (length (components_of (combo_ref_clean example_combo_ref) T))
                               (T c))
                     (filter (is_combo (combo_ref_clean example_combo_ref))
                        (rows example_cleaned)))"
    by blast
  then have d: "c \<notin> set [''Real Item Name'', ''Qty.'', ''Parent Category'', ''Sub Category''] \<Longrightarrow>
    column c (rows example_quantity) =
   [cleaned_row_dashboard example_lib sales_columns (sale 3 ''Success'' (Text ''Tea'') 1 20) c,
    cleaned_row_dashboard example_lib sales_columns (sale 4 ''Success'' (Text ''Mystery'') 3 45) c,
    cleaned_row_dashboard example_lib sales_columns (sale 1 ''Success'' (Text ''Combo-A'') 2 300) c,
    cleaned_row_dashboard example_lib sales_columns (sale 1 ''Success'' (Text ''Combo-A'') 2 300) c]"
    for c
    by (simp only: example_blocks_dashboard) blast
  from c example_sales_analysis
  have "\<forall>c. c \<notin> set [''Real Item Name'', ''Qty.'', ''Parent Category'', ''Sub Category'',
                       ''Component Qty''] \<longrightarrow>
         column c (rows example_quantity_script) =
           column c (filter (\<lambda>r. \<not> is_combo (combo_ref_clean_script example_combo_ref) r)
                       (rows example_cleaned_script)) @
           concat (map (\<lambda>T. replicate
                               (length (components_of (combo_ref_clean_script example_combo_ref) T))
                               (T c))
                     (filter (is_combo (combo_ref_clean_script example_combo_ref))
                        (rows example_cleaned_script)))"
    by blast
  then have s: "c \<notin> set [''Real Item Name'', ''Qty.'', ''Parent Category'', ''Sub Category'',
                       ''Component Qty''] \<Longrightarrow>
    column c (rows example_quantity_script) =
   [cleaned_row_script example_lib (sale 3 ''Success'' (Text ''Tea'') 1 20) c,
    cleaned_row_script example_lib (sale 4 ''Success'' (Text ''Mystery'') 3 45) c,
    cleaned_row_script example_lib (sale 1 ''Success'' (Text ''Combo-A'') 2 300) c,
    cleaned_row_script example_lib (sale 1 ''Success'' (Text ''Combo-A'') 2 300) c]"
    for c
    by (simp only: example_blocks_script) blast
  have "column ''Final Total'' (rows example_quantity) =
     [Number 20, Number 45, Number 300, Number 300]"
    "column ''Invoice No.'' (rows example_quantity) = [Number 3, Number 4, Number 1, Number 1]"
    "column ''Final Total'' (rows example_quantity_script) =
     [Number 20, Number 45, Number 300, Number 300]"
    "column ''Invoice No.'' (rows example_quantity_script) =
     [Number 3, Number 4, Number 1, Number 1]"
    by (simp_all only: d [OF t(1)] d [OF i(1)] s [OF t(2)] s [OF i(2)] example_total_cell
        example_cells)
  then show ?thesis
    using example_load_data example_sales_analysis frame_columns
      example_final_total_dashboard example_invoice_dashboard
    by (simp only: simp_thms)
qed

lemma categorise_script_working: "categorise_script nref r ''Component Qty'' = NaN"
  by (simp add: categorise_script_def Let_def)

lemma memo_missing:
  "missing_column_script memo_sales example_name_ref example_combo_ref = None"
  by (simp add: missing_column_script_def first_missing_def first_clash_def or_else_def
      numeric_cols_def memo_sales_def example_name_ref_def example_combo_ref_def
      sales_columns_def)

lemma memo_sales_analysis:
  "sales_analysis example_lib memo_sales example_name_ref example_combo_ref =
   Inr (revenue_of_script memo_sales example_name_ref,
        quantity_of_script memo_sales example_name_ref example_combo_ref)"
  by (rule sales_analysis_ok) (rule memo_missing)

lemma memo_rows_cleaned:
  "rows (cleaned_script example_lib memo_sales) =
   [cleaned_row_script example_lib
      ((sale 1 ''Success'' (Text ''Combo-A'') 2 300)(''Component Qty'' := Text ''memo''))]"
  by (simp add: rows_cleaned_script memo_sales_def success_def sale_cells)

lemma memo_cells:
  "cleaned_row_script example_lib
      ((sale 1 ''Success'' (Text ''Combo-A'') 2 300)(''Component Qty'' := Text ''memo''))
      ''Component Qty'' = Text ''memo''"
  "cleaned_row_script example_lib
      ((sale 1 ''Success'' (Text ''Combo-A'') 2 300)(''Component Qty'' := Text ''memo''))
      ''Item Name'' = Text ''Combo-A''"
  "cleaned_row_script example_lib
      ((sale 1 ''Success'' (Text ''Combo-A'') 2 300)(''Component Qty'' := Text ''memo''))
      ''Invoice No.'' = Number 1"
proof -
  have q: "''Component Qty'' \<notin> set ([''Date'', ''Timestamp''] @ numeric_cols @
     [''Year'', ''Month'', ''Month-Year'', ''Week'', ''DayOfWeek'', ''Hour'',
      ''Sales Channel''])"
    by (simp add: numeric_cols_def)
  show "cleaned_row_script example_lib
      ((sale 1 ''Success'' (Text ''Combo-A'') 2 300)(''Component Qty'' := Text ''memo''))
      ''Component Qty'' = Text ''memo''"
    by (simp only: cleaned_row_script_other [OF q] fun_upd_same)
  show "cleaned_row_script example_lib
      ((sale 1 ''Success'' (Text ''Combo-A'') 2 300)(''Component Qty'' := Text ''memo''))
      ''Item Name'' = Text ''Combo-A''"
    by (simp add: cleaned_row_script_plain sale_cells)
  show "cleaned_row_script example_lib
      ((sale 1 ''Success'' (Text ''Combo-A'') 2 300)(''Component Qty'' := Text ''memo''))
      ''Invoice No.'' = Number 1"
    by (simp add: cleaned_row_script_plain sale_cells)
qed

lemma memo_split:
  "filter (is_combo (combo_ref_clean_script example_combo_ref))
     (rows (cleaned_script example_lib memo_sales)) =
   [cleaned_row_script example_lib
      ((sale 1 ''Success'' (Text ''Combo-A'') 2 300)(''Component Qty'' := Text ''memo''))]"
  "filter (\<lambda>r. \<not> is_combo (combo_ref_clean_script example_combo_ref) r)
     (rows (cleaned_script example_lib memo_sales)) = []"
  by (simp_all add: memo_rows_cleaned is_combo_iff example_combo_keys memo_cells)

lemma memo_components:
  "components_of (combo_ref_clean_script example_combo_ref)
     (cleaned_row_script example_lib
        ((sale 1 ''Success'' (Text ''Combo-A'') 2 300)(''Component Qty'' := Text ''memo''))) =
   map (restrict [''Item Name'', ''Real Item Name'']) (rows example_combo_ref)"
  by (simp add: components_of_def rows_combo_ref_clean_script pd_eq_def example_combo_ref_def
      memo_cells example_cells)

lemma memo_component_count:
  "length (components_of (combo_ref_clean_script example_combo_ref)
     (cleaned_row_script example_lib
        ((sale 1 ''Success'' (Text ''Combo-A'') 2 300)(''Component Qty'' := Text ''memo'')))) = 2"
  by (simp add: memo_components example_component_count)

lemma length_explode_script: "length (explode_script cref T) = length (components_of cref T)"
  by (simp add: explode_script_def)

lemma column_working:
  "column ''Component Qty'' (map (categorise_script nref) rs) = replicate (length rs) NaN"
  by (induction rs) (simp_all add: column_def categorise_script_working)

lemma memo_no_clash:
  "''Parent Category'' \<notin> set (columns (cleaned_script example_lib memo_sales))"
  using memo_missing by (rule no_clash_cleaned_script)

lemma memo_working_column:
  "column ''Component Qty''
     (rows (quantity_of_script memo_sales example_name_ref example_combo_ref)) = [NaN, NaN]"
  by (simp only: column_quantity_script [OF memo_no_clash] column_working length_explode_script)
     (simp add: memo_split memo_component_count column_def numeral_2_eq_2)

lemma memo_invoice_column:
  "column ''Invoice No.''
     (rows (quantity_of_script memo_sales example_name_ref example_combo_ref)) =
   [Number 1, Number 1]"
proof -
  have i: "''Invoice No.'' \<notin> set [''Real Item Name'', ''Qty.'', ''Parent Category'',
             ''Sub Category'', ''Component Qty'']"
    by simp
  show ?thesis
    by (simp only: column_quantity_script_other [OF memo_no_clash i])
       (simp add: memo_split memo_component_count memo_cells column_def numeral_2_eq_2)
qed

theorem explosion_frame_counterexample:
  "sales_analysis example_lib memo_sales example_name_ref example_combo_ref =
     Inr (revenue_of_script memo_sales example_name_ref,
          quantity_of_script memo_sales example_name_ref example_combo_ref) \<and>
   column ''Item Name'' (rows (cleaned_script example_lib memo_sales)) = [Text ''Combo-A''] \<and>
   column ''Invoice No.'' (rows (cleaned_script example_lib memo_sales)) = [Number 1] \<and>
   column ''Component Qty'' (rows (cleaned_script example_lib memo_sales)) = [Text ''memo''] \<and>
   column ''Invoice No.''
     (rows (quantity_of_script memo_sales example_name_ref example_combo_ref)) =
     [Number 1, Number 1] \<and>
   column ''Component Qty''
     (rows (quantity_of_script memo_sales example_name_ref example_combo_ref)) = [NaN, NaN]"
proof -
  have "column ''Item Name'' (rows (cleaned_script example_lib memo_sales)) = [Text ''Combo-A'']"
    "column ''Invoice No.'' (rows (cleaned_script example_lib memo_sales)) = [Number 1]"
    "column ''Component Qty'' (rows (cleaned_script example_lib memo_sales)) = [Text ''memo'']"
    by (simp_all add: memo_rows_cleaned column_def memo_cells)
  then show ?thesis
    using memo_sales_analysis memo_working_column memo_invoice_column
    by (simp only: simp_thms)
qed

text \<open>The failed sheet and the sheet with no status column.\<close>

lemma failed_missing:
  "missing_column_dashboard failed_sales example_name_ref example_combo_ref = None"
  "missing_column_script failed_sales example_name_ref example_combo_ref = None"
  by (simp_all add: missing_column_dashboard_def missing_column_script_def first_missing_def
      first_clash_def or_else_def numeric_cols_def failed_sales_def example_name_ref_def
      example_combo_ref_def sales_columns_def)

lemma no_status_missing:
  "missing_column_dashboard no_status_sales example_name_ref example_combo_ref = Some ''Status''"
  "missing_column_script no_status_sales example_name_ref example_combo_ref = Some ''Status''"
  by (simp_all add: missing_column_dashboard_def missing_column_script_def first_missing_def
      or_else_def no_status_sales_def sales_columns_def)

lemma missing_status:
  assumes "''Status'' \<notin> set (columns s)"
  shows "missing_column_dashboard s n c = Some ''Status''"
    and "missing_column_script s n c = Some ''Status''"
  using assms
  by (simp_all add: missing_column_dashboard_def missing_column_script_def first_missing_def
      or_else_def)

lemma rows_quantity_empty_dashboard:
  assumes "rows df = []"
  shows "rows (quantity_analysis lib df (name_ref_clean n) cref) = []"
  by (simp add: rows_quantity_analysis [OF distinct_name_ref_clean] assms)

lemma rows_quantity_empty_script:
  assumes "rows df = []" and "''Parent Category'' \<notin> set (columns df)"
  shows "rows (quantity_analysis_script df (name_ref_clean n) cref) = []"
  by (simp add: rows_quantity_analysis_script [OF distinct_name_ref_clean assms(2)] assms(1))

text \<open>
  C6. Failure signalling of the cleaner. Without a \<^verbatim>\<open>Status\<close> column both programs fail
  with the \<^verbatim>\<open>KeyError\<close> of that column (\<^verbatim>\<open>load_data\<close> catches it, reports it and returns
  \<^verbatim>\<open>None, None\<close>; the script stops). With a \<^verbatim>\<open>Status\<close> column and no row whose status is
  \<^verbatim>\<open>Success\<close>, nothing is signalled: a run that succeeds returns the two views with no
  rows.
\<close>

theorem cleaner_failure:
  "(''Status'' \<notin> set (columns df_sales) \<longrightarrow>
      load_data lib df_sales df_name_ref df_combo_ref = Inl (KeyError ''Status'') \<and>
      sales_analysis lib df_sales df_name_ref df_combo_ref = Inl (KeyError ''Status'')) \<and>
   (load_data lib df_sales df_name_ref df_combo_ref = Inr (revenue, quantity) \<and>
    filter (\<lambda>r. r ''Status'' = Text ''Success'') (rows df_sales) = [] \<longrightarrow>
      rows revenue = [] \<and> rows quantity = []) \<and>
   (sales_analysis lib df_sales df_name_ref df_combo_ref = Inr (revenue', quantity') \<and>
    filter (\<lambda>r. r ''Status'' = Text ''Success'') (rows df_sales) = [] \<longrightarrow>
      rows revenue' = [] \<and> rows quantity' = [])"
proof (intro conjI impI; (elim conjE)?)
  assume "''Status'' \<notin> set (columns df_sales)"
  then show "load_data lib df_sales df_name_ref df_combo_ref = Inl (KeyError ''Status'')"
    "sales_analysis lib df_sales df_name_ref df_combo_ref = Inl (KeyError ''Status'')"
    by (simp_all add: load_data_def sales_analysis_def missing_status)
next
  assume l: "load_data lib df_sales df_name_ref df_combo_ref = Inr (revenue, quantity)"
    and e: "filter (\<lambda>r. r ''Status'' = Text ''Success'') (rows df_sales) = []"
  have r: "rows (cleaned_dashboard lib df_sales) = []"
    by (simp add: rows_cleaned_dashboard success_filter e)
  show "rows revenue = []"
    unfolding load_data_Inr(2) [OF l] by (simp add: rows_revenue_analysis r)
  show "rows quantity = []"
    unfolding load_data_Inr(3) [OF l] using r by (rule rows_quantity_empty_dashboard)
next
  assume l: "sales_analysis lib df_sales df_name_ref df_combo_ref = Inr (revenue', quantity')"
    and e: "filter (\<lambda>r. r ''Status'' = Text ''Success'') (rows df_sales) = []"
  have r: "rows (cleaned_script lib df_sales) = []"
    by (simp add: rows_cleaned_script success_filter e)
  note p = no_clash_cleaned_script [OF sales_analysis_Inr(1) [OF l], of lib]
  show "rows revenue' = []"
    unfolding sales_analysis_Inr(2) [OF l] by (simp add: rows_revenue_analysis_script r)
  show "rows quantity' = []"
    unfolding sales_analysis_Inr(3) [OF l] using r p by (rule rows_quantity_empty_script)
qed

lemma failed_status: "column ''Status'' (rows failed_sales) = [Text ''Failed'']"
  by (simp add: column_def failed_sales_def sale_cells)

lemma failed_filter:
  "filter (\<lambda>r. r ''Status'' = Text ''Success'') (rows failed_sales) = []"
  by (simp add: failed_sales_def sale_cells)

lemma failed_load_data:
  "load_data example_lib failed_sales example_name_ref example_combo_ref =
   Inr (revenue_of failed_sales example_name_ref,
        quantity_of failed_sales example_name_ref example_combo_ref)"
  by (rule load_data_ok) (rule failed_missing)

lemma failed_sales_analysis:
  "sales_analysis example_lib failed_sales example_name_ref example_combo_ref =
   Inr (revenue_of_script failed_sales example_name_ref,
        quantity_of_script failed_sales example_name_ref example_combo_ref)"
  by (rule sales_analysis_ok) (rule failed_missing)

lemma no_status_columns: "''Status'' \<notin> set (columns no_status_sales)"
  by (simp add: no_status_sales_def sales_columns_def)

theorem cleaner_failure_witness:
  "''Status'' \<notin> set (columns no_status_sales) \<and>
   load_data example_lib no_status_sales example_name_ref example_combo_ref =
     Inl (KeyError ''Status'') \<and>
   sales_analysis example_lib no_status_sales example_name_ref example_combo_ref =
     Inl (KeyError ''Status'') \<and>
   filter (\<lambda>r. r ''Status'' = Text ''Success'') (rows failed_sales) = [] \<and>
   load_data example_lib failed_sales example_name_ref example_combo_ref =
     Inr (revenue_of failed_sales example_name_ref,
          quantity_of failed_sales example_name_ref example_combo_ref) \<and>
   rows (revenue_of failed_sales example_name_ref) = [] \<and>
   rows (quantity_of failed_sales example_name_ref example_combo_ref) = [] \<and>
   sales_analysis example_lib failed_sales example_name_ref example_combo_ref =
     Inr (revenue_of_script failed_sales example_name_ref,
          quantity_of_script failed_sales example_name_ref example_combo_ref) \<and>
   rows (revenue_of_script failed_sales example_name_ref) = [] \<and>
   rows (quantity_of_script failed_sales example_name_ref example_combo_ref) = []"
proof -
  note n = cleaner_failure [of no_status_sales example_lib example_name_ref example_combo_ref]
  note c = cleaner_failure [of failed_sales example_lib example_name_ref example_combo_ref
      "revenue_of failed_sales example_name_ref"
      "quantity_of failed_sales example_name_ref example_combo_ref"
      "revenue_of_script failed_sales example_name_ref"
      "quantity_of_script failed_sales example_name_ref example_combo_ref"]
  from n no_status_columns
  have a: "load_data example_lib no_status_sales example_name_ref example_combo_ref =
     Inl (KeyError ''Status'')"
    "sales_analysis example_lib no_status_sales example_name_ref example_combo_ref =
     Inl (KeyError ''Status'')"
    by blast+
  from c failed_load_data failed_filter
  have d: "rows (revenue_of failed_sales example_name_ref) = []"
    "rows (quantity_of failed_sales example_name_ref example_combo_ref) = []"
    by blast+
  from c failed_sales_analysis failed_filter
  have s: "rows (revenue_of_script failed_sales example_name_ref) = []"
    "rows (quantity_of_script failed_sales example_name_ref example_combo_ref) = []"
    by blast+
  show ?thesis
    using a d s no_status_columns failed_filter failed_load_data failed_sales_analysis
    by (simp only: simp_thms)
qed

theorem cleaner_failure_counterexample:
  "column ''Status'' (rows failed_sales) = [Text ''Failed''] \<and>
   load_data example_lib failed_sales example_name_ref example_combo_ref =
     Inr (revenue_of failed_sales example_name_ref,
          quantity_of failed_sales example_name_ref example_combo_ref) \<and>
   rows (revenue_of failed_sales example_name_ref) = [] \<and>
   rows (quantity_of failed_sales example_name_ref example_combo_ref) = [] \<and>
   sales_analysis example_lib failed_sales example_name_ref example_combo_ref =
     Inr (revenue_of_script failed_sales example_name_ref,
          quantity_of_script failed_sales example_name_ref example_combo_ref) \<and>
   rows (revenue_of_script failed_sales example_name_ref) = [] \<and>
   rows (quantity_of_script failed_sales example_name_ref example_combo_ref) = []"
proof -
  have r: "rows (cleaned_dashboard example_lib failed_sales) = []"
    "rows (cleaned_script example_lib failed_sales) = []"
    by (simp_all add: rows_cleaned_dashboard rows_cleaned_script success_filter failed_filter)
  have p: "''Parent Category'' \<notin> set (columns (cleaned_script example_lib failed_sales))"
    using failed_missing(2) by (rule no_clash_cleaned_script)
  have "rows (revenue_of failed_sales example_name_ref) = []"
    "rows (revenue_of_script failed_sales example_name_ref) = []"
    by (simp_all add: rows_revenue_analysis rows_revenue_analysis_script r)
  moreover have "rows (quantity_of failed_sales example_name_ref example_combo_ref) = []"
    using r(1) by (rule rows_quantity_empty_dashboard)
  moreover have "rows (quantity_of_script failed_sales example_name_ref example_combo_ref) = []"
    using r(2) p by (rule rows_quantity_empty_script)
  ultimately show ?thesis
    using failed_status failed_load_data failed_sales_analysis
    by (simp only: simp_thms)
qed

lemma find_filter_hd: "find P xs = (case filter P xs of [] \<Rightarrow> None | x # _ \<Rightarrow> Some x)"
  by (induction xs) simp_all

lemma component_row_parent:
  "component_row nref T component ''Parent Category'' =
   (case find (\<lambda>m. pd_eq (m ''Real Item Name'') (component ''Real Item Name'')) (rows nref) of
      Some m \<Rightarrow> m ''Parent Category''
    | None \<Rightarrow> component ''Category'')"
  by (simp add: component_row_def Let_def find_filter_hd split: list.split)

lemma component_row_sub:
  "component_row nref T component ''Sub Category'' =
   (case find (\<lambda>m. pd_eq (m ''Real Item Name'') (component ''Real Item Name'')) (rows nref) of
      Some m \<Rightarrow> m ''Sub Category''
    | None \<Rightarrow> (if component ''Sub Category'' \<noteq> NaN then component ''Sub Category''
               else component ''Real Item Name''))"
  by (simp add: component_row_def Let_def find_filter_hd notna_def split: list.split)

lemma parent_quantity_dashboard:
  "drop (length (filter (\<lambda>r. \<not> is_combo cref r) (rows df)))
     (column ''Parent Category'' (rows (quantity_analysis lib df (name_ref_clean n) cref))) =
   concat (map (\<lambda>T. map (\<lambda>component.
       case find (\<lambda>m. pd_eq (m ''Real Item Name'') (component ''Real Item Name''))
              (rows (name_ref_clean n)) of
         Some m \<Rightarrow> m ''Parent Category''
       | None \<Rightarrow> component ''Category'') (components_of cref T))
     (filter (is_combo cref) (rows df)))"
proof -
  have a: "''Parent Category'' \<noteq> ''Sub Category''" by simp
  have "column ''Parent Category'' (explode (name_ref_clean n) cref T) =
        map (\<lambda>component.
       case find (\<lambda>m. pd_eq (m ''Real Item Name'') (component ''Real Item Name''))
              (rows (name_ref_clean n)) of
         Some m \<Rightarrow> m ''Parent Category''
       | None \<Rightarrow> component ''Category'') (components_of cref T)" for T
    by (simp add: explode_def column_def component_row_parent)
  then show ?thesis
    by (simp add: column_quantity_dashboard [OF a] length_column)
qed

lemma sub_quantity_dashboard:
  "drop (length (filter (\<lambda>r. \<not> is_combo cref r) (rows df)))
     (column ''Sub Category'' (rows (quantity_analysis lib df (name_ref_clean n) cref))) =
   concat (map (\<lambda>T. map (\<lambda>component. astype_str lib (fillna (Text ''Unknown'')
      (case find (\<lambda>m. pd_eq (m ''Real Item Name'') (component ''Real Item Name''))
              (rows (name_ref_clean n)) of
         Some m \<Rightarrow> m ''Sub Category''
       | None \<Rightarrow> (if component ''Sub Category'' \<noteq> NaN then component ''Sub Category''
                  else component ''Real Item Name'')))) (components_of cref T))
     (filter (is_combo cref) (rows df)))"
proof -
  have "column ''Sub Category'' (map (clean_sub_category lib) (explode (name_ref_clean n) cref T)) =
        map (\<lambda>component. astype_str lib (fillna (Text ''Unknown'')
      (case find (\<lambda>m. pd_eq (m ''Real Item Name'') (component ''Real Item Name''))
              (rows (name_ref_clean n)) of
         Some m \<Rightarrow> m ''Sub Category''
       | None \<Rightarrow> (if component ''Sub Category'' \<noteq> NaN then component ''Sub Category''
                  else component ''Real Item Name'')))) (components_of cref T)" for T
    by (simp add: explode_def column_def component_row_sub clean_sub_category_def upd_def)
  then show ?thesis
    by (simp add: rows_quantity_analysis [OF distinct_name_ref_clean] column_append
        map_concat_map column_concat_map length_column o_def)
qed

lemma find_script_right:
  "find (\<lambda>e. e ''Real Item Name'' = v)
     (rows (drop_duplicates ''Real Item Name''
        (select [''Real Item Name'', ''Parent Category'', ''Sub Category''] nref))) =
   map_option (restrict [''Real Item Name'', ''Parent Category'', ''Sub Category''])
     (find (\<lambda>m. m ''Real Item Name'' = v) (rows nref))"
  by (simp add: drop_duplicates_def rows_select find_dedup_rows find_map restrict_def)

lemma join_script_right:
  assumes "c \<in> set [''Parent Category'', ''Sub Category'']"
  shows "join_row ''Real Item Name''
     (drop_duplicates ''Real Item Name''
        (select [''Real Item Name'', ''Parent Category'', ''Sub Category''] nref)) l c =
   (case find (\<lambda>m. m ''Real Item Name'' = l ''Real Item Name'') (rows nref) of
      None \<Rightarrow> NaN | Some m \<Rightarrow> m c)"
  using assms unfolding join_row_def Let_def find_script_right columns_script_right
  by (auto simp: restrict_def split: option.split)

lemma categorise_script_parent:
  "categorise_script nref (component_row_script T component) ''Parent Category'' =
   (case find (\<lambda>m. m ''Real Item Name'' = component ''Real Item Name'') (rows nref) of
      Some m \<Rightarrow> fillna (Text ''Unknown'') (m ''Parent Category'')
    | None \<Rightarrow> Text ''Unknown'')"
proof -
  have "''Parent Category'' \<in> set [''Parent Category'', ''Sub Category'']" by simp
  note j = join_script_right [OF this]
  show ?thesis
    by (simp add: categorise_script_def Let_def upd_def j component_row_script_def fillna_def
        split: option.split)
qed

lemma categorise_script_sub:
  "categorise_script nref (component_row_script T component) ''Sub Category'' =
   (case find (\<lambda>m. m ''Real Item Name'' = component ''Real Item Name'') (rows nref) of
      Some m \<Rightarrow> fillna (Text ''Unknown'') (m ''Sub Category'')
    | None \<Rightarrow> Text ''Unknown'')"
proof -
  have "''Sub Category'' \<in> set [''Parent Category'', ''Sub Category'']" by simp
  note j = join_script_right [OF this]
  show ?thesis
    by (simp add: categorise_script_def Let_def upd_def j component_row_script_def fillna_def
        split: option.split)
qed

lemma category_quantity_script:
  assumes "''Parent Category'' \<notin> set (columns df)"
    and "c \<in> set [''Parent Category'', ''Sub Category'']"
  shows "drop (length (filter (\<lambda>r. \<not> is_combo cref r) (rows df)))
     (column c (rows (quantity_analysis_script df (name_ref_clean n) cref))) =
   concat (map (\<lambda>T. map (\<lambda>component.
       case find (\<lambda>m. m ''Real Item Name'' = component ''Real Item Name'')
              (rows (name_ref_clean n)) of
         Some m \<Rightarrow> fillna (Text ''Unknown'') (m c)
       | None \<Rightarrow> Text ''Unknown'') (components_of cref T))
     (filter (is_combo cref) (rows df)))"
proof -
  have "column c (map (categorise_script (name_ref_clean n)) (explode_script cref T)) =
        map (\<lambda>component.
       case find (\<lambda>m. m ''Real Item Name'' = component ''Real Item Name'')
              (rows (name_ref_clean n)) of
         Some m \<Rightarrow> fillna (Text ''Unknown'') (m c)
       | None \<Rightarrow> Text ''Unknown'') (components_of cref T)" for T
    using assms(2)
    by (auto simp: explode_script_def column_def categorise_script_parent categorise_script_sub)
  then show ?thesis
    by (simp add: column_quantity_script [OF assms(1)] length_column)
qed

text \<open>
  C4. Category resolution of a component row. In \<^verbatim>\<open>load_data\<close> the parent and the sub
  category of the row emitted for a component are those of the first row of the item
  mapping whose canonical name \<^verbatim>\<open>==\<close> the component's; when there is none, the parent
  category is the combo mapping's \<^verbatim>\<open>Category\<close> of the component and the sub category is
  its \<^verbatim>\<open>Sub Category\<close>, or the component's canonical name when that hint is missing; a
  sub category still missing becomes \<^verbatim>\<open>Unknown\<close>. In the script both categories are those
  of the item mapping's first row with the component's canonical name, \<^verbatim>\<open>Unknown\<close> when
  missing, and \<^verbatim>\<open>Unknown\<close> when there is no such row: the hints are not read.
\<close>

theorem category_resolution:
  "(load_data lib df_sales df_name_ref df_combo_ref = Inr (revenue, quantity) \<longrightarrow>
      drop (length (filter (\<lambda>r. \<not> is_combo (combo_ref_clean df_combo_ref) r)
                      (rows (cleaned_dashboard lib df_sales))))
        (column ''Parent Category'' (rows quantity)) =
      concat (map (\<lambda>T. map (\<lambda>component.
          case find (\<lambda>m. pd_eq (m ''Real Item Name'') (component ''Real Item Name''))
                 (rows (name_ref_clean df_name_ref)) of
            Some m \<Rightarrow> m ''Parent Category''
          | None \<Rightarrow> component ''Category'')
            (components_of (combo_ref_clean df_combo_ref) T))
        (filter (is_combo (combo_ref_clean df_combo_ref))
           (rows (cleaned_dashboard lib df_sales)))) \<and>
      drop (length (filter (\<lambda>r. \<not> is_combo (combo_ref_clean df_combo_ref) r)
                      (rows (cleaned_dashboard lib df_sales))))
        (column ''Sub Category'' (rows quantity)) =
      concat (map (\<lambda>T. map (\<lambda>component. astype_str lib (fillna (Text ''Unknown'')
         (case find (\<lambda>m. pd_eq (m ''Real Item Name'') (component ''Real Item Name''))
                 (rows (name_ref_clean df_name_ref)) of
            Some m \<Rightarrow> m ''Sub Category''
          | None \<Rightarrow> (if component ''Sub Category'' \<noteq> NaN then component ''Sub Category''
                     else component ''Real Item Name''))))
            (components_of (combo_ref_clean df_combo_ref) T))
        (filter (is_combo (combo_ref_clean df_combo_ref))
           (rows (cleaned_dashboard lib df_sales))))) \<and>
   (sales_analysis lib df_sales df_name_ref df_combo_ref = Inr (revenue', quantity') \<longrightarrow>
      drop (length (filter (\<lambda>r. \<not> is_combo (combo_ref_clean_script df_combo_ref) r)
                      (rows (cleaned_script lib df_sales))))
        (column ''Parent Category'' (rows quantity')) =
      concat (map (\<lambda>T. map (\<lambda>component.
          case find (\<lambda>m. m ''Real Item Name'' = component ''Real Item Name'')
                 (rows (name_ref_clean df_name_ref)) of
            Some m \<Rightarrow> fillna (Text ''Unknown'') (m ''Parent Category'')
          | None \<Rightarrow> Text ''Unknown'')
            (components_of (combo_ref_clean_script df_combo_ref) T))
        (filter (is_combo (combo_ref_clean_script df_combo_ref))
           (rows (cleaned_script lib df_sales)))) \<and>
      drop (length (filter (\<lambda>r. \<not> is_combo (combo_ref_clean_script df_combo_ref) r)
                      (rows (cleaned_script lib df_sales))))
        (column ''Sub Category'' (rows quantity')) =
      concat (map (\<lambda>T. map (\<lambda>component.
          case find (\<lambda>m. m ''Real Item Name'' = component ''Real Item Name'')
                 (rows (name_ref_clean df_name_ref)) of
            Some m \<Rightarrow> fillna (Text ''Unknown'') (m ''Sub Category'')
          | None \<Rightarrow> Text ''Unknown'')
            (components_of (combo_ref_clean_script df_combo_ref) T))
        (filter (is_combo (combo_ref_clean_script df_combo_ref))
           (rows (cleaned_script lib df_sales)))))"
proof (intro conjI impI)
  assume l: "load_data lib df_sales df_name_ref df_combo_ref = Inr (revenue, quantity)"
  show "drop (length (filter (\<lambda>r. \<not> is_combo (combo_ref_clean df_combo_ref) r)
                      (rows (cleaned_dashboard lib df_sales))))
        (column ''Parent Category'' (rows quantity)) =
      concat (map (\<lambda>T. map (\<lambda>component.
          case find (\<lambda>m. pd_eq (m ''Real Item Name'') (component ''Real Item Name''))
                 (rows (name_ref_clean df_name_ref)) of
            Some m \<Rightarrow> m ''Parent Category''
          | None \<Rightarrow> component ''Category'')
            (components_of (combo_ref_clean df_combo_ref) T))
        (filter (is_combo (combo_ref_clean df_combo_ref))
           (rows (cleaned_dashboard lib df_sales))))"
    unfolding load_data_Inr(3) [OF l] by (rule parent_quantity_dashboard)
  show "drop (length (filter (\<lambda>r. \<not> is_combo (combo_ref_clean df_combo_ref) r)
                      (rows (cleaned_dashboard lib df_sales))))
        (column ''Sub Category'' (rows quantity)) =
      concat (map (\<lambda>T. map (\<lambda>component. astype_str lib (fillna (Text ''Unknown'')
         (case find (\<lambda>m. pd_eq (m ''Real Item Name'') (component ''Real Item Name''))
                 (rows (name_ref_clean df_name_ref)) of
            Some m \<Rightarrow> m ''Sub Category''
          | None \<Rightarrow> (if component ''Sub Category'' \<noteq> NaN then component ''Sub Category''
                     else component ''Real Item Name''))))
            (components_of (combo_ref_clean df_combo_ref) T))
        (filter (is_combo (combo_ref_clean df_combo_ref))
           (rows (cleaned_dashboard lib df_sales))))"
    unfolding load_data_Inr(3) [OF l] by (rule sub_quantity_dashboard)
next
  assume l: "sales_analysis lib df_sales df_name_ref df_combo_ref = Inr (revenue', quantity')"
  note p = no_clash_cleaned_script [OF sales_analysis_Inr(1) [OF l], of lib]
  have a: "''Parent Category'' \<in> set [''Parent Category'', ''Sub Category'']"
    and b: "''Sub Category'' \<in> set [''Parent Category'', ''Sub Category'']"
    by simp_all
  show "drop (length (filter (\<lambda>r. \<not> is_combo (combo_ref_clean_script df_combo_ref) r)
                      (rows (cleaned_script lib df_sales))))
        (column ''Parent Category'' (rows quantity')) =
      concat (map (\<lambda>T. map (\<lambda>component.
          case find (\<lambda>m. m ''Real Item Name'' = component ''Real Item Name'')
                 (rows (name_ref_clean df_name_ref)) of
            Some m \<Rightarrow> fillna (Text ''Unknown'') (m ''Parent Category'')
          | None \<Rightarrow> Text ''Unknown'')
            (components_of (combo_ref_clean_script df_combo_ref) T))
        (filter (is_combo (combo_ref_clean_script df_combo_ref))
           (rows (cleaned_script lib df_sales))))"
    unfolding sales_analysis_Inr(3) [OF l] using p a by (rule category_quantity_script)
  show "drop (length (filter (\<lambda>r. \<not> is_combo (combo_ref_clean_script df_combo_ref) r)
                      (rows (cleaned_script lib df_sales))))
        (column ''Sub Category'' (rows quantity')) =
      concat (map (\<lambda>T. map (\<lambda>component.
          case find (\<lambda>m. m ''Real Item Name'' = component ''Real Item Name'')
                 (rows (name_ref_clean df_name_ref)) of
            Some m \<Rightarrow> fillna (Text ''Unknown'') (m ''Sub Category'')
          | None \<Rightarrow> Text ''Unknown'')
            (components_of (combo_ref_clean_script df_combo_ref) T))
        (filter (is_combo (combo_ref_clean_script df_combo_ref))
           (rows (cleaned_script lib df_sales))))"
    unfolding sales_analysis_Inr(3) [OF l] using p b by (rule category_quantity_script)
qed

text \<open>The example transactions with the combo mapping that has telling hints.\<close>

lemma hinted_missing:
  "missing_column_dashboard example_sales example_name_ref hinted_combo_ref = None"
  "missing_column_script example_sales example_name_ref hinted_combo_ref = None"
  by (simp_all add: missing_column_dashboard_def missing_column_script_def first_missing_def
      first_clash_def or_else_def numeric_cols_def example_sales_def example_name_ref_def
      hinted_combo_ref_def sales_columns_def)

lemma hinted_load_data:
  "load_data example_lib example_sales example_name_ref hinted_combo_ref =
   Inr (revenue_of example_sales example_name_ref,
        quantity_of example_sales example_name_ref hinted_combo_ref)"
  by (rule load_data_ok) (rule hinted_missing)

lemma hinted_sales_analysis:
  "sales_analysis example_lib example_sales example_name_ref hinted_combo_ref =
   Inr (revenue_of_script example_sales example_name_ref,
        quantity_of_script example_sales example_name_ref hinted_combo_ref)"
  by (rule sales_analysis_ok) (rule hinted_missing)

lemma hinted_keys:
  "column ''Item Name'' (rows (combo_ref_clean hinted_combo_ref)) =
     [Text ''Combo-A'', Text ''Combo-A'', Text ''Combo-A'']"
  "column ''Item Name'' (rows (combo_ref_clean_script hinted_combo_ref)) =
     [Text ''Combo-A'', Text ''Combo-A'', Text ''Combo-A'']"
  by (simp_all add: rows_combo_ref_clean rows_combo_ref_clean_script column_def
      hinted_combo_ref_def example_cells)

lemma hinted_split_dashboard:
  "filter (is_combo (combo_ref_clean hinted_combo_ref)) (rows example_cleaned) =
     [cleaned_row_dashboard example_lib sales_columns (sale 1 ''Success'' (Text ''Combo-A'') 2 300)]"
  "length (filter (\<lambda>r. \<not> is_combo (combo_ref_clean hinted_combo_ref) r)
     (rows example_cleaned)) = 2"
  by (simp_all add: example_rows_cleaned is_combo_iff hinted_keys example_cells)

lemma hinted_split_script:
  "filter (is_combo (combo_ref_clean_script hinted_combo_ref)) (rows example_cleaned_script) =
     [cleaned_row_script example_lib (sale 1 ''Success'' (Text ''Combo-A'') 2 300)]"
  "length (filter (\<lambda>r. \<not> is_combo (combo_ref_clean_script hinted_combo_ref) r)
     (rows example_cleaned_script)) = 2"
  by (simp_all add: example_rows_cleaned_script is_combo_iff hinted_keys example_cells)

lemma hinted_components:
  "components_of (combo_ref_clean hinted_combo_ref)
     (cleaned_row_dashboard example_lib sales_columns (sale 1 ''Success'' (Text ''Combo-A'') 2 300)) =
   map (restrict [''Item Name'', ''Real Item Name'', ''Category'', ''Sub Category''])
     (rows hinted_combo_ref)"
  "components_of (combo_ref_clean_script hinted_combo_ref)
     (cleaned_row_script example_lib (sale 1 ''Success'' (Text ''Combo-A'') 2 300)) =
   map (restrict [''Item Name'', ''Real Item Name'']) (rows hinted_combo_ref)"
  by (simp_all add: components_of_def rows_combo_ref_clean rows_combo_ref_clean_script pd_eq_def
      hinted_combo_ref_def example_cells)

lemma hinted_rows:
  "rows hinted_combo_ref =
     [combo_entry (Text ''Combo-A'') ''Item-X'' (Text ''Meals'') (Text ''Plates''),
      combo_entry (Text ''Combo-A'') ''Item-Y'' (Text ''Drinks'') (Text ''Juice''),
      combo_entry (Text ''Combo-A'') ''Item-Z'' NaN NaN]"
  by (simp add: hinted_combo_ref_def)

lemma hinted_hints:
  "column ''Real Item Name'' (rows hinted_combo_ref) =
     [Text ''Item-X'', Text ''Item-Y'', Text ''Item-Z'']"
  "column ''Category'' (rows hinted_combo_ref) = [Text ''Meals'', Text ''Drinks'', NaN]"
  "column ''Sub Category'' (rows hinted_combo_ref) = [Text ''Plates'', Text ''Juice'', NaN]"
  by (simp_all add: column_def hinted_combo_ref_def example_cells)

lemma example_mapping_columns:
  "column ''Real Item Name'' (rows (name_ref_clean example_name_ref)) =
     [Text ''Masala Tea'', Text ''Item-X'']"
  "column ''Parent Category'' (rows (name_ref_clean example_name_ref)) =
     [Text ''Beverages'', Text ''Food'']"
  "column ''Sub Category'' (rows (name_ref_clean example_name_ref)) =
     [Text ''Hot'', Text ''Snacks'']"
  by (simp_all add: column_def example_item_mapping name_ref_row_simps example_cells)

lemma example_mapping_find:
  "find (\<lambda>m. pd_eq (m ''Real Item Name'') (Text ''Item-X'')) (rows (name_ref_clean example_name_ref)) =
     Some (name_ref_row (name_entry ''Item-X'' ''Item-X'' ''Food'' ''Snacks''))"
  "find (\<lambda>m. pd_eq (m ''Real Item Name'') (Text ''Item-Y'')) (rows (name_ref_clean example_name_ref)) =
     None"
  "find (\<lambda>m. pd_eq (m ''Real Item Name'') (Text ''Item-Z'')) (rows (name_ref_clean example_name_ref)) =
     None"
  "find (\<lambda>m. m ''Real Item Name'' = Text ''Item-X'') (rows (name_ref_clean example_name_ref)) =
     Some (name_ref_row (name_entry ''Item-X'' ''Item-X'' ''Food'' ''Snacks''))"
  "find (\<lambda>m. m ''Real Item Name'' = Text ''Item-Y'') (rows (name_ref_clean example_name_ref)) =
     None"
  "find (\<lambda>m. m ''Real Item Name'' = Text ''Item-Z'') (rows (name_ref_clean example_name_ref)) =
     None"
  by (simp_all add: example_item_mapping name_ref_row_simps example_cells pd_eq_def)

lemma hinted_blocks_dashboard:
  "concat (map (\<lambda>T. map (\<lambda>component.
          case find (\<lambda>m. pd_eq (m ''Real Item Name'') (component ''Real Item Name''))
                 (rows (name_ref_clean example_name_ref)) of
            Some m \<Rightarrow> m ''Parent Category''
          | None \<Rightarrow> component ''Category'')
            (components_of (combo_ref_clean hinted_combo_ref) T))
        (filter (is_combo (combo_ref_clean hinted_combo_ref)) (rows example_cleaned))) =
   [Text ''Food'', Text ''Drinks'', NaN]"
  "concat (map (\<lambda>T. map (\<lambda>component. astype_str example_lib (fillna (Text ''Unknown'')
         (case find (\<lambda>m. pd_eq (m ''Real Item Name'') (component ''Real Item Name''))
                 (rows (name_ref_clean example_name_ref)) of
            Some m \<Rightarrow> m ''Sub Category''
          | None \<Rightarrow> (if component ''Sub Category'' \<noteq> NaN then component ''Sub Category''
                     else component ''Real Item Name''))))
            (components_of (combo_ref_clean hinted_combo_ref) T))
        (filter (is_combo (combo_ref_clean hinted_combo_ref)) (rows example_cleaned))) =
   [Text ''Snacks'', Text ''Juice'', Text ''Item-Z'']"
  by (simp_all add: hinted_split_dashboard hinted_components hinted_rows example_cells
      example_mapping_find name_ref_row_simps astype_str_def fillna_def)

lemma hinted_blocks_script:
  "concat (map (\<lambda>T. map (\<lambda>component.
          case find (\<lambda>m. m ''Real Item Name'' = component ''Real Item Name'')
                 (rows (name_ref_clean example_name_ref)) of
            Some m \<Rightarrow> fillna (Text ''Unknown'') (m ''Parent Category'')
          | None \<Rightarrow> Text ''Unknown'')
            (components_of (combo_ref_clean_script hinted_combo_ref) T))
        (filter (is_combo (combo_ref_clean_script hinted_combo_ref))
           (rows example_cleaned_script))) =
   [Text ''Food'', Text ''Unknown'', Text ''Unknown'']"
  "concat (map (\<lambda>T. map (\<lambda>component.
          case find (\<lambda>m. m ''Real Item Name'' = component ''Real Item Name'')
                 (rows (name_ref_clean example_name_ref)) of
            Some m \<Rightarrow> fillna (Text ''Unknown'') (m ''Sub Category'')
          | None \<Rightarrow> Text ''Unknown'')
            (components_of (combo_ref_clean_script hinted_combo_ref) T))
        (filter (is_combo (combo_ref_clean_script hinted_combo_ref))
           (rows example_cleaned_script))) =
   [Text ''Snacks'', Text ''Unknown'', Text ''Unknown'']"
  by (simp_all add: hinted_split_script hinted_components hinted_rows example_cells
      example_mapping_find name_ref_row_simps fillna_def)

lemma hinted_names:
  "drop 2 (column ''Real Item Name''
     (rows (quantity_of example_sales example_name_ref hinted_combo_ref))) =
   [Text ''Item-X'', Text ''Item-Y'', Text ''Item-Z'']"
  "drop 2 (column ''Real Item Name''
     (rows (quantity_of_script example_sales example_name_ref hinted_combo_ref))) =
   [Text ''Item-X'', Text ''Item-Y'', Text ''Item-Z'']"
proof -
  have p: "''Parent Category'' \<notin> set (columns example_cleaned_script)"
    using example_missing_script by (rule no_clash_cleaned_script)
  have "drop 2 (column ''Real Item Name''
     (rows (quantity_of example_sales example_name_ref hinted_combo_ref))) =
     concat (map (\<lambda>T. column ''Real Item Name'' (components_of (combo_ref_clean hinted_combo_ref) T))
             (filter (is_combo (combo_ref_clean hinted_combo_ref)) (rows example_cleaned)))"
    using names_quantity_dashboard [of "combo_ref_clean hinted_combo_ref" example_cleaned
        example_lib example_name_ref]
    by (simp only: hinted_split_dashboard)
  then show "drop 2 (column ''Real Item Name''
     (rows (quantity_of example_sales example_name_ref hinted_combo_ref))) =
   [Text ''Item-X'', Text ''Item-Y'', Text ''Item-Z'']"
    by (simp add: hinted_split_dashboard hinted_components column_def hinted_rows
        example_cells)
  have "drop 2 (column ''Real Item Name''
     (rows (quantity_of_script example_sales example_name_ref hinted_combo_ref))) =
     concat (map (\<lambda>T. column ''Real Item Name''
                         (components_of (combo_ref_clean_script hinted_combo_ref) T))
             (filter (is_combo (combo_ref_clean_script hinted_combo_ref))
                (rows example_cleaned_script)))"
    using names_quantity_script [OF p, of "combo_ref_clean_script hinted_combo_ref"
        example_name_ref]
    by (simp only: hinted_split_script)
  then show "drop 2 (column ''Real Item Name''
     (rows (quantity_of_script example_sales example_name_ref hinted_combo_ref))) =
   [Text ''Item-X'', Text ''Item-Y'', Text ''Item-Z'']"
    by (simp add: hinted_split_script hinted_components column_def hinted_rows
        example_cells)
qed

theorem category_resolution_witness:
  "load_data example_lib example_sales example_name_ref hinted_combo_ref =
     Inr (revenue_of example_sales example_name_ref,
          quantity_of example_sales example_name_ref hinted_combo_ref) \<and>
   column ''Real Item Name'' (rows (name_ref_clean example_name_ref)) =
     [Text ''Masala Tea'', Text ''Item-X''] \<and>
   column ''Parent Category'' (rows (name_ref_clean example_name_ref)) =
     [Text ''Beverages'', Text ''Food''] \<and>
   column ''Sub Category'' (rows (name_ref_clean example_name_ref)) =
     [Text ''Hot'', Text ''Snacks''] \<and>
   column ''Real Item Name'' (rows hinted_combo_ref) =
     [Text ''Item-X'', Text ''Item-Y'', Text ''Item-Z''] \<and>
   column ''Category'' (rows hinted_combo_ref) = [Text ''Meals'', Text ''Drinks'', NaN] \<and>
   column ''Sub Category'' (rows hinted_combo_ref) = [Text ''Plates'', Text ''Juice'', NaN] \<and>
   drop 2 (column ''Real Item Name''
     (rows (quantity_of example_sales example_name_ref hinted_combo_ref))) =
     [Text ''Item-X'', Text ''Item-Y'', Text ''Item-Z''] \<and>
   drop 2 (column ''Parent Category''
     (rows (quantity_of example_sales example_name_ref hinted_combo_ref))) =
     [Text ''Food'', Text ''Drinks'', NaN] \<and>
   drop 2 (column ''Sub Category''
     (rows (quantity_of example_sales example_name_ref hinted_combo_ref))) =
     [Text ''Snacks'', Text ''Juice'', Text ''Item-Z''] \<and>
   sales_analysis example_lib example_sales example_name_ref hinted_combo_ref =
     Inr (revenue_of_script example_sales example_name_ref,
          quantity_of_script example_sales example_name_ref hinted_combo_ref) \<and>
   drop 2 (column ''Real Item Name''
     (rows (quantity_of_script example_sales example_name_ref hinted_combo_ref))) =
     [Text ''Item-X'', Text ''Item-Y'', Text ''Item-Z''] \<and>
   drop 2 (column ''Parent Category''
     (rows (quantity_of_script example_sales example_name_ref hinted_combo_ref))) =
     [Text ''Food'', Text ''Unknown'', Text ''Unknown''] \<and>
   drop 2 (column ''Sub Category''
     (rows (quantity_of_script example_sales example_name_ref hinted_combo_ref))) =
     [Text ''Snacks'', Text ''Unknown'', Text ''Unknown'']"
proof -
  note c = category_resolution [of example_lib example_sales example_name_ref hinted_combo_ref
      "revenue_of example_sales example_name_ref"
      "quantity_of example_sales example_name_ref hinted_combo_ref"
      "revenue_of_script example_sales example_name_ref"
      "quantity_of_script example_sales example_name_ref hinted_combo_ref"]
  from c hinted_load_data
  have d: "drop 2 (column ''Parent Category''
     (rows (quantity_of example_sales example_name_ref hinted_combo_ref))) =
     [Text ''Food'', Text ''Drinks'', NaN]"
    "drop 2 (column ''Sub Category''
     (rows (quantity_of example_sales example_name_ref hinted_combo_ref))) =
     [Text ''Snacks'', Text ''Juice'', Text ''Item-Z'']"
    by (simp_all only: hinted_split_dashboard(2) hinted_blocks_dashboard simp_thms)
  from c hinted_sales_analysis
  have s: "drop 2 (column ''Parent Category''
     (rows (quantity_of_script example_sales example_name_ref hinted_combo_ref))) =
     [Text ''Food'', Text ''Unknown'', Text ''Unknown'']"
    "drop 2 (column ''Sub Category''
     (rows (quantity_of_script example_sales example_name_ref hinted_combo_ref))) =
     [Text ''Snacks'', Text ''Unknown'', Text ''Unknown'']"
    by (simp_all only: hinted_split_script(2) hinted_blocks_script simp_thms)
  show ?thesis
    using d s hinted_load_data hinted_sales_analysis hinted_hints example_mapping_columns
      hinted_names
    by (simp only: simp_thms)
qed

lemma hinted_unmapped:
  "Text ''Item-Y'' \<notin> set (column ''Real Item Name'' (rows (name_ref_clean example_name_ref)))"
  "Text ''Item-Z'' \<notin> set (column ''Real Item Name'' (rows (name_ref_clean example_name_ref)))"
  by (simp_all add: example_mapping_columns)

lemma hinted_categories_script:
  "drop 2 (column ''Parent Category''
     (rows (quantity_of_script example_sales example_name_ref hinted_combo_ref))) =
     [Text ''Food'', Text ''Unknown'', Text ''Unknown'']"
  "drop 2 (column ''Sub Category''
     (rows (quantity_of_script example_sales example_name_ref hinted_combo_ref))) =
     [Text ''Snacks'', Text ''Unknown'', Text ''Unknown'']"
proof -
  have p: "''Parent Category'' \<notin> set (columns example_cleaned_script)"
    using example_missing_script by (rule no_clash_cleaned_script)
  have a: "''Parent Category'' \<in> set [''Parent Category'', ''Sub Category'']"
    and b: "''Sub Category'' \<in> set [''Parent Category'', ''Sub Category'']"
    by simp_all
  show "drop 2 (column ''Parent Category''
     (rows (quantity_of_script example_sales example_name_ref hinted_combo_ref))) =
     [Text ''Food'', Text ''Unknown'', Text ''Unknown'']"
    using category_quantity_script [OF p a, of "combo_ref_clean_script hinted_combo_ref"
        example_name_ref]
    by (simp only: hinted_split_script(2) hinted_blocks_script)
  show "drop 2 (column ''Sub Category''
     (rows (quantity_of_script example_sales example_name_ref hinted_combo_ref))) =
     [Text ''Snacks'', Text ''Unknown'', Text ''Unknown'']"
    using category_quantity_script [OF p b, of "combo_ref_clean_script hinted_combo_ref"
        example_name_ref]
    by (simp only: hinted_split_script(2) hinted_blocks_script)
qed

theorem category_resolution_counterexample:
  "sales_analysis example_lib example_sales example_name_ref hinted_combo_ref =
     Inr (revenue_of_script example_sales example_name_ref,
          quantity_of_script example_sales example_name_ref hinted_combo_ref) \<and>
   column ''Real Item Name'' (rows hinted_combo_ref) =
     [Text ''Item-X'', Text ''Item-Y'', Text ''Item-Z''] \<and>
   column ''Category'' (rows hinted_combo_ref) = [Text ''Meals'', Text ''Drinks'', NaN] \<and>
   column ''Sub Category'' (rows hinted_combo_ref) = [Text ''Plates'', Text ''Juice'', NaN] \<and>
   Text ''Item-Y'' \<notin> set (column ''Real Item Name'' (rows (name_ref_clean example_name_ref))) \<and>
   Text ''Item-Z'' \<notin> set (column ''Real Item Name'' (rows (name_ref_clean example_name_ref))) \<and>
   drop 2 (column ''Real Item Name''
     (rows (quantity_of_script example_sales example_name_ref hinted_combo_ref))) =
     [Text ''Item-X'', Text ''Item-Y'', Text ''Item-Z''] \<and>
   drop 2 (column ''Parent Category''
     (rows (quantity_of_script example_sales example_name_ref hinted_combo_ref))) =
     [Text ''Food'', Text ''Unknown'', Text ''Unknown''] \<and>
   drop 2 (column ''Sub Category''
     (rows (quantity_of_script example_sales example_name_ref hinted_combo_ref))) =
     [Text ''Snacks'', Text ''Unknown'', Text ''Unknown'']"
  using hinted_sales_analysis hinted_hints hinted_unmapped hinted_names(2)
    hinted_categories_script
  by (simp only: simp_thms)

text \<open>The fallback on the rows of the two views that come from one transaction.\<close>

lemma nth_quantity_dashboard:
  assumes "i < length (filter (\<lambda>r. \<not> is_combo cref r) (rows df))"
  shows "rows (quantity_analysis lib df (name_ref_clean n) cref) ! i =
         clean_sub_category lib
           (enrich (astype_str lib) (name_ref_clean n) (filter (\<lambda>r. \<not> is_combo cref r) (rows df) ! i))"
  using assms by (simp add: rows_quantity_analysis [OF distinct_name_ref_clean] nth_append)

lemma nth_quantity_script:
  assumes "''Parent Category'' \<notin> set (columns df)"
    and "i < length (filter (\<lambda>r. \<not> is_combo cref r) (rows df))"
  shows "rows (quantity_analysis_script df (name_ref_clean n) cref) ! i =
         enrich (\<lambda>c. c) (name_ref_clean n) (filter (\<lambda>r. \<not> is_combo cref r) (rows df) ! i)"
  using assms(2)
  by (simp add: rows_quantity_analysis_script [OF distinct_name_ref_clean assms(1)] nth_append)

lemma enrich_fallback:
  assumes "l ''Item Name'' \<notin> set (column ''Item'' (rows n))"
  shows "enrich post (name_ref_clean n) l ''Real Item Name'' = l ''Item Name''"
    and "enrich post (name_ref_clean n) l ''Parent Category'' = Text ''Unknown''"
    and "enrich post (name_ref_clean n) l ''Sub Category'' = post (Text ''Unknown'')"
proof -
  from assms have a: "l ''Item Name'' \<notin> set (column ''Item Name'' (rows (name_ref_clean n)))"
    by (simp add: item_names_name_ref_clean)
  note u = enrich_unmapped [of "name_ref_clean n" l post, OF columns_name_ref_clean a]
  show "enrich post (name_ref_clean n) l ''Real Item Name'' = l ''Item Name''"
    by (rule u(1))
  show "enrich post (name_ref_clean n) l ''Parent Category'' = Text ''Unknown''"
    by (rule u(2))
  show "enrich post (name_ref_clean n) l ''Sub Category'' = post (Text ''Unknown'')"
    by (rule u(3))
qed

lemma clean_sub_category_fallback:
  assumes "l ''Item Name'' \<notin> set (column ''Item'' (rows n))"
  shows "clean_sub_category lib (enrich (astype_str lib) (name_ref_clean n) l) ''Real Item Name'' =
           l ''Item Name''"
    and "clean_sub_category lib (enrich (astype_str lib) (name_ref_clean n) l) ''Parent Category'' =
           Text ''Unknown''"
    and "clean_sub_category lib (enrich (astype_str lib) (name_ref_clean n) l) ''Sub Category'' =
           Text ''Unknown''"
  by (simp_all add: clean_sub_category_def upd_def enrich_fallback [of l n, OF assms] astype_str_def
      fillna_def)

text \<open>
  C9. Fallback for unmapped items. In both programs a transaction whose item name does
  not occur in the item mapping's \<^verbatim>\<open>Item\<close> column gets, in the revenue view, its own
  item name as canonical name and \<^verbatim>\<open>Unknown\<close> as parent and as sub category; so does its
  row in the quantity view when the transaction is no combo (the rows of a combo carry
  the names and categories of its components instead). A run that returns views returns
  these views and no others: they are a function of the three sheets.
\<close>

theorem fallback_determinism:
  "(load_data lib df_sales df_name_ref df_combo_ref = Inr (revenue, quantity) \<longrightarrow>
      (\<forall>i. i < length (rows (cleaned_dashboard lib df_sales)) \<and>
            (rows (cleaned_dashboard lib df_sales) ! i) ''Item Name''
              \<notin> set (column ''Item'' (rows df_name_ref)) \<longrightarrow>
         (rows revenue ! i) ''Real Item Name'' =
           (rows (cleaned_dashboard lib df_sales) ! i) ''Item Name'' \<and>
         (rows revenue ! i) ''Parent Category'' = Text ''Unknown'' \<and>
         (rows revenue ! i) ''Sub Category'' = Text ''Unknown'') \<and>
      (\<forall>i. i < length (filter (\<lambda>r. \<not> is_combo (combo_ref_clean df_combo_ref) r)
                         (rows (cleaned_dashboard lib df_sales))) \<and>
            (filter (\<lambda>r. \<not> is_combo (combo_ref_clean df_combo_ref) r)
               (rows (cleaned_dashboard lib df_sales)) ! i) ''Item Name''
              \<notin> set (column ''Item'' (rows df_name_ref)) \<longrightarrow>
         (rows quantity ! i) ''Real Item Name'' =
           (filter (\<lambda>r. \<not> is_combo (combo_ref_clean df_combo_ref) r)
              (rows (cleaned_dashboard lib df_sales)) ! i) ''Item Name'' \<and>
         (rows quantity ! i) ''Parent Category'' = Text ''Unknown'' \<and>
         (rows quantity ! i) ''Sub Category'' = Text ''Unknown'') \<and>
      (\<forall>revenue2 quantity2.
         load_data lib df_sales df_name_ref df_combo_ref = Inr (revenue2, quantity2) \<longrightarrow>
         revenue2 = revenue \<and> quantity2 = quantity)) \<and>
   (sales_analysis lib df_sales df_name_ref df_combo_ref = Inr (revenue', quantity') \<longrightarrow>
      (\<forall>i. i < length (rows (cleaned_script lib df_sales)) \<and>
            (rows (cleaned_script lib df_sales) ! i) ''Item Name''
              \<notin> set (column ''Item'' (rows df_name_ref)) \<longrightarrow>
         (rows revenue' ! i) ''Real Item Name'' =
           (rows (cleaned_script lib df_sales) ! i) ''Item Name'' \<and>
         (rows revenue' ! i) ''Parent Category'' = Text ''Unknown'' \<and>
         (rows revenue' ! i) ''Sub Category'' = Text ''Unknown'') \<and>
      (\<forall>i. i < length (filter (\<lambda>r. \<not> is_combo (combo_ref_clean_script df_combo_ref) r)
                         (rows (cleaned_script lib df_sales))) \<and>
            (filter (\<lambda>r. \<not> is_combo (combo_ref_clean_script df_combo_ref) r)
               (rows (cleaned_script lib df_sales)) ! i) ''Item Name''
              \<notin> set (column ''Item'' (rows df_name_ref)) \<longrightarrow>
         (rows quantity' ! i) ''Real Item Name'' =
           (filter (\<lambda>r. \<not> is_combo (combo_ref_clean_script df_combo_ref) r)
              (rows (cleaned_script lib df_sales)) ! i) ''Item Name'' \<and>
         (rows quantity' ! i) ''Parent Category'' = Text ''Unknown'' \<and>
         (rows quantity' ! i) ''Sub Category'' = Text ''Unknown'') \<and>
      (\<forall>revenue2 quantity2.
         sales_analysis lib df_sales df_name_ref df_combo_ref = Inr (revenue2, quantity2) \<longrightarrow>
         revenue2 = revenue' \<and> quantity2 = quantity'))"
proof (intro conjI impI allI; (elim conjE)?)
  fix i
  assume l: "load_data lib df_sales df_name_ref df_combo_ref = Inr (revenue, quantity)"
    and i: "i < length (rows (cleaned_dashboard lib df_sales))"
    and a: "(rows (cleaned_dashboard lib df_sales) ! i) ''Item Name''
              \<notin> set (column ''Item'' (rows df_name_ref))"
  have r: "rows revenue ! i =
        enrich (astype_str lib) (name_ref_clean df_name_ref) (rows (cleaned_dashboard lib df_sales) ! i)"
    using load_data_Inr(2) [OF l] i by (simp add: rows_revenue_analysis)
  show "(rows revenue ! i) ''Real Item Name'' =
         (rows (cleaned_dashboard lib df_sales) ! i) ''Item Name''"
    "(rows revenue ! i) ''Parent Category'' = Text ''Unknown''"
    "(rows revenue ! i) ''Sub Category'' = Text ''Unknown''"
    by (simp_all add: r enrich_fallback [of "rows (cleaned_dashboard lib df_sales) ! i" df_name_ref,
          OF a] astype_str_def)
next
  fix i
  assume l: "load_data lib df_sales df_name_ref df_combo_ref = Inr (revenue, quantity)"
    and i: "i < length (filter (\<lambda>r. \<not> is_combo (combo_ref_clean df_combo_ref) r)
                         (rows (cleaned_dashboard lib df_sales)))"
    and a: "(filter (\<lambda>r. \<not> is_combo (combo_ref_clean df_combo_ref) r)
               (rows (cleaned_dashboard lib df_sales)) ! i) ''Item Name''
              \<notin> set (column ''Item'' (rows df_name_ref))"
  note r = nth_quantity_dashboard [OF i, of lib df_name_ref]
  show "(rows quantity ! i) ''Real Item Name'' =
           (filter (\<lambda>r. \<not> is_combo (combo_ref_clean df_combo_ref) r)
              (rows (cleaned_dashboard lib df_sales)) ! i) ''Item Name''"
    "(rows quantity ! i) ''Parent Category'' = Text ''Unknown''"
    "(rows quantity ! i) ''Sub Category'' = Text ''Unknown''"
    unfolding load_data_Inr(3) [OF l]
    by (simp_all only: r clean_sub_category_fallback
        [of "filter (\<lambda>r. \<not> is_combo (combo_ref_clean df_combo_ref) r)
               (rows (cleaned_dashboard lib df_sales)) ! i" df_name_ref, OF a])
next
  fix revenue2 quantity2
  assume "load_data lib df_sales df_name_ref df_combo_ref = Inr (revenue, quantity)"
    and "load_data lib df_sales df_name_ref df_combo_ref = Inr (revenue2, quantity2)"
  then show "revenue2 = revenue" "quantity2 = quantity"
    by simp_all
next
  fix i
  assume l: "sales_analysis lib df_sales df_name_ref df_combo_ref = Inr (revenue', quantity')"
    and i: "i < length (rows (cleaned_script lib df_sales))"
    and a: "(rows (cleaned_script lib df_sales) ! i) ''Item Name''
              \<notin> set (column ''Item'' (rows df_name_ref))"
  have r: "rows revenue' ! i =
        enrich (\<lambda>c. c) (name_ref_clean df_name_ref) (rows (cleaned_script lib df_sales) ! i)"
    using sales_analysis_Inr(2) [OF l] i by (simp add: rows_revenue_analysis_script)
  show "(rows revenue' ! i) ''Real Item Name'' =
         (rows (cleaned_script lib df_sales) ! i) ''Item Name''"
    "(rows revenue' ! i) ''Parent Category'' = Text ''Unknown''"
    "(rows revenue' ! i) ''Sub Category'' = Text ''Unknown''"
    by (simp_all add: r enrich_fallback [of "rows (cleaned_script lib df_sales) ! i" df_name_ref,
          OF a])
next
  fix i
  assume l: "sales_analysis lib df_sales df_name_ref df_combo_ref = Inr (revenue', quantity')"
    and i: "i < length (filter (\<lambda>r. \<not> is_combo (combo_ref_clean_script df_combo_ref) r)
                         (rows (cleaned_script lib df_sales)))"
    and a: "(filter (\<lambda>r. \<not> is_combo (combo_ref_clean_script df_combo_ref) r)
               (rows (cleaned_script lib df_sales)) ! i) ''Item Name''
              \<notin> set (column ''Item'' (rows df_name_ref))"
  note p = no_clash_cleaned_script [OF sales_analysis_Inr(1) [OF l], of lib]
  note r = nth_quantity_script [OF p i, of df_name_ref]
  show "(rows quantity' ! i) ''Real Item Name'' =
           (filter (\<lambda>r. \<not> is_combo (combo_ref_clean_script df_combo_ref) r)
              (rows (cleaned_script lib df_sales)) ! i) ''Item Name''"
    "(rows quantity' ! i) ''Parent Category'' = Text ''Unknown''"
    "(rows quantity' ! i) ''Sub Category'' = Text ''Unknown''"
    unfolding sales_analysis_Inr(3) [OF l]
    by (simp_all only: r enrich_fallback
        [of "filter (\<lambda>r. \<not> is_combo (combo_ref_clean_script df_combo_ref) r)
               (rows (cleaned_script lib df_sales)) ! i" df_name_ref, OF a])
next
  fix revenue2 quantity2
  assume "sales_analysis lib df_sales df_name_ref df_combo_ref = Inr (revenue', quantity')"
    and "sales_analysis lib df_sales df_name_ref df_combo_ref = Inr (revenue2, quantity2)"
  then show "revenue2 = revenue'" "quantity2 = quantity'"
    by simp_all
qed

lemma example_combo_ref_rows:
  "rows example_combo_ref =
     [combo_entry (Text ''Combo-A'') ''Item-X'' (Text ''Food'') (Text ''Snacks''),
      combo_entry (Text ''Combo-A'') ''Item-Y'' (Text ''Drinks'') (Text ''Juice'')]"
  by (simp add: example_combo_ref_def)

lemma example_parent_blocks:
  "concat (map (\<lambda>T. map (\<lambda>component.
          case find (\<lambda>m. pd_eq (m ''Real Item Name'') (component ''Real Item Name''))
                 (rows (name_ref_clean example_name_ref)) of
            Some m \<Rightarrow> m ''Parent Category''
          | None \<Rightarrow> component ''Category'')
            (components_of (combo_ref_clean example_combo_ref) T))
        (filter (is_combo (combo_ref_clean example_combo_ref)) (rows example_cleaned))) =
   [Text ''Food'', Text ''Drinks'']"
  by (simp add: example_split_dashboard example_components example_combo_ref_rows example_cells
      example_mapping_find name_ref_row_simps)

lemma example_quantity_invoices:
  "column ''Invoice No.'' (rows example_quantity) = [Number 3, Number 4, Number 1, Number 1]"
  "column ''Invoice No.'' (rows example_quantity_script) =
     [Number 3, Number 4, Number 1, Number 1]"
proof -
  have p: "''Parent Category'' \<notin> set (columns example_cleaned_script)"
    using example_missing_script by (rule no_clash_cleaned_script)
  have i: "''Invoice No.'' \<notin> set [''Real Item Name'', ''Qty.'', ''Parent Category'',
             ''Sub Category'']"
    and j: "''Invoice No.'' \<notin> set [''Real Item Name'', ''Qty.'', ''Parent Category'',
             ''Sub Category'', ''Component Qty'']"
    by simp_all
  show "column ''Invoice No.'' (rows example_quantity) =
      [Number 3, Number 4, Number 1, Number 1]"
    by (simp only: column_quantity_dashboard_other [OF i] example_blocks_dashboard example_cells)
  show "column ''Invoice No.'' (rows example_quantity_script) =
     [Number 3, Number 4, Number 1, Number 1]"
    by (simp only: column_quantity_script_other [OF p j] example_blocks_script example_cells)
qed

lemma example_quantity_names:
  "drop 2 (column ''Real Item Name'' (rows example_quantity)) =
     [Text ''Item-X'', Text ''Item-Y'']"
  "drop 2 (column ''Real Item Name'' (rows example_quantity_script)) =
     [Text ''Item-X'', Text ''Item-Y'']"
proof -
  have p: "''Parent Category'' \<notin> set (columns example_cleaned_script)"
    using example_missing_script by (rule no_clash_cleaned_script)
  show "drop 2 (column ''Real Item Name'' (rows example_quantity)) =
     [Text ''Item-X'', Text ''Item-Y'']"
    using names_quantity_dashboard [of "combo_ref_clean example_combo_ref" example_cleaned
        example_lib example_name_ref]
    by (simp only: example_sizes component_names_dashboard example_names_blocks)
  show "drop 2 (column ''Real Item Name'' (rows example_quantity_script)) =
     [Text ''Item-X'', Text ''Item-Y'']"
    using names_quantity_script [OF p, of "combo_ref_clean_script example_combo_ref"
        example_name_ref]
    by (simp only: example_sizes component_names_script example_names_blocks)
qed

lemma example_quantity_parents:
  "drop 2 (column ''Parent Category'' (rows example_quantity)) = [Text ''Food'', Text ''Drinks'']"
  using parent_quantity_dashboard [of "combo_ref_clean example_combo_ref" example_cleaned
      example_lib example_name_ref]
  by (simp only: example_sizes example_parent_blocks)

lemma example_combo_unmapped:
  "Text ''Combo-A'' \<notin> set (column ''Item'' (rows example_name_ref))"
  by (simp add: example_items)

theorem fallback_determinism_witness:
  "load_data example_lib example_sales example_name_ref example_combo_ref =
     Inr (example_revenue, example_quantity) \<and>
   2 < length (rows example_cleaned) \<and>
   (rows example_cleaned ! 2) ''Item Name'' = Text ''Mystery'' \<and>
   Text ''Mystery'' \<notin> set (column ''Item'' (rows example_name_ref)) \<and>
   (rows example_revenue ! 2) ''Real Item Name'' = Text ''Mystery'' \<and>
   (rows example_revenue ! 2) ''Parent Category'' = Text ''Unknown'' \<and>
   (rows example_revenue ! 2) ''Sub Category'' = Text ''Unknown'' \<and>
   (rows example_quantity ! 1) ''Real Item Name'' = Text ''Mystery'' \<and>
   (rows example_quantity ! 1) ''Parent Category'' = Text ''Unknown'' \<and>
   (rows example_quantity ! 1) ''Sub Category'' = Text ''Unknown'' \<and>
   sales_analysis example_lib example_sales example_name_ref example_combo_ref =
     Inr (example_revenue_script, example_quantity_script) \<and>
   2 < length (rows example_cleaned_script) \<and>
   (rows example_cleaned_script ! 2) ''Item Name'' = Text ''Mystery'' \<and>
   (rows example_revenue_script ! 2) ''Real Item Name'' = Text ''Mystery'' \<and>
   (rows example_revenue_script ! 2) ''Parent Category'' = Text ''Unknown'' \<and>
   (rows example_revenue_script ! 2) ''Sub Category'' = Text ''Unknown'' \<and>
   (rows example_quantity_script ! 1) ''Real Item Name'' = Text ''Mystery'' \<and>
   (rows example_quantity_script ! 1) ''Parent Category'' = Text ''Unknown'' \<and>
   (rows example_quantity_script ! 1) ''Sub Category'' = Text ''Unknown''"
proof -
  note c = fallback_determinism [of example_lib example_sales example_name_ref example_combo_ref
      example_revenue example_quantity example_revenue_script example_quantity_script]
  have l: "2 < length (rows example_cleaned)" "2 < length (rows example_cleaned_script)"
    by (simp_all add: example_length_cleaned example_length_cleaned_script)
  have u: "(rows example_cleaned ! 2) ''Item Name'' \<notin> set (column ''Item'' (rows example_name_ref))"
    "(rows example_cleaned_script ! 2) ''Item Name'' \<notin> set (column ''Item'' (rows example_name_ref))"
    by (simp_all only: example_third_item example_mystery_unmapped simp_thms)
  have n: "1 < length (filter (\<lambda>r. \<not> is_combo (combo_ref_clean example_combo_ref) r)
                         (rows example_cleaned))"
    "(filter (\<lambda>r. \<not> is_combo (combo_ref_clean example_combo_ref) r)
        (rows example_cleaned) ! 1) ''Item Name'' = Text ''Mystery''"
    "1 < length (filter (\<lambda>r. \<not> is_combo (combo_ref_clean_script example_combo_ref) r)
                         (rows example_cleaned_script))"
    "(filter (\<lambda>r. \<not> is_combo (combo_ref_clean_script example_combo_ref) r)
        (rows example_cleaned_script) ! 1) ''Item Name'' = Text ''Mystery''"
    by (simp_all add: example_split_dashboard example_split_script example_cells)
  have m: "(filter (\<lambda>r. \<not> is_combo (combo_ref_clean example_combo_ref) r)
        (rows example_cleaned) ! 1) ''Item Name'' \<notin> set (column ''Item'' (rows example_name_ref))"
    "(filter (\<lambda>r. \<not> is_combo (combo_ref_clean_script example_combo_ref) r)
        (rows example_cleaned_script) ! 1) ''Item Name''
       \<notin> set (column ''Item'' (rows example_name_ref))"
    by (simp_all only: n example_mystery_unmapped simp_thms)
  from c example_load_data l(1) u(1)
  have d: "(rows example_revenue ! 2) ''Real Item Name'' = (rows example_cleaned ! 2) ''Item Name'' \<and>
    (rows example_revenue ! 2) ''Parent Category'' = Text ''Unknown'' \<and>
    (rows example_revenue ! 2) ''Sub Category'' = Text ''Unknown''"
    by blast
  from c example_load_data n(1) m(1)
  have e: "(rows example_quantity ! 1) ''Real Item Name'' =
      (filter (\<lambda>r. \<not> is_combo (combo_ref_clean example_combo_ref) r)
        (rows example_cleaned) ! 1) ''Item Name'' \<and>
    (rows example_quantity ! 1) ''Parent Category'' = Text ''Unknown'' \<and>
    (rows example_quantity ! 1) ''Sub Category'' = Text ''Unknown''"
    by blast
  from c example_sales_analysis l(2) u(2)
  have s: "(rows example_revenue_script ! 2) ''Real Item Name'' =
      (rows example_cleaned_script ! 2) ''Item Name'' \<and>
    (rows example_revenue_script ! 2) ''Parent Category'' = Text ''Unknown'' \<and>
    (rows example_revenue_script ! 2) ''Sub Category'' = Text ''Unknown''"
    by blast
  from c example_sales_analysis n(3) m(2)
  have t: "(rows example_quantity_script ! 1) ''Real Item Name'' =
      (filter (\<lambda>r. \<not> is_combo (combo_ref_clean_script example_combo_ref) r)
        (rows example_cleaned_script) ! 1) ''Item Name'' \<and>
    (rows example_quantity_script ! 1) ''Parent Category'' = Text ''Unknown'' \<and>
    (rows example_quantity_script ! 1) ''Sub Category'' = Text ''Unknown''"
    by blast
  show ?thesis
    using d e s t l example_load_data example_sales_analysis example_mystery_unmapped
    by (simp only: example_third_item n simp_thms)
qed

theorem fallback_determinism_counterexample:
  "load_data example_lib example_sales example_name_ref example_combo_ref =
     Inr (example_revenue, example_quantity) \<and>
   column ''Item Name'' (rows example_cleaned) =
     [Text ''Combo-A'', Text ''Tea'', Text ''Mystery''] \<and>
   column ''Invoice No.'' (rows example_cleaned) = [Number 1, Number 3, Number 4] \<and>
   Text ''Combo-A'' \<notin> set (column ''Item'' (rows example_name_ref)) \<and>
   column ''Invoice No.'' (rows example_quantity) = [Number 3, Number 4, Number 1, Number 1] \<and>
   drop 2 (column ''Real Item Name'' (rows example_quantity)) =
     [Text ''Item-X'', Text ''Item-Y''] \<and>
   drop 2 (column ''Parent Category'' (rows example_quantity)) =
     [Text ''Food'', Text ''Drinks''] \<and>
   sales_analysis example_lib example_sales example_name_ref example_combo_ref =
     Inr (example_revenue_script, example_quantity_script) \<and>
   column ''Invoice No.'' (rows example_quantity_script) =
     [Number 3, Number 4, Number 1, Number 1] \<and>
   drop 2 (column ''Real Item Name'' (rows example_quantity_script)) =
     [Text ''Item-X'', Text ''Item-Y'']"
  using example_load_data example_sales_analysis example_item_name_dashboard
    example_invoice_dashboard example_combo_unmapped example_quantity_invoices
    example_quantity_names example_quantity_parents
  by (simp only: simp_thms)
















end
